theory Spec2Isabelle
  imports Complex_Main "HOL-Library.Sublist"
begin

section \<open>Segment planning\<close>

text \<open>
  Model of \<^verbatim>\<open>PythonCustomScripts/reencode.py\<close>.  Python floats are idealised as
  real numbers: sums, differences and comparisons are exact, and the constants
  0.01, 0.1 and 0.02 are the rationals 1/100, 1/10 and 2/100.  For the segment planner
  this agrees with the code wherever the float operations are exact: for the integer
  segment lengths that \<^verbatim>\<open>main_process\<close> passes, and in a first iteration, which only
  computes \<^verbatim>\<open>min(0.0 + segment_length, total_duration) - 0.0\<close>.  For other lengths the
  rounding of \<^verbatim>\<open>end_time - start_time\<close> can take a duration below 0.01 and end the code's
  loop earlier than the model's (\<^verbatim>\<open>calculate_segments(12.0, 0.01)\<close> stops after two
  segments).

  A segment is the dictionary with the keys \<^verbatim>\<open>start\<close>, \<^verbatim>\<open>end\<close> and
  \<^verbatim>\<open>duration\<close> that \<^verbatim>\<open>calculate_segments\<close> appends.
\<close>

record segment =
  seg_start :: real
  seg_end :: real
  seg_duration :: real

text \<open>
  The \<^verbatim>\<open>while current_time < total_duration\<close> loop of \<^verbatim>\<open>calculate_segments\<close>.
  The list built by \<^verbatim>\<open>segments.append\<close> is returned in order of creation; the
  \<^verbatim>\<open>break\<close> on a segment shorter than 0.01 ends the loop.
\<close>

function segments_loop :: "real \<Rightarrow> real \<Rightarrow> real \<Rightarrow> segment list" where
  "segments_loop total_duration segment_length current_time =
     (if current_time < total_duration then
        (let start_time = current_time;
             end_time = min (current_time + segment_length) total_duration;
             segment_duration = end_time - start_time
         in if segment_duration < 1 / 100 then []
            else \<lparr>seg_start = start_time, seg_end = end_time, seg_duration = segment_duration\<rparr>
                 # segments_loop total_duration segment_length (current_time + segment_length))
      else [])"
  by pat_completeness auto
termination
proof (relation "measure (\<lambda>(td, sl, ct). nat \<lceil>(td - ct) / sl\<rceil>)", goal_cases)
  case 1
  show ?case by simp
next
  case (2 td sl ct st en du)
  from 2 have lt: "ct < td" and big: "\<not> min (ct + sl) td - ct < 1 / 100" by simp_all
  from big have sl: "1 / 100 \<le> sl" by (simp add: min_def split: if_splits)
  then have pos: "0 < sl" by simp
  have "(td - (ct + sl)) / sl = (td - ct) / sl - 1"
    using pos by (simp add: field_simps)
  then have c: "\<lceil>(td - (ct + sl)) / sl\<rceil> = \<lceil>(td - ct) / sl\<rceil> - 1" by simp
  from lt pos have "0 < (td - ct) / sl" by simp
  then have "0 < \<lceil>(td - ct) / sl\<rceil>" by linarith
  with c show ?case by simp
qed

declare segments_loop.simps [simp del]

definition calculate_segments :: "real \<Rightarrow> real \<Rightarrow> segment list" where
  "calculate_segments total_duration segment_length =
     (if total_duration \<le> 0 \<or> segment_length \<le> 0 then []
      else segments_loop total_duration segment_length 0)"

section \<open>Cancellation flags\<close>

text \<open>
  The two module-level events \<^verbatim>\<open>stop_requested_event\<close> and
  \<^verbatim>\<open>force_stop_requested_event\<close>.  They are only ever set, by \<^verbatim>\<open>signal_handler\<close>.
\<close>

record flags =
  stop_requested :: bool
  force_stop_requested :: bool

definition signal_handler :: "flags \<Rightarrow> flags" where
  "signal_handler fl =
     (if \<not> stop_requested fl then fl\<lparr>stop_requested := True\<rparr>
      else if \<not> force_stop_requested fl then fl\<lparr>force_stop_requested := True\<rparr>
      else fl)"

text \<open>\<open>n\<close> interrupt signals delivered one after the other.\<close>

definition deliver :: "nat \<Rightarrow> flags \<Rightarrow> flags" where
  "deliver n fl = (signal_handler ^^ n) fl"

section \<open>Process supervision\<close>

text \<open>
  \<^verbatim>\<open>run_ffmpeg_command\<close> drives one child process.  What the child and the operating
  system do is an input of the model:
  \<^item> \<open>launch\<close>: whether \<^verbatim>\<open>subprocess.Popen\<close> returns, raises \<^verbatim>\<open>FileNotFoundError\<close>
    or raises another exception;
  \<^item> \<open>poll p k\<close>: what \<^verbatim>\<open>process.poll()\<close> returns in the \<open>k\<close>-th test of the
    \<^verbatim>\<open>while\<close> loop (\<open>None\<close>: still running);
  \<^item> \<open>flags_at p k\<close>: the value of the two events when the \<open>k\<close>-th iteration reads them;
  \<^item> one outcome for each stage of the graceful shutdown: the request is sent and
    \<^verbatim>\<open>process.wait(timeout)\<close> returns the exit status or raises \<^verbatim>\<open>TimeoutExpired\<close>,
    or sending the request raises.  After a timeout or a failed send the code calls
    \<^verbatim>\<open>process.poll()\<close> once more; its result is part of the outcome.
  The guard \<^verbatim>\<open>process.stdin and not process.stdin.closed\<close> is true whenever it is
  evaluated (the pipe is opened by \<^verbatim>\<open>Popen\<close> and closed only after the quit token is
  written), so the quit token is always attempted.
\<close>

datatype launch = Launched | Not_found | Launch_error

datatype wait_outcome = Exited int | Timed_out "int option"

datatype stage_outcome = Sent wait_outcome | Send_failed "int option"

record process =
  launch :: launch
  poll :: "nat \<Rightarrow> int option"
  flags_at :: "nat \<Rightarrow> flags"
  quit_stage :: stage_outcome
  interrupt_stage :: stage_outcome
  terminate_stage :: stage_outcome

text \<open>What the supervisor does to the child; \<open>Wait t\<close> is \<^verbatim>\<open>process.wait(timeout=t)\<close>.\<close>

datatype action = Write_quit | Wait nat | Send_interrupt | Send_terminate | Kill

definition FFMPEG_SHUTDOWN_TIMEOUT_Q :: nat where
  "FFMPEG_SHUTDOWN_TIMEOUT_Q = 10"

definition FFMPEG_SHUTDOWN_TIMEOUT_SIG :: nat where
  "FFMPEG_SHUTDOWN_TIMEOUT_SIG = 8"

definition FFMPEG_SHUTDOWN_TIMEOUT_TERM :: nat where
  "FFMPEG_SHUTDOWN_TIMEOUT_TERM = 5"

text \<open>
  How the supervision ends: \<open>Normal rc\<close> when the loop is left and \<^verbatim>\<open>process.returncode\<close>
  is \<open>rc\<close> (\<open>None\<close> after a kill: the child was alive at the test before it and
  nothing reaps it afterwards), \<open>Exception st\<close> when
  an exception reaches \<^verbatim>\<open>except Exception\<close>, where \<open>st\<close> is what \<^verbatim>\<open>process.poll()\<close>
  returns in that handler.
\<close>

datatype supervision = Normal "int option" | Exception "int option"

text \<open>
  The body of \<^verbatim>\<open>if stop_requested_event.is_set()\<close>: quit token, interrupt, terminate,
  kill.  The source nests each stage in the exception handler of the stage before; the
  model has one function for each handler, innermost first.  \<open>st\<close> is the result of the
  \<^verbatim>\<open>process.poll()\<close> that guards the handler's body and \<open>acts\<close> what has been done so
  far.  An exception of the write is caught by
  \<^verbatim>\<open>except (OSError, ValueError, subprocess.TimeoutExpired)\<close> together with the timeout
  of the first wait; sending the interrupt or the terminate signal happens inside a
  handler, so an exception there leaves the ladder.
\<close>

definition escalate_kill :: "action list \<Rightarrow> int option \<Rightarrow> supervision \<times> action list" where
  "escalate_kill acts st =
     (case st of
        Some rc \<Rightarrow> (Normal (Some rc), acts)
      | None \<Rightarrow> (Normal None, acts @ [Kill]))"

definition escalate_terminate ::
  "process \<Rightarrow> action list \<Rightarrow> int option \<Rightarrow> supervision \<times> action list" where
  "escalate_terminate p acts st =
     (case st of
        Some rc \<Rightarrow> (Normal (Some rc), acts)
      | None \<Rightarrow>
          (case terminate_stage p of
             Send_failed st' \<Rightarrow> (Exception st', acts @ [Send_terminate])
           | Sent (Exited rc) \<Rightarrow>
               (Normal (Some rc), acts @ [Send_terminate, Wait FFMPEG_SHUTDOWN_TIMEOUT_TERM])
           | Sent (Timed_out st') \<Rightarrow>
               escalate_kill (acts @ [Send_terminate, Wait FFMPEG_SHUTDOWN_TIMEOUT_TERM]) st'))"

definition escalate_interrupt ::
  "process \<Rightarrow> action list \<Rightarrow> int option \<Rightarrow> supervision \<times> action list" where
  "escalate_interrupt p acts st =
     (case st of
        Some rc \<Rightarrow> (Normal (Some rc), acts)
      | None \<Rightarrow>
          (case interrupt_stage p of
             Send_failed st' \<Rightarrow> (Exception st', acts @ [Send_interrupt])
           | Sent (Exited rc) \<Rightarrow>
               (Normal (Some rc), acts @ [Send_interrupt, Wait FFMPEG_SHUTDOWN_TIMEOUT_SIG])
           | Sent (Timed_out st') \<Rightarrow>
               escalate_terminate p
                 (acts @ [Send_interrupt, Wait FFMPEG_SHUTDOWN_TIMEOUT_SIG]) st'))"

definition graceful_stop :: "process \<Rightarrow> supervision \<times> action list" where
  "graceful_stop p =
     (case quit_stage p of
        Sent (Exited rc) \<Rightarrow> (Normal (Some rc), [Write_quit, Wait FFMPEG_SHUTDOWN_TIMEOUT_Q])
      | Sent (Timed_out st) \<Rightarrow>
          escalate_interrupt p [Write_quit, Wait FFMPEG_SHUTDOWN_TIMEOUT_Q] st
      | Send_failed st \<Rightarrow> escalate_interrupt p [Write_quit] st)"

text \<open>
  The loop \<^verbatim>\<open>while process.poll() is None\<close>, from its \<open>k\<close>-th test on.  A child that
  never exits and is never asked to stop keeps the loop running: the result is \<open>None\<close>.
\<close>

partial_function (option) poll_loop :: "process \<Rightarrow> nat \<Rightarrow> (supervision \<times> action list) option" where
  "poll_loop p k =
     (case poll p k of
        Some rc \<Rightarrow> Some (Normal (Some rc), [])
      | None \<Rightarrow>
          if force_stop_requested (flags_at p k) then Some (Normal None, [Kill])
          else if stop_requested (flags_at p k) then Some (graceful_stop p)
          else poll_loop p (Suc k))"

record run_result =
  success :: bool
  actions :: "action list"

text \<open>
  The end of \<^verbatim>\<open>run_ffmpeg_command\<close> once the child was started: after the loop the
  function returns \<^verbatim>\<open>process.returncode == 0\<close>; the handler \<^verbatim>\<open>except Exception\<close> kills the
  child if \<^verbatim>\<open>process.poll()\<close> is \<open>None\<close> and returns \<open>False\<close>.
\<close>

definition report :: "supervision \<times> action list \<Rightarrow> run_result" where
  "report s =
     (case s of
        (Normal rc, acts) \<Rightarrow> \<lparr>success = (rc = Some 0), actions = acts\<rparr>
      | (Exception st, acts) \<Rightarrow>
          \<lparr>success = False, actions = (if st = None then acts @ [Kill] else acts)\<rparr>)"

text \<open>
  \<^verbatim>\<open>run_ffmpeg_command\<close>: the value returned and everything done to the child.  When
  \<^verbatim>\<open>Popen\<close> raises there is no child, and both handlers return \<open>False\<close>.  The thread
  that filters the child's output has no part in the result and is left out.
\<close>

definition run_ffmpeg_command :: "process \<Rightarrow> run_result option" where
  "run_ffmpeg_command p =
     (case launch p of
        Not_found \<Rightarrow> Some \<lparr>success = False, actions = []\<rparr>
      | Launch_error \<Rightarrow> Some \<lparr>success = False, actions = []\<rparr>
      | Launched \<Rightarrow> map_option report (poll_loop p 0))"

text \<open>An upper bound of the time spent in \<^verbatim>\<open>process.wait\<close>: the sum of the timeouts.\<close>

fun waited :: "action list \<Rightarrow> nat" where
  "waited [] = 0"
| "waited (Wait t # acts) = t + waited acts"
| "waited (_ # acts) = waited acts"

section \<open>Files and probing\<close>

text \<open>
  The paths the run touches.  \<open>Segment_final_file n\<close> is
  \<^verbatim>\<open>segments_dir / f"{stem}_seg{n:04d}{ext}"\<close> and \<open>Segment_part_file n\<close> the same name
  with \<^verbatim>\<open>.part\<close> appended; both lie in the segments directory, with the rerun record.
  The constructors are distinct paths: the model does not cover a destination or a
  manifest placed on one of the segment names.
\<close>

datatype path =
  Input_file | Final_output_file | Rerun_command_file | Filelist_path
  | Segment_final_file nat | Segment_part_file nat

text \<open>
  What \<^verbatim>\<open>ffprobe\<close> prints for one stream type of a file, as far as the script reads it:
  the number of entries of \<^verbatim>\<open>streams\<close> and the field \<^verbatim>\<open>format.duration\<close>, which may be
  missing, may fail to parse as a float, or is a number of seconds.  Python's \<^verbatim>\<open>float\<close>
  also accepts \<^verbatim>\<open>nan\<close> and \<^verbatim>\<open>inf\<close>; they have no counterpart among the reals and are
  left out.
\<close>

datatype duration_field = No_duration | Bad_duration | Seconds real

record ffprobe_data =
  streams :: nat
  format_duration :: duration_field

text \<open>
  A file is a media file, with what \<^verbatim>\<open>ffprobe\<close> reports for its first video and its
  first audio stream (\<open>None\<close>: the probe fails or times out) and a number standing for
  its bytes, or a text file listing paths (the manifest, the rerun record).
\<close>

datatype stored_file =
  Media "ffprobe_data option" "ffprobe_data option" nat
  | Text "path list"

type_synonym file_system = "path \<Rightarrow> stored_file option"

datatype stream_type = V | A

definition get_stream_info :: "file_system \<Rightarrow> path \<Rightarrow> stream_type \<Rightarrow> ffprobe_data option" where
  "get_stream_info fs file_path stream_type =
     (case fs file_path of
        Some (Media v a c) \<Rightarrow> (case stream_type of V \<Rightarrow> v | A \<Rightarrow> a)
      | _ \<Rightarrow> None)"

text \<open>
  The test \<^verbatim>\<open>data and "format" in data and "duration" in data["format"]\<close> followed by
  \<^verbatim>\<open>float(...)\<close> under \<^verbatim>\<open>except (ValueError, TypeError): pass\<close>.
\<close>

definition parsed_duration :: "ffprobe_data option \<Rightarrow> real option" where
  "parsed_duration data =
     (case data of
        None \<Rightarrow> None
      | Some d \<Rightarrow> (case format_duration d of Seconds x \<Rightarrow> Some x | _ \<Rightarrow> None))"

definition get_file_duration :: "file_system \<Rightarrow> path \<Rightarrow> real" where
  "get_file_duration fs file_path =
     (case parsed_duration (get_stream_info fs file_path V) of
        Some x \<Rightarrow> x
      | None \<Rightarrow>
          (case parsed_duration (get_stream_info fs file_path A) of
             Some x \<Rightarrow> x
           | None \<Rightarrow> - 1))"

definition has_audio_stream :: "file_system \<Rightarrow> path \<Rightarrow> bool" where
  "has_audio_stream fs file_path =
     (case get_stream_info fs file_path A of
        None \<Rightarrow> False
      | Some d \<Rightarrow> 0 < streams d)"

section \<open>The run\<close>

text \<open>
  The state of a run: the files, whether the segments directory exists, the two
  cancellation events, and a log of what the run looked at and started:
  \<open>Checked p\<close> for \<^verbatim>\<open>p.exists()\<close> in the resume scan, \<open>Probed p\<close> for
  \<^verbatim>\<open>get_file_duration(p)\<close>, \<open>Encode_run n ok\<close> for the backend run of segment number
  \<open>n\<close> with its result, \<open>Segment_failed n\<close> and \<open>Move_failed n\<close> for the two messages
  with which the encoding loop gives up (\<^verbatim>\<open>Segment n failed or was stopped\<close>,
  \<^verbatim>\<open>Failed to move\<close>), \<open>Concat_run\<close> for the backend run that joins the segments.
\<close>

datatype event =
  Checked path | Probed path | Encode_run nat bool | Segment_failed nat | Move_failed nat
  | Concat_run

record world =
  files :: file_system
  segments_dir_exists :: bool
  flags :: flags
  events :: "event list"

text \<open>
  The parsed arguments, as far as the run's control flow reads them.  \<^verbatim>\<open>parse_arguments\<close>
  has run before: the model starts where \<^verbatim>\<open>main_process\<close> installs the signal handler.
  \<open>x265_params_has_pools\<close> is the test \<^verbatim>\<open>'pools=' in config.x265_params.lower()\<close>.
\<close>

datatype codec = H265 | H264

record config =
  overwrite_final_output :: bool
  keep_segments :: bool
  segment_length :: int
  codec :: codec
  threads :: int
  x265_params_has_pools :: bool

text \<open>
  What the backend, the operating system and the user do during the run.  The backend
  run for segment number \<open>n\<close> is given by its result (the value of
  \<^verbatim>\<open>run_ffmpeg_command\<close>), the file it leaves at the part path, the number of interrupt
  signals delivered while it runs, and whether \<^verbatim>\<open>shutil.move\<close> of its output raises.
  The backend run that joins the segments is given in the same way: its result (or
  that it raises), the file it leaves at the destination, and the number of interrupt
  signals delivered while it runs.
  Only the operations whose failure the source handles can fail: creating the segments
  directory, writing the rerun record, deleting an existing destination, moving a part
  file, writing and deleting the manifest, removing the segments directory.  Writing
  the manifest either succeeds, fails in \<^verbatim>\<open>open\<close>, or fails after a number of lines.

  An interrupt signal takes effect where the events are read next: in the encoding
  loop and its backend runs, in the test that opens the final outcome, and in the
  backend run of the concatenation.  So a signal counts with the phase that ends with
  that reading: startup and resume scan, the backend run of a segment with the move
  that follows it, the concatenation.  A signal that arrives after the last reading
  sets an event that nothing reads any more; it changes neither the files nor the exit
  status and is left out.
\<close>

record encode_run =
  encode_result :: bool
  encode_output :: "stored_file option"
  encode_sigints :: nat
  move_fails :: bool

datatype write_outcome = Written | Open_failed | Write_failed nat

datatype invocation = Succeeds | Fails | Raises

record environment =
  mkdir_fails :: bool
  rerun_write_fails :: bool
  unlink_final_fails :: bool
  startup_sigints :: nat
  encodes :: "nat \<Rightarrow> encode_run"
  manifest_write :: write_outcome
  concat_result :: invocation
  concat_output :: "stored_file option"
  concat_sigints :: nat
  filelist_unlink_fails :: bool
  rmtree_fails :: bool

text \<open>How \<^verbatim>\<open>main_process\<close> ends: it returns, calls \<^verbatim>\<open>sys.exit\<close>, or raises.\<close>

datatype outcome = Returned | Sys_exit int | Raised

text \<open>
  The \<^verbatim>\<open>__main__\<close> block: \<^verbatim>\<open>SystemExit\<close> is raised again, any other exception becomes
  \<^verbatim>\<open>sys.exit(2)\<close>, and returning ends the interpreter with status 0.
\<close>

fun exit_code :: "outcome \<Rightarrow> int" where
  "exit_code Returned = 0"
| "exit_code (Sys_exit n) = n"
| "exit_code Raised = 2"

definition in_segments_dir :: "path \<Rightarrow> bool" where
  "in_segments_dir p =
     (case p of
        Segment_final_file n \<Rightarrow> True
      | Segment_part_file n \<Rightarrow> True
      | Rerun_command_file \<Rightarrow> True
      | _ \<Rightarrow> False)"

definition is_part_file :: "path \<Rightarrow> bool" where
  "is_part_file p = (case p of Segment_part_file n \<Rightarrow> True | _ \<Rightarrow> False)"

text \<open>
  \<^verbatim>\<open>save_rerun_command\<close>: every exception is caught and reported as a warning.  The text
  written is the command line, which the model does not look into.
\<close>

definition save_rerun_command :: "environment \<Rightarrow> world \<Rightarrow> world" where
  "save_rerun_command env w =
     (if rerun_write_fails env then w
      else w\<lparr>files := (files w)(Rerun_command_file \<mapsto> Text [])\<rparr>)"

text \<open>
  \<^verbatim>\<open>encode_segment\<close>: the early \<^verbatim>\<open>return False\<close> when \<^verbatim>\<open>--threads\<close> meets \<^verbatim>\<open>pools=\<close>,
  otherwise the backend run for this segment.  The command line, and with it
  \<open>audio_present\<close>, has no further part in the model.
\<close>

definition encode_segment ::
  "config \<Rightarrow> environment \<Rightarrow> nat \<Rightarrow> bool \<Rightarrow> world \<Rightarrow> bool \<times> world" where
  "encode_segment cfg env segment_number audio_present w =
     (if codec cfg = H265 \<and> 0 < threads cfg \<and> x265_params_has_pools cfg then (False, w)
      else
        (let r = encodes env segment_number
         in (encode_result r,
             w\<lparr>files := (case encode_output r of
                           None \<Rightarrow> files w
                         | Some f \<Rightarrow> (files w)(Segment_part_file segment_number \<mapsto> f)),
               flags := deliver (encode_sigints r) (flags w),
               events := events w @ [Encode_run segment_number (encode_result r)]\<rparr>)))"

text \<open>
  \<^verbatim>\<open>concatenate_segments\<close>.  The body of the \<^verbatim>\<open>try\<close> writes the manifest and runs the
  backend; the \<^verbatim>\<open>finally\<close> clause runs whether the body returned or raised, and a
  failure to delete the manifest is only a warning.  The result is \<open>Inr\<close> of the value
  returned or \<open>Inl ()\<close> for an exception that leaves the function.  Interrupt signals
  that arrive while the backend joins the segments set the events as everywhere else;
  what they do to the backend is part of its result.
\<close>

definition concatenate_segments ::
  "environment \<Rightarrow> path list \<Rightarrow> world \<Rightarrow> (unit + bool) \<times> world" where
  "concatenate_segments env segment_files w =
     (if segment_files = [] then (Inr False, w)
      else
        (let (body, w1) =
               (case manifest_write env of
                  Open_failed \<Rightarrow> (Inl (), w)
                | Write_failed n \<Rightarrow>
                    (Inl (), w\<lparr>files := (files w)(Filelist_path \<mapsto> Text (take n segment_files))\<rparr>)
                | Written \<Rightarrow>
                    (let w' = w\<lparr>files := (files w)(Filelist_path \<mapsto> Text segment_files),
                                 flags := deliver (concat_sigints env) (flags w),
                                 events := events w @ [Concat_run]\<rparr>;
                         w'' = (case concat_output env of
                                  None \<Rightarrow> w'
                                | Some f \<Rightarrow> w'\<lparr>files := (files w')(Final_output_file \<mapsto> f)\<rparr>)
                     in case concat_result env of
                          Succeeds \<Rightarrow> (Inr True, w'')
                        | Fails \<Rightarrow> (Inr False, w'')
                        | Raises \<Rightarrow> (Inl (), w'')));
             w2 = (if files w1 Filelist_path \<noteq> None \<and> \<not> filelist_unlink_fails env
                   then w1\<lparr>files := (files w1)(Filelist_path := None)\<rparr>
                   else w1)
         in (body, w2)))"

text \<open>\<^verbatim>\<open>shutil.rmtree(segments_dir)\<close> under \<^verbatim>\<open>except OSError\<close>.\<close>

definition rmtree :: "environment \<Rightarrow> world \<Rightarrow> world" where
  "rmtree env w =
     (if rmtree_fails env then w
      else w\<lparr>files := (\<lambda>p. if in_segments_dir p then None else files w p),
             segments_dir_exists := False\<rparr>)"

text \<open>
  The resume scan: the loop \<^verbatim>\<open>for i, seg_info in enumerate(calculated_segments_info)\<close>,
  from index \<open>i\<close> on, with the two variables it updates.  It returns them with the
  state it leaves.
\<close>

fun resume_scan ::
  "segment list \<Rightarrow> nat \<Rightarrow> path list \<Rightarrow> nat \<Rightarrow> world \<Rightarrow> path list \<times> nat \<times> world" where
  "resume_scan [] i completed_segment_paths resume_segment_idx w =
     (completed_segment_paths, resume_segment_idx, w)"
| "resume_scan (seg_info # rest) i completed_segment_paths resume_segment_idx w =
     (let segment_number = i + 1;
          segment_final_file = Segment_final_file segment_number;
          w1 = w\<lparr>events := events w @ [Checked segment_final_file]\<rparr>
      in if files w1 segment_final_file \<noteq> None then
           (let actual_seg_duration = get_file_duration (files w1) segment_final_file;
                w2 = w1\<lparr>events := events w1 @ [Probed segment_final_file]\<rparr>;
                expected_seg_duration = seg_duration seg_info;
                duration_tolerance = max (1 / 10) (expected_seg_duration * (2 / 100))
            in if 0 < actual_seg_duration
                  \<and> \<bar>actual_seg_duration - expected_seg_duration\<bar> < duration_tolerance
               then resume_scan rest (i + 1)
                      (completed_segment_paths @ [segment_final_file]) (i + 1) w2
               else (completed_segment_paths, resume_segment_idx,
                     w2\<lparr>files := (files w2)(segment_final_file := None)\<rparr>))
         else (completed_segment_paths, resume_segment_idx, w1))"

text \<open>
  The encoding loop \<^verbatim>\<open>for i in range(resume_segment_idx, len(calculated_segments_info))\<close>
  over the list of its indices.  \<^verbatim>\<open>shutil.move\<close> raises when the part file is missing
  or when the environment says so; either exception is caught and ends the loop.
\<close>

fun encoding_loop ::
  "config \<Rightarrow> environment \<Rightarrow> bool \<Rightarrow> nat list \<Rightarrow> path list \<Rightarrow> world \<Rightarrow> path list \<times> world" where
  "encoding_loop cfg env audio_present [] completed_segment_paths w =
     (completed_segment_paths, w)"
| "encoding_loop cfg env audio_present (i # rest) completed_segment_paths w =
     (if stop_requested (flags w) then (completed_segment_paths, w)
      else
        (let segment_number = i + 1;
             segment_final_file = Segment_final_file segment_number;
             segment_part_file = Segment_part_file segment_number;
             w1 = w\<lparr>files := (files w)(segment_part_file := None)\<rparr>;
             (success, w2) = encode_segment cfg env segment_number audio_present w1
         in if \<not> success
            then (completed_segment_paths,
                  w2\<lparr>events := events w2 @ [Segment_failed segment_number]\<rparr>)
            else
              (case files w2 segment_part_file of
                 None \<Rightarrow>
                   (completed_segment_paths,
                    w2\<lparr>events := events w2 @ [Move_failed segment_number]\<rparr>)
               | Some f \<Rightarrow>
                   if move_fails (encodes env segment_number)
                   then (completed_segment_paths,
                         w2\<lparr>events := events w2 @ [Move_failed segment_number]\<rparr>)
                   else encoding_loop cfg env audio_present rest
                          (completed_segment_paths @ [segment_final_file])
                          (w2\<lparr>files := (files w2)(segment_final_file \<mapsto> f,
                                                   segment_part_file := None)\<rparr>))))"

text \<open>The section \<^verbatim>\<open>Final Outcome\<close> of \<^verbatim>\<open>main_process\<close>.\<close>

definition final_outcome ::
  "config \<Rightarrow> environment \<Rightarrow> segment list \<Rightarrow> path list \<Rightarrow> world \<Rightarrow> outcome \<times> world" where
  "final_outcome cfg env calculated_segments_info completed_segment_paths w =
     (if stop_requested (flags w) then (Sys_exit 0, w)
      else if length completed_segment_paths = length calculated_segments_info then
        (case concatenate_segments env completed_segment_paths w of
           (Inl u, w') \<Rightarrow> (Raised, w')
         | (Inr concat_success, w') \<Rightarrow>
             if concat_success then
               (Returned, if \<not> keep_segments cfg then rmtree env w' else w')
             else (Sys_exit 1, w'))
      else (Sys_exit 1, w))"

text \<open>
  \<^verbatim>\<open>main_process\<close> from the removal of part files left by an earlier run (\<^verbatim>\<open>glob\<close>
  over the segments directory) to \<^verbatim>\<open>calculate_segments\<close>: it ends the run (\<open>Inl\<close>) or
  hands over whether the input has audio and the planned segments.  Every entry of the
  file system is a regular file, so the test \<^verbatim>\<open>part_item.is_file()\<close> is always true.
\<close>

definition clean_and_plan ::
  "config \<Rightarrow> bool \<Rightarrow> real \<Rightarrow> world \<Rightarrow> (outcome + bool \<times> segment list) \<times> world" where
  "clean_and_plan cfg input_file_has_audio total_duration_input w =
     (let w1 = w\<lparr>files := (\<lambda>p. if is_part_file p then None else files w p)\<rparr>;
          calculated_segments_info =
            calculate_segments total_duration_input (real_of_int (segment_length cfg))
      in if calculated_segments_info = [] then (Inl (Sys_exit 1), w1)
         else (Inr (input_file_has_audio, calculated_segments_info), w1))"

text \<open>
  \<^verbatim>\<open>main_process\<close> up to the planning of the segments: the segments directory, the rerun
  record, the probes of the input, the guard on an existing destination, then
  \<open>clean_and_plan\<close>.  Interrupt signals that arrive before the encoding loop first
  reads the stop event are delivered at the start.
\<close>

definition startup ::
  "config \<Rightarrow> environment \<Rightarrow> world \<Rightarrow> (outcome + bool \<times> segment list) \<times> world" where
  "startup cfg env w0 =
     (let w = w0\<lparr>flags := deliver (startup_sigints env) (flags w0)\<rparr>
      in if mkdir_fails env then (Inl (Sys_exit 1), w)
         else
           (let w1 = save_rerun_command env (w\<lparr>segments_dir_exists := True\<rparr>);
                input_file_has_audio = has_audio_stream (files w1) Input_file;
                total_duration_input = get_file_duration (files w1) Input_file;
                w2 = w1\<lparr>events := events w1 @ [Probed Input_file]\<rparr>
            in if total_duration_input \<le> 0 then (Inl (Sys_exit 1), w2)
               else if files w2 Final_output_file \<noteq> None then
                 (if overwrite_final_output cfg then
                    (if unlink_final_fails env then (Inl (Sys_exit 1), w2)
                     else clean_and_plan cfg input_file_has_audio total_duration_input
                            (w2\<lparr>files := (files w2)(Final_output_file := None)\<rparr>))
                  else (Inl (Sys_exit 0), w2))
               else clean_and_plan cfg input_file_has_audio total_duration_input w2))"

text \<open>The resume scan, the encoding loop and the final outcome, for a planned run.\<close>

definition run_segments ::
  "config \<Rightarrow> environment \<Rightarrow> bool \<Rightarrow> segment list \<Rightarrow> world \<Rightarrow> outcome \<times> world" where
  "run_segments cfg env input_file_has_audio calculated_segments_info w =
     (let (completed_segment_paths, resume_segment_idx, w1) =
            resume_scan calculated_segments_info 0 [] 0 w;
          (completed_segment_paths', w2) =
            encoding_loop cfg env input_file_has_audio
              [resume_segment_idx ..< length calculated_segments_info]
              completed_segment_paths w1
      in final_outcome cfg env calculated_segments_info completed_segment_paths' w2)"

definition main_process :: "config \<Rightarrow> environment \<Rightarrow> world \<Rightarrow> outcome \<times> world" where
  "main_process cfg env w0 =
     (case startup cfg env w0 of
        (Inl out, w) \<Rightarrow> (out, w)
      | (Inr (input_file_has_audio, calculated_segments_info), w) \<Rightarrow>
          run_segments cfg env input_file_has_audio calculated_segments_info w)"

text \<open>
  A run of the script from a given set of files: no event is set, nothing is logged.
  The result is the exit status of the interpreter and the state left behind.
\<close>

definition initial_world :: "file_system \<Rightarrow> bool \<Rightarrow> world" where
  "initial_world fs dir_exists =
     \<lparr>files = fs, segments_dir_exists = dir_exists,
      flags = \<lparr>stop_requested = False, force_stop_requested = False\<rparr>, events = []\<rparr>"

definition script :: "config \<Rightarrow> environment \<Rightarrow> file_system \<Rightarrow> bool \<Rightarrow> int \<times> world" where
  "script cfg env fs dir_exists =
     (case main_process cfg env (initial_world fs dir_exists) of
        (out, w) \<Rightarrow> (exit_code out, w))"

section \<open>Example inputs\<close>

text \<open>
  Values for the concrete runs below: a media file whose video probe reports the given
  duration, the default configuration with a segment length of 5, and an environment in
  which nothing fails, no signal arrives, every backend run succeeds and leaves a part
  file of 5 seconds, and the concatenation leaves a destination of 12 seconds.
\<close>

definition clip :: "real \<Rightarrow> nat \<Rightarrow> stored_file" where
  "clip d c = Media (Some \<lparr>streams = 1, format_duration = Seconds d\<rparr>) None c"

definition example_config :: config where
  "example_config =
     \<lparr>overwrite_final_output = False, keep_segments = False, segment_length = 5,
      codec = H265, threads = 0, x265_params_has_pools = False\<rparr>"

definition calm :: environment where
  "calm =
     \<lparr>mkdir_fails = False, rerun_write_fails = False, unlink_final_fails = False,
      startup_sigints = 0,
      encodes = (\<lambda>n. \<lparr>encode_result = True, encode_output = Some (clip 5 n),
                        encode_sigints = 0, move_fails = False\<rparr>),
      manifest_write = Written, concat_result = Succeeds, concat_output = Some (clip 12 0),
      concat_sigints = 0, filelist_unlink_fails = False, rmtree_fails = False\<rparr>"

section \<open>Properties of the segment planner\<close>

lemma segments_loop_done: "\<not> current_time < total_duration \<Longrightarrow> segments_loop total_duration seg_len current_time = []"
  by (simp add: segments_loop.simps [of total_duration seg_len current_time])

lemma segments_loop_tiny:
  "min (current_time + seg_len) total_duration - current_time < 1 / 100 \<Longrightarrow>
   segments_loop total_duration seg_len current_time = []"
  by (simp add: segments_loop.simps [of total_duration seg_len current_time] Let_def)

lemma segments_loop_step:
  "current_time < total_duration \<Longrightarrow>
   \<not> min (current_time + seg_len) total_duration - current_time < 1 / 100 \<Longrightarrow>
   segments_loop total_duration seg_len current_time =
     \<lparr>seg_start = current_time,
      seg_end = min (current_time + seg_len) total_duration,
      seg_duration = min (current_time + seg_len) total_duration - current_time\<rparr>
     # segments_loop total_duration seg_len (current_time + seg_len)"
  by (simp add: segments_loop.simps [of total_duration seg_len current_time] Let_def)

lemma segments_loop_empty_iff:
  "segments_loop td sl ct = [] \<longleftrightarrow> \<not> ct < td \<or> min (ct + sl) td - ct < 1 / 100"
proof (cases "ct < td \<and> \<not> min (ct + sl) td - ct < 1 / 100")
  case True
  then show ?thesis using segments_loop_step [of ct td sl] by auto
next
  case False
  then show ?thesis using segments_loop_done [of ct td sl] segments_loop_tiny [of ct sl td] by auto
qed

lemma segments_loop_hd: "segments_loop td sl ct \<noteq> [] \<Longrightarrow> seg_start (hd (segments_loop td sl ct)) = ct"
  using segments_loop_step [of ct td sl] by (auto simp: segments_loop_empty_iff)

lemma segments_loop_elem:
  "s \<in> set (segments_loop td sl ct) \<Longrightarrow>
   ct \<le> seg_start s \<and> seg_start s < seg_end s \<and> seg_end s \<le> td \<and>
   seg_duration s = seg_end s - seg_start s \<and> 1 / 100 \<le> seg_duration s"
proof (induction td sl ct rule: segments_loop.induct)
  case (1 td sl ct)
  show ?case
  proof (cases "ct < td \<and> \<not> min (ct + sl) td - ct < 1 / 100")
    case False
    then have "segments_loop td sl ct = []"
      by (auto simp: segments_loop_done segments_loop_tiny)
    with "1.prems" show ?thesis by simp
  next
    case True
    then have sl: "1 / 100 \<le> sl" by (simp add: min_def split: if_splits)
    from True "1.prems" consider
      "s = \<lparr>seg_start = ct, seg_end = min (ct + sl) td, seg_duration = min (ct + sl) td - ct\<rparr>"
      | "s \<in> set (segments_loop td sl (ct + sl))"
      using segments_loop_step [of ct td sl] by auto
    then show ?thesis
    proof cases
      case 1
      with True sl show ?thesis by auto
    next
      case 2
      with True "1.IH" [OF _ refl refl refl] have
        "ct + sl \<le> seg_start s \<and> seg_start s < seg_end s \<and> seg_end s \<le> td \<and>
         seg_duration s = seg_end s - seg_start s \<and> 1 / 100 \<le> seg_duration s"
        by simp
      with sl show ?thesis by simp
    qed
  qed
qed

lemma segments_loop_contiguous:
  "successively (\<lambda>a b. seg_end a = seg_start b) (segments_loop td sl ct)"
proof (induction td sl ct rule: segments_loop.induct)
  case (1 td sl ct)
  show ?case
  proof (cases "ct < td \<and> \<not> min (ct + sl) td - ct < 1 / 100")
    case False
    then have "segments_loop td sl ct = []"
      by (auto simp: segments_loop_done segments_loop_tiny)
    then show ?thesis by simp
  next
    case True
    with "1.IH" [OF _ refl refl refl] have IH:
      "successively (\<lambda>a b. seg_end a = seg_start b) (segments_loop td sl (ct + sl))"
      by simp
    show ?thesis
    proof (cases "segments_loop td sl (ct + sl) = []")
      case True
      with \<open>ct < td \<and> _\<close> show ?thesis using segments_loop_step [of ct td sl] by simp
    next
      case False
      then have "ct + sl < td" by (auto simp: segments_loop_empty_iff)
      moreover from False have "seg_start (hd (segments_loop td sl (ct + sl))) = ct + sl"
        by (rule segments_loop_hd)
      ultimately show ?thesis using True IH False segments_loop_step [of ct td sl]
        by (simp add: successively_Cons)
    qed
  qed
qed

lemma segments_loop_last:
  "segments_loop td sl ct \<noteq> [] \<Longrightarrow>
   seg_end (last (segments_loop td sl ct)) = td \<or>
   (seg_end (last (segments_loop td sl ct)) < td \<and> td - seg_end (last (segments_loop td sl ct)) < 1 / 100)"
proof (induction td sl ct rule: segments_loop.induct)
  case (1 td sl ct)
  from "1.prems" have T: "ct < td" "\<not> min (ct + sl) td - ct < 1 / 100"
    by (auto simp: segments_loop_empty_iff)
  then have sl: "1 / 100 \<le> sl" by (simp add: min_def split: if_splits)
  show ?case
  proof (cases "segments_loop td sl (ct + sl) = []")
    case False
    with T "1.IH" [OF _ refl refl refl] show ?thesis
      using segments_loop_step [of ct td sl] by simp
  next
    case True
    then have "\<not> ct + sl < td \<or> min (ct + sl + sl) td - (ct + sl) < 1 / 100"
      by (simp add: segments_loop_empty_iff)
    with T True sl show ?thesis
      using segments_loop_step [of ct td sl] by (auto simp: min_def split: if_splits)
  qed
qed

lemma segments_loop_increasing:
  "sorted_wrt (\<lambda>a b. seg_end a \<le> seg_start b) (segments_loop td sl ct)"
proof (induction td sl ct rule: segments_loop.induct)
  case (1 td sl ct)
  show ?case
  proof (cases "ct < td \<and> \<not> min (ct + sl) td - ct < 1 / 100")
    case False
    then have "segments_loop td sl ct = []"
      by (auto simp: segments_loop_done segments_loop_tiny)
    then show ?thesis by simp
  next
    case True
    with "1.IH" [OF _ refl refl refl] have IH:
      "sorted_wrt (\<lambda>a b. seg_end a \<le> seg_start b) (segments_loop td sl (ct + sl))"
      by simp
    have "\<forall>s \<in> set (segments_loop td sl (ct + sl)). min (ct + sl) td \<le> seg_start s"
      using segments_loop_elem [of _ td sl "ct + sl"] by fastforce
    with True IH show ?thesis using segments_loop_step [of ct td sl] by simp
  qed
qed

lemma segments_loop_strict:
  "sorted_wrt (\<lambda>a b. seg_start a < seg_start b \<and> seg_end a \<le> seg_start b) (segments_loop td sl ct)"
proof (rule sorted_wrt_mono_rel [OF _ segments_loop_increasing])
  fix a b
  assume "a \<in> set (segments_loop td sl ct)" and "seg_end a \<le> seg_start b"
  then show "seg_start a < seg_start b \<and> seg_end a \<le> seg_start b"
    using segments_loop_elem [of a td sl ct] by simp
qed

lemma calculate_segments_example:
  "calculate_segments 12 5 =
     [\<lparr>seg_start = 0, seg_end = 5, seg_duration = 5\<rparr>,
      \<lparr>seg_start = 5, seg_end = 10, seg_duration = 5\<rparr>,
      \<lparr>seg_start = 10, seg_end = 12, seg_duration = 2\<rparr>]"
  by (simp add: calculate_segments_def segments_loop_step segments_loop_done)

text \<open>
  The plans of the model.  For every total duration above 0 and every segment length of
  at least 0.01, the planned segments are contiguous and gapless (each end is the next
  start), strictly increasing and non-overlapping, each with
  \<open>0.01 \<le> duration = end - start\<close>; the plan is empty exactly when the total duration is
  below 0.01; a non-empty plan starts at 0 and ends at the total duration exactly,
  unless a trailing remainder shorter than 0.01 was dropped, in which case it ends less
  than 0.01 before the total duration.  The lengths that \<^verbatim>\<open>main_process\<close> passes are
  positive integers, for which the arithmetic of the model is that of the code.
\<close>

lemma calculate_segments_plan:
  "(\<forall>total_duration seg_len.
      0 < total_duration \<and> 1 / 100 \<le> seg_len \<longrightarrow>
      (let segs = calculate_segments total_duration seg_len
       in successively (\<lambda>a b. seg_end a = seg_start b) segs
          \<and> sorted_wrt (\<lambda>a b. seg_start a < seg_start b \<and> seg_end a \<le> seg_start b) segs
          \<and> (\<forall>s \<in> set segs. seg_start s < seg_end s
                \<and> seg_duration s = seg_end s - seg_start s \<and> 1 / 100 \<le> seg_duration s)
          \<and> (segs = [] \<longleftrightarrow> total_duration < 1 / 100)
          \<and> (segs \<noteq> [] \<longrightarrow>
                seg_start (hd segs) = 0
                \<and> (seg_end (last segs) = total_duration
                    \<or> (seg_end (last segs) < total_duration
                        \<and> total_duration - seg_end (last segs) < 1 / 100)))))
   \<and> calculate_segments 12 5 =
       [\<lparr>seg_start = 0, seg_end = 5, seg_duration = 5\<rparr>,
        \<lparr>seg_start = 5, seg_end = 10, seg_duration = 5\<rparr>,
        \<lparr>seg_start = 10, seg_end = 12, seg_duration = 2\<rparr>]"
proof (intro conjI allI impI)
  fix td sl :: real
  assume h: "0 < td \<and> 1 / 100 \<le> sl"
  then have eq: "calculate_segments td sl = segments_loop td sl 0"
    by (simp add: calculate_segments_def)
  have empty: "segments_loop td sl 0 = [] \<longleftrightarrow> td < 1 / 100"
    using h by (auto simp: segments_loop_empty_iff min_def)
  have elems: "\<forall>s \<in> set (segments_loop td sl 0). seg_start s < seg_end s
      \<and> seg_duration s = seg_end s - seg_start s \<and> 1 / 100 \<le> seg_duration s"
    using segments_loop_elem [of _ td sl 0] by blast
  show "let segs = calculate_segments td sl
       in successively (\<lambda>a b. seg_end a = seg_start b) segs
          \<and> sorted_wrt (\<lambda>a b. seg_start a < seg_start b \<and> seg_end a \<le> seg_start b) segs
          \<and> (\<forall>s \<in> set segs. seg_start s < seg_end s
                \<and> seg_duration s = seg_end s - seg_start s \<and> 1 / 100 \<le> seg_duration s)
          \<and> (segs = [] \<longleftrightarrow> td < 1 / 100)
          \<and> (segs \<noteq> [] \<longrightarrow>
                seg_start (hd segs) = 0
                \<and> (seg_end (last segs) = td
                    \<or> (seg_end (last segs) < td \<and> td - seg_end (last segs) < 1 / 100)))"
    unfolding Let_def eq
    using segments_loop_contiguous [of td sl 0] segments_loop_strict [of td sl 0]
      elems empty segments_loop_hd [of td sl 0] segments_loop_last [of td sl 0]
    by blast
next
  show "calculate_segments 12 5 =
       [\<lparr>seg_start = 0, seg_end = 5, seg_duration = 5\<rparr>,
        \<lparr>seg_start = 5, seg_end = 10, seg_duration = 5\<rparr>,
        \<lparr>seg_start = 10, seg_end = 12, seg_duration = 2\<rparr>]"
    by (rule calculate_segments_example)
qed

lemma calculate_segments_plan_example:
  "(0::real) < 12 \<and> (1::real) / 100 \<le> 5
   \<and> successively (\<lambda>a b. seg_end a = seg_start b) (calculate_segments 12 5)
   \<and> calculate_segments 12 5 \<noteq> []
   \<and> seg_start (hd (calculate_segments 12 5)) = 0"
proof -
  have h: "(0::real) < 12 \<and> (1::real) / 100 \<le> 5" by simp
  from calculate_segments_plan have
    "\<forall>total_duration seg_len.
      0 < total_duration \<and> 1 / 100 \<le> seg_len \<longrightarrow>
      (let segs = calculate_segments total_duration seg_len
       in successively (\<lambda>a b. seg_end a = seg_start b) segs
          \<and> sorted_wrt (\<lambda>a b. seg_start a < seg_start b \<and> seg_end a \<le> seg_start b) segs
          \<and> (\<forall>s \<in> set segs. seg_start s < seg_end s
                \<and> seg_duration s = seg_end s - seg_start s \<and> 1 / 100 \<le> seg_duration s)
          \<and> (segs = [] \<longleftrightarrow> total_duration < 1 / 100)
          \<and> (segs \<noteq> [] \<longrightarrow>
                seg_start (hd segs) = 0
                \<and> (seg_end (last segs) = total_duration
                    \<or> (seg_end (last segs) < total_duration
                        \<and> total_duration - seg_end (last segs) < 1 / 100))))"
    by (rule conjunct1)
  then have "let segs = calculate_segments 12 5
       in successively (\<lambda>a b. seg_end a = seg_start b) segs
          \<and> sorted_wrt (\<lambda>a b. seg_start a < seg_start b \<and> seg_end a \<le> seg_start b) segs
          \<and> (\<forall>s \<in> set segs. seg_start s < seg_end s
                \<and> seg_duration s = seg_end s - seg_start s \<and> 1 / 100 \<le> seg_duration s)
          \<and> (segs = [] \<longleftrightarrow> (12::real) < 1 / 100)
          \<and> (segs \<noteq> [] \<longrightarrow>
                seg_start (hd segs) = 0
                \<and> (seg_end (last segs) = 12
                    \<or> (seg_end (last segs) < 12 \<and> 12 - seg_end (last segs) < 1 / 100)))"
    using h by blast
  then show ?thesis unfolding Let_def by auto
qed

text \<open>
  Claim C1.  The claim lets the plan for every positive duration and every positive
  segment length start at 0 and end at the duration, up to a dropped trailing
  remainder, and the comment on the threshold test in \<^verbatim>\<open>calculate_segments\<close> reads
  \<^verbatim>\<open>Avoid creating tiny, useless segments at the very end\<close>.  The test is applied to every
  segment, the first included: for a duration of 12 and a length of 0.005 the first
  segment already lasts less than 0.01, the loop is left at once and the plan is empty.
  The float operations of this run (\<^verbatim>\<open>0.0 + 0.005\<close>, \<^verbatim>\<open>min\<close>, \<^verbatim>\<open>0.005 - 0.0\<close>, the
  comparison with 0.01) are exact, so the code computes what the model does.  For a
  duration of 12 and a length of 5 the plan is [0,5), [5,10), [10,12), the last of
  duration 2, as the claim says.
\<close>

theorem calculate_segments_short_length:
  "(0::real) < 12 \<and> (0::real) < 1 / 200 \<and> calculate_segments 12 (1 / 200) = []
   \<and> calculate_segments 12 5 =
       [\<lparr>seg_start = 0, seg_end = 5, seg_duration = 5\<rparr>,
        \<lparr>seg_start = 5, seg_end = 10, seg_duration = 5\<rparr>,
        \<lparr>seg_start = 10, seg_end = 12, seg_duration = 2\<rparr>]"
  by (simp add: calculate_segments_example) (simp add: calculate_segments_def segments_loop_tiny)

section \<open>Properties of the resume scan\<close>

declare resume_scan.simps [simp del]

lemma resume_scan_missing:
  "files w (Segment_final_file (i + 1)) = None \<Longrightarrow>
   resume_scan (seg_info # rest) i completed idx w =
     (completed, idx, w\<lparr>events := events w @ [Checked (Segment_final_file (i + 1))]\<rparr>)"
  by (simp add: Let_def resume_scan.simps)

lemma resume_scan_reject:
  "files w (Segment_final_file (i + 1)) \<noteq> None \<Longrightarrow>
   \<not> (0 < get_file_duration (files w) (Segment_final_file (i + 1))
      \<and> \<bar>get_file_duration (files w) (Segment_final_file (i + 1)) - seg_duration seg_info\<bar>
          < max (1 / 10) (seg_duration seg_info * (2 / 100))) \<Longrightarrow>
   resume_scan (seg_info # rest) i completed idx w =
     (completed, idx,
      w\<lparr>events := events w @ [Checked (Segment_final_file (i + 1)),
                                Probed (Segment_final_file (i + 1))],
        files := (files w)(Segment_final_file (i + 1) := None)\<rparr>)"
  by (auto simp: Let_def resume_scan.simps)

lemma resume_scan_accept:
  "files w (Segment_final_file (i + 1)) \<noteq> None \<Longrightarrow>
   0 < get_file_duration (files w) (Segment_final_file (i + 1)) \<Longrightarrow>
   \<bar>get_file_duration (files w) (Segment_final_file (i + 1)) - seg_duration seg_info\<bar>
      < max (1 / 10) (seg_duration seg_info * (2 / 100)) \<Longrightarrow>
   resume_scan (seg_info # rest) i completed idx w =
     resume_scan rest (i + 1) (completed @ [Segment_final_file (i + 1)]) (i + 1)
       (w\<lparr>events := events w @ [Checked (Segment_final_file (i + 1)),
                                 Probed (Segment_final_file (i + 1))]\<rparr>)"
  by (simp add: Let_def resume_scan.simps)

lemma resume_scan_keeps_completed:
  "set completed \<subseteq> set (fst (resume_scan segs i completed idx w))"
proof (induction segs arbitrary: i completed idx w)
  case Nil
  show ?case by (simp add: resume_scan.simps)
next
  case (Cons seg_info rest)
  have "set (completed @ [Segment_final_file (i + 1)])
        \<subseteq> set (fst (resume_scan rest (i + 1) (completed @ [Segment_final_file (i + 1)]) (i + 1)
             (w\<lparr>events := events w @ [Checked (Segment_final_file (i + 1)),
                                 Probed (Segment_final_file (i + 1))]\<rparr>)))"
    by (rule Cons.IH)
  then show ?case by (auto simp: Let_def resume_scan.simps)
qed


lemma resume_scan_extends:
  "\<exists>more. fst (resume_scan segs i completed idx w) = completed @ more"
proof (induction segs arbitrary: i completed idx w)
  case Nil
  show ?case by (simp add: resume_scan.simps)
next
  case (Cons seg_info rest)
  from Cons.IH [of "i + 1" "completed @ [Segment_final_file (i + 1)]" "i + 1"
      "w\<lparr>events := events w @ [Checked (Segment_final_file (i + 1)),
                                 Probed (Segment_final_file (i + 1))]\<rparr>"]
  show ?case by (auto simp: Let_def resume_scan.simps)
qed

lemma resume_scan_index:
  "idx \<le> i \<Longrightarrow> idx \<le> fst (snd (resume_scan segs i completed idx w))"
proof (induction segs arbitrary: i completed idx w)
  case Nil
  show ?case by (simp add: resume_scan.simps)
next
  case (Cons seg_info rest)
  from Cons.IH [of "i + 1" "i + 1" "completed @ [Segment_final_file (i + 1)]"
      "w\<lparr>events := events w @ [Checked (Segment_final_file (i + 1)),
                                 Probed (Segment_final_file (i + 1))]\<rparr>"] Cons.prems
  show ?case by (auto simp: Let_def resume_scan.simps)
qed

lemma resume_scan_files_before:
  "n \<le> i \<Longrightarrow>
   files (snd (snd (resume_scan segs i completed idx w))) (Segment_final_file n) =
     files w (Segment_final_file n)"
proof (induction segs arbitrary: i completed idx w)
  case Nil
  show ?case by (simp add: resume_scan.simps)
next
  case (Cons seg_info rest)
  from Cons.IH [of "i + 1" "completed @ [Segment_final_file (i + 1)]" "i + 1"
      "w\<lparr>events := events w @ [Checked (Segment_final_file (i + 1)),
                                 Probed (Segment_final_file (i + 1))]\<rparr>"] Cons.prems
  show ?case by (auto simp: Let_def resume_scan.simps)
qed

text \<open>
  Claim C3, as amended.  An existing artifact examined by the resume scan, with expected
  duration \<open>e\<close> and probed duration \<open>a\<close>, is accepted into the valid prefix exactly when
  \<open>0 < a\<close> and \<open>\<bar>a - e\<bar> < max 0.1 (e * 0.02)\<close>.  When it is accepted, the scan goes on
  with the next segment: the artifact follows the prefix found so far, the resume index
  is at least its number, and the artifact stays on disk.  In every other case it is
  rejected: the artifact is deleted and the scan stops with the prefix and the resume
  index it had.  In particular it is rejected when \<open>\<bar>a - e\<bar>\<close> reaches the tolerance, the
  boundary included.
\<close>

theorem resume_scan_acceptance:
  assumes present: "files w (Segment_final_file (i + 1)) \<noteq> None"
    and fresh: "Segment_final_file (i + 1) \<notin> set completed"
  shows
    "(let actual = get_file_duration (files w) (Segment_final_file (i + 1));
          expected = seg_duration seg_info;
          tolerance = max (1 / 10) (expected * (2 / 100));
          result = resume_scan (seg_info # rest) i completed idx w
      in (Segment_final_file (i + 1) \<in> set (fst result)
            \<longleftrightarrow> 0 < actual \<and> \<bar>actual - expected\<bar> < tolerance)
         \<and> (0 < actual \<and> \<bar>actual - expected\<bar> < tolerance \<longrightarrow>
              result =
                resume_scan rest (i + 1) (completed @ [Segment_final_file (i + 1)]) (i + 1)
                  (w\<lparr>events := events w @ [Checked (Segment_final_file (i + 1)),
                                            Probed (Segment_final_file (i + 1))]\<rparr>)
              \<and> (\<exists>more. fst result = completed @ Segment_final_file (i + 1) # more)
              \<and> i + 1 \<le> fst (snd result)
              \<and> files (snd (snd result)) (Segment_final_file (i + 1))
                  = files w (Segment_final_file (i + 1)))
         \<and> (\<not> (0 < actual \<and> \<bar>actual - expected\<bar> < tolerance) \<longrightarrow>
              result =
                (completed, idx,
                 w\<lparr>events := events w @ [Checked (Segment_final_file (i + 1)),
                                           Probed (Segment_final_file (i + 1))],
                   files := (files w)(Segment_final_file (i + 1) := None)\<rparr>))
         \<and> (tolerance \<le> \<bar>actual - expected\<bar> \<longrightarrow>
              result =
                (completed, idx,
                 w\<lparr>events := events w @ [Checked (Segment_final_file (i + 1)),
                                           Probed (Segment_final_file (i + 1))],
                   files := (files w)(Segment_final_file (i + 1) := None)\<rparr>)))"
proof (cases "0 < get_file_duration (files w) (Segment_final_file (i + 1))
      \<and> \<bar>get_file_duration (files w) (Segment_final_file (i + 1)) - seg_duration seg_info\<bar>
          < max (1 / 10) (seg_duration seg_info * (2 / 100))")
  case True
  let ?p = "Segment_final_file (i + 1)"
  let ?w2 = "w\<lparr>events := events w @ [Checked ?p, Probed ?p]\<rparr>"
  let ?r = "resume_scan rest (i + 1) (completed @ [?p]) (i + 1) ?w2"
  from True have eq: "resume_scan (seg_info # rest) i completed idx w = ?r"
    using present by (intro resume_scan_accept) simp_all
  from resume_scan_extends [of rest "i + 1" "completed @ [?p]" "i + 1" ?w2]
  obtain more where more: "fst ?r = completed @ ?p # more" by auto
  then have mem: "?p \<in> set (fst ?r)" by simp
  have index: "i + 1 \<le> fst (snd ?r)" by (rule resume_scan_index) simp
  have kept: "files (snd (snd ?r)) ?p = files w ?p"
    using resume_scan_files_before [of "i + 1" "i + 1" rest "completed @ [?p]" "i + 1" ?w2]
    by simp
  from True have "\<not> max (1 / 10) (seg_duration seg_info * (2 / 100))
      \<le> \<bar>get_file_duration (files w) ?p - seg_duration seg_info\<bar>"
    by linarith
  with mem more index kept True show ?thesis unfolding Let_def eq by blast
next
  case False
  then have "resume_scan (seg_info # rest) i completed idx w =
     (completed, idx,
      w\<lparr>events := events w @ [Checked (Segment_final_file (i + 1)),
                                Probed (Segment_final_file (i + 1))],
        files := (files w)(Segment_final_file (i + 1) := None)\<rparr>)"
    using present by (rule resume_scan_reject [rotated])
  with False fresh show ?thesis unfolding Let_def by auto
qed


lemma two_segment_plan:
  "calculate_segments (505 / 100) 5 =
     [\<lparr>seg_start = 0, seg_end = 5, seg_duration = 5\<rparr>,
      \<lparr>seg_start = 5, seg_end = 505 / 100, seg_duration = 5 / 100\<rparr>]"
  by (simp add: calculate_segments_def segments_loop_step segments_loop_done)

theorem resume_scan_acceptance_witness:
  "files (initial_world
            [Segment_final_file 1 \<mapsto>
               Media (Some \<lparr>streams = 1, format_duration = Seconds 5\<rparr>) None 0] True)
     (Segment_final_file (0 + 1)) \<noteq> None
   \<and> Segment_final_file (0 + 1) \<notin> set []
   \<and> Segment_final_file (0 + 1)
       \<in> set (fst (resume_scan [\<lparr>seg_start = 0, seg_end = 5, seg_duration = 5\<rparr>] 0 [] 0
            (initial_world
               [Segment_final_file 1 \<mapsto>
                  Media (Some \<lparr>streams = 1, format_duration = Seconds 5\<rparr>) None 0] True)))"
proof -
  let ?w = "initial_world
            [Segment_final_file 1 \<mapsto>
               Media (Some \<lparr>streams = 1, format_duration = Seconds 5\<rparr>) None 0] True"
  have present: "files ?w (Segment_final_file (0 + 1)) \<noteq> None"
    by (simp add: initial_world_def)
  have fresh: "Segment_final_file (0 + 1) \<notin> set []" by simp
  have dur: "get_file_duration (files ?w) (Segment_final_file (0 + 1)) = 5"
    by (simp add: initial_world_def get_file_duration_def parsed_duration_def
        get_stream_info_def)
  from resume_scan_acceptance
    [OF present fresh, of "\<lparr>seg_start = 0, seg_end = 5, seg_duration = 5\<rparr>" "[]" 0,
     unfolded Let_def, THEN conjunct1]
  have "Segment_final_file (0 + 1)
       \<in> set (fst (resume_scan [\<lparr>seg_start = 0, seg_end = 5, seg_duration = 5\<rparr>] 0 [] 0 ?w))"
    unfolding dur by simp
  with present fresh show ?thesis by blast
qed

text \<open>
  Claim C3 as stated makes the tolerance the only condition.  For a duration of 5.05 and
  a length of 5 the second segment lasts 0.05; an artifact for it whose probed duration
  is 0 differs from that by 0.05, less than the tolerance 0.1, and is rejected and
  deleted all the same, because the probed duration is not positive.
\<close>

theorem resume_scan_zero_duration_counterexample:
  "\<bar>(0::real) - 5 / 100\<bar> < max (1 / 10) (5 / 100 * (2 / 100))
   \<and> seg_duration (calculate_segments (505 / 100) 5 ! 1) = 5 / 100
   \<and> get_file_duration
        [Segment_final_file 1 \<mapsto>
           Media (Some \<lparr>streams = 1, format_duration = Seconds 5\<rparr>) None 0,
         Segment_final_file 2 \<mapsto>
           Media (Some \<lparr>streams = 1, format_duration = Seconds 0\<rparr>) None 1]
        (Segment_final_file 2) = 0
   \<and> fst (resume_scan (calculate_segments (505 / 100) 5) 0 [] 0
        (initial_world
           [Segment_final_file 1 \<mapsto>
              Media (Some \<lparr>streams = 1, format_duration = Seconds 5\<rparr>) None 0,
            Segment_final_file 2 \<mapsto>
              Media (Some \<lparr>streams = 1, format_duration = Seconds 0\<rparr>) None 1] True))
       = [Segment_final_file 1]
   \<and> files (snd (snd (resume_scan (calculate_segments (505 / 100) 5) 0 [] 0
        (initial_world
           [Segment_final_file 1 \<mapsto>
              Media (Some \<lparr>streams = 1, format_duration = Seconds 5\<rparr>) None 0,
            Segment_final_file 2 \<mapsto>
              Media (Some \<lparr>streams = 1, format_duration = Seconds 0\<rparr>) None 1] True))))
       (Segment_final_file 2) = None"
  unfolding two_segment_plan
  by (simp add: resume_scan.simps Let_def initial_world_def
      get_file_duration_def parsed_duration_def get_stream_info_def)

text \<open>
  Claim C10.  An existing artifact whose probed duration is not strictly positive is
  rejected and deleted, whatever its distance from the expected duration; this holds in
  particular for the value -1 that \<^verbatim>\<open>get_file_duration\<close> returns when neither the video
  nor the audio probe yields a duration; and an artifact that is accepted has a positive
  probed duration within the tolerance.
\<close>

theorem resume_scan_rejects_nonpositive:
  assumes present: "files w (Segment_final_file (i + 1)) \<noteq> None"
  shows
    "(let segment_final_file = Segment_final_file (i + 1);
          actual = get_file_duration (files w) segment_final_file;
          expected = seg_duration seg_info;
          result = resume_scan (seg_info # rest) i completed idx w;
          rejected =
            (completed, idx,
             w\<lparr>events := events w @ [Checked segment_final_file, Probed segment_final_file],
               files := (files w)(segment_final_file := None)\<rparr>)
      in (actual \<le> 0 \<longrightarrow> result = rejected)
         \<and> (parsed_duration (get_stream_info (files w) segment_final_file V) = None
              \<and> parsed_duration (get_stream_info (files w) segment_final_file A) = None
              \<longrightarrow> actual = - 1 \<and> result = rejected)
         \<and> (segment_final_file \<notin> set completed \<and> segment_final_file \<in> set (fst result)
              \<longrightarrow> 0 < actual \<and> \<bar>actual - expected\<bar> < max (1 / 10) (expected * (2 / 100))))"
proof -
  let ?p = "Segment_final_file (i + 1)"
  let ?rejected = "(completed, idx,
             w\<lparr>events := events w @ [Checked ?p, Probed ?p],
               files := (files w)(?p := None)\<rparr>)"
  have rej: "get_file_duration (files w) ?p \<le> 0 \<Longrightarrow>
      resume_scan (seg_info # rest) i completed idx w = ?rejected"
    using present by (intro resume_scan_reject) simp_all
  have sentinel: "parsed_duration (get_stream_info (files w) ?p V) = None
      \<Longrightarrow> parsed_duration (get_stream_info (files w) ?p A) = None
      \<Longrightarrow> get_file_duration (files w) ?p = - 1"
    by (simp add: get_file_duration_def)
  have acc: "?p \<notin> set completed \<Longrightarrow>
      ?p \<in> set (fst (resume_scan (seg_info # rest) i completed idx w)) \<Longrightarrow>
      0 < get_file_duration (files w) ?p
      \<and> \<bar>get_file_duration (files w) ?p - seg_duration seg_info\<bar>
          < max (1 / 10) (seg_duration seg_info * (2 / 100))"
  proof (rule ccontr)
    assume fresh: "?p \<notin> set completed"
      and mem: "?p \<in> set (fst (resume_scan (seg_info # rest) i completed idx w))"
      and no: "\<not> (0 < get_file_duration (files w) ?p
      \<and> \<bar>get_file_duration (files w) ?p - seg_duration seg_info\<bar>
          < max (1 / 10) (seg_duration seg_info * (2 / 100)))"
    from present no have "resume_scan (seg_info # rest) i completed idx w = ?rejected"
      by (rule resume_scan_reject)
    with mem fresh show False by simp
  qed
  show ?thesis unfolding Let_def
  proof (intro conjI impI)
    assume "get_file_duration (files w) ?p \<le> 0"
    then show "resume_scan (seg_info # rest) i completed idx w = ?rejected" by (rule rej)
  next
    assume h: "parsed_duration (get_stream_info (files w) ?p V) = None
        \<and> parsed_duration (get_stream_info (files w) ?p A) = None"
    then show "get_file_duration (files w) ?p = - 1" using sentinel by blast
    then have "get_file_duration (files w) ?p \<le> 0" by simp
    then show "resume_scan (seg_info # rest) i completed idx w = ?rejected" by (rule rej)
  next
    assume h: "?p \<notin> set completed
        \<and> ?p \<in> set (fst (resume_scan (seg_info # rest) i completed idx w))"
    then show "0 < get_file_duration (files w) ?p" using acc by blast
    from h show "\<bar>get_file_duration (files w) ?p - seg_duration seg_info\<bar>
          < max (1 / 10) (seg_duration seg_info * (2 / 100))" using acc by blast
  qed
qed

theorem resume_scan_rejects_nonpositive_witness:
  "files (initial_world
            [Segment_final_file 1 \<mapsto>
               Media (Some \<lparr>streams = 1, format_duration = Seconds 0\<rparr>) None 0] True)
     (Segment_final_file (0 + 1)) \<noteq> None
   \<and> get_file_duration
        [Segment_final_file 1 \<mapsto>
           Media (Some \<lparr>streams = 1, format_duration = Seconds 0\<rparr>) None 0]
        (Segment_final_file (0 + 1)) \<le> 0
   \<and> \<bar>(0::real) - 5 / 100\<bar> < max (1 / 10) (5 / 100 * (2 / 100))
   \<and> fst (resume_scan [\<lparr>seg_start = 0, seg_end = 5 / 100, seg_duration = 5 / 100\<rparr>] 0 [] 0
        (initial_world
           [Segment_final_file 1 \<mapsto>
              Media (Some \<lparr>streams = 1, format_duration = Seconds 0\<rparr>) None 0] True)) = []
   \<and> files (snd (snd
        (resume_scan [\<lparr>seg_start = 0, seg_end = 5 / 100, seg_duration = 5 / 100\<rparr>] 0 [] 0
          (initial_world
             [Segment_final_file 1 \<mapsto>
                Media (Some \<lparr>streams = 1, format_duration = Seconds 0\<rparr>) None 0] True))))
       (Segment_final_file 1) = None"
proof -
  let ?fs = "[Segment_final_file 1 \<mapsto>
               Media (Some \<lparr>streams = 1, format_duration = Seconds 0\<rparr>) None 0]"
  let ?w = "initial_world ?fs True"
  have present: "files ?w (Segment_final_file (0 + 1)) \<noteq> None"
    by (simp add: initial_world_def)
  have dur: "get_file_duration ?fs (Segment_final_file (0 + 1)) = 0"
    by (simp add: get_file_duration_def parsed_duration_def get_stream_info_def)
  have fs: "files ?w = ?fs" by (simp add: initial_world_def)
  from resume_scan_rejects_nonpositive
    [OF present, of "\<lparr>seg_start = 0, seg_end = 5 / 100, seg_duration = 5 / 100\<rparr>" "[]" "[]" 0]
  have "resume_scan [\<lparr>seg_start = 0, seg_end = 5 / 100, seg_duration = 5 / 100\<rparr>] 0 [] 0 ?w =
      ([], 0, ?w\<lparr>events := events ?w @ [Checked (Segment_final_file (0 + 1)),
                                          Probed (Segment_final_file (0 + 1))],
                 files := (files ?w)(Segment_final_file (0 + 1) := None)\<rparr>)"
    unfolding Let_def fs dur by simp
  then show ?thesis using present dur by simp
qed

section \<open>Resuming after an invalid artifact\<close>

lemma resume_scan_valid_prefix:
  assumes "\<forall>j<length pre.
      files w (Segment_final_file (i + j + 1)) \<noteq> None
      \<and> 0 < get_file_duration (files w) (Segment_final_file (i + j + 1))
      \<and> \<bar>get_file_duration (files w) (Segment_final_file (i + j + 1)) - seg_duration (pre ! j)\<bar>
          < max (1 / 10) (seg_duration (pre ! j) * (2 / 100))"
  shows "resume_scan (pre @ rest) i completed i w =
     resume_scan rest (i + length pre)
       (completed @ map Segment_final_file [i + 1 ..< i + length pre + 1]) (i + length pre)
       (w\<lparr>events := events w @ concat (map (\<lambda>n. [Checked (Segment_final_file n),
            Probed (Segment_final_file n)]) [i + 1 ..< i + length pre + 1])\<rparr>)"
  using assms
proof (induction pre arbitrary: i completed w)
  case Nil
  show ?case by simp
next
  case (Cons seg_info pre)
  let ?p = "Segment_final_file (i + 1)"
  let ?w = "w\<lparr>events := events w @ [Checked ?p, Probed ?p]\<rparr>"
  from Cons.prems have here:
    "files w ?p \<noteq> None" "0 < get_file_duration (files w) ?p"
    "\<bar>get_file_duration (files w) ?p - seg_duration seg_info\<bar>
        < max (1 / 10) (seg_duration seg_info * (2 / 100))"
    by force+
  have step: "resume_scan ((seg_info # pre) @ rest) i completed i w =
      resume_scan (pre @ rest) (i + 1) (completed @ [?p]) (i + 1) ?w"
    using here by (simp add: resume_scan_accept)
  have later: "\<forall>j<length pre.
      files ?w (Segment_final_file (i + 1 + j + 1)) \<noteq> None
      \<and> 0 < get_file_duration (files ?w) (Segment_final_file (i + 1 + j + 1))
      \<and> \<bar>get_file_duration (files ?w) (Segment_final_file (i + 1 + j + 1)) - seg_duration (pre ! j)\<bar>
          < max (1 / 10) (seg_duration (pre ! j) * (2 / 100))"
  proof (intro allI impI)
    fix j assume "j < length pre"
    then have "Suc j < length (seg_info # pre)" by simp
    with Cons.prems have
      "files w (Segment_final_file (i + Suc j + 1)) \<noteq> None
      \<and> 0 < get_file_duration (files w) (Segment_final_file (i + Suc j + 1))
      \<and> \<bar>get_file_duration (files w) (Segment_final_file (i + Suc j + 1)) - seg_duration ((seg_info # pre) ! Suc j)\<bar>
          < max (1 / 10) (seg_duration ((seg_info # pre) ! Suc j) * (2 / 100))"
      by blast
    then show "files ?w (Segment_final_file (i + 1 + j + 1)) \<noteq> None
      \<and> 0 < get_file_duration (files ?w) (Segment_final_file (i + 1 + j + 1))
      \<and> \<bar>get_file_duration (files ?w) (Segment_final_file (i + 1 + j + 1)) - seg_duration (pre ! j)\<bar>
          < max (1 / 10) (seg_duration (pre ! j) * (2 / 100))"
      by simp
  qed
  have upt: "[i + 1 ..< i + length (seg_info # pre) + 1] = (i + 1) # [i + 1 + 1 ..< i + 1 + length pre + 1]"
    by (subst upt_rec) simp
  show ?case
    unfolding step Cons.IH [OF later] upt by simp
qed


lemma encode_segment_events:
  "events (snd (encode_segment cfg env n a w)) =
     events w @ (if codec cfg = H265 \<and> 0 < threads cfg \<and> x265_params_has_pools cfg then []
                 else [Encode_run n (encode_result (encodes env n))])"
  by (simp add: encode_segment_def Let_def)

lemma encode_segment_result:
  "fst (encode_segment cfg env n a w) =
     (\<not> (codec cfg = H265 \<and> 0 < threads cfg \<and> x265_params_has_pools cfg)
      \<and> encode_result (encodes env n))"
  by (simp add: encode_segment_def Let_def)

declare encoding_loop.simps [simp del]

lemma encoding_loop_events_extend:
  "\<exists>ys. events (snd (encoding_loop cfg env a idxs completed w)) = events w @ ys"
proof (induction idxs arbitrary: completed w)
  case Nil
  show ?case by (simp add: encoding_loop.simps)
next
  case (Cons i idxs)
  let ?w1 = "w\<lparr>files := (files w)(Segment_part_file (i + 1) := None)\<rparr>"
  obtain ok w2 where enc: "encode_segment cfg env (i + 1) a ?w1 = (ok, w2)"
    by (cases "encode_segment cfg env (i + 1) a ?w1")
  from encode_segment_events [of cfg env "i + 1" a ?w1] enc
  obtain zs where w2: "events w2 = events w @ zs" by auto
  show ?case
  proof (cases "\<not> stop_requested (flags w) \<and> ok \<and> files w2 (Segment_part_file (i + 1)) \<noteq> None
      \<and> \<not> move_fails (encodes env (i + 1))")
    case False
    then show ?thesis using enc w2 by (auto simp: encoding_loop.simps Let_def split: option.splits)
  next
    case True
    then obtain f where f: "files w2 (Segment_part_file (i + 1)) = Some f" by auto
    let ?w3 = "w2\<lparr>files := (files w2)(Segment_final_file (i + 1) \<mapsto> f,
                                      Segment_part_file (i + 1) := None)\<rparr>"
    from Cons.IH [of "completed @ [Segment_final_file (i + 1)]" ?w3]
    obtain ys where "events (snd (encoding_loop cfg env a idxs
        (completed @ [Segment_final_file (i + 1)]) ?w3)) = events ?w3 @ ys" by blast
    with True enc f w2 show ?thesis by (simp add: encoding_loop.simps Let_def)
  qed
qed

lemma encoding_loop_first_run:
  assumes "\<not> stop_requested (flags w)"
    and "\<not> (codec cfg = H265 \<and> 0 < threads cfg \<and> x265_params_has_pools cfg)"
  shows "\<exists>ys. events (snd (encoding_loop cfg env a (i # idxs) completed w)) =
      events w @ Encode_run (i + 1) (encode_result (encodes env (i + 1))) # ys"
proof -
  let ?w1 = "w\<lparr>files := (files w)(Segment_part_file (i + 1) := None)\<rparr>"
  obtain ok w2 where enc: "encode_segment cfg env (i + 1) a ?w1 = (ok, w2)"
    by (cases "encode_segment cfg env (i + 1) a ?w1")
  from encode_segment_events [of cfg env "i + 1" a ?w1] enc assms
  have w2: "events w2 = events w @ [Encode_run (i + 1) (encode_result (encodes env (i + 1)))]"
    by auto
  show ?thesis
  proof (cases "ok \<and> files w2 (Segment_part_file (i + 1)) \<noteq> None
      \<and> \<not> move_fails (encodes env (i + 1))")
    case False
    then show ?thesis using enc w2 assms by (auto simp: encoding_loop.simps Let_def split: option.splits)
  next
    case True
    then obtain f where f: "files w2 (Segment_part_file (i + 1)) = Some f" by auto
    let ?w3 = "w2\<lparr>files := (files w2)(Segment_final_file (i + 1) \<mapsto> f,
                                      Segment_part_file (i + 1) := None)\<rparr>"
    from encoding_loop_events_extend [of cfg env a idxs "completed @ [Segment_final_file (i + 1)]" ?w3]
    obtain ys where "events (snd (encoding_loop cfg env a idxs
        (completed @ [Segment_final_file (i + 1)]) ?w3)) = events ?w3 @ ys" by blast
    with True enc f w2 assms show ?thesis by (simp add: encoding_loop.simps Let_def)
  qed
qed

lemma concatenate_segments_events:
  "\<exists>ys. events (snd (concatenate_segments env segment_files w)) = events w @ ys"
  by (auto simp: concatenate_segments_def Let_def
      split: write_outcome.splits invocation.splits option.splits)

lemma final_outcome_events_extend:
  "\<exists>ys. events (snd (final_outcome cfg env planned completed w)) = events w @ ys"
proof -
  obtain r w' where c: "concatenate_segments env completed w = (r, w')"
    by (cases "concatenate_segments env completed w")
  with concatenate_segments_events [of env completed w]
  obtain ys where "events w' = events w @ ys" by auto
  with c show ?thesis
    by (auto simp: final_outcome_def rmtree_def split: sum.splits)
qed


text \<open>
  Claim C2.  When the first \<open>K\<close> planned segments have valid final artifacts and the
  artifact of segment \<open>K + 1\<close> exists but is invalid, the resume scan returns exactly the
  first \<open>K\<close> artifacts as the completed prefix and \<open>K\<close> as the resume index; the state it
  leaves differs from the one it found only in that artifact \<open>K + 1\<close> is deleted and in
  the log, which shows that the artifacts 1 to \<open>K + 1\<close> were checked and probed, in this
  order, and no other; and unless a stop is already requested (or the configuration
  makes \<^verbatim>\<open>encode_segment\<close> refuse), the first thing the run does after the scan is the
  backend run for segment \<open>K + 1\<close>.
\<close>

theorem resume_scan_first_invalid:
  assumes K: "K < length planned"
    and valid: "\<forall>j<K.
      files w (Segment_final_file (j + 1)) \<noteq> None
      \<and> 0 < get_file_duration (files w) (Segment_final_file (j + 1))
      \<and> \<bar>get_file_duration (files w) (Segment_final_file (j + 1)) - seg_duration (planned ! j)\<bar>
          < max (1 / 10) (seg_duration (planned ! j) * (2 / 100))"
    and present: "files w (Segment_final_file (K + 1)) \<noteq> None"
    and invalid: "\<not> (0 < get_file_duration (files w) (Segment_final_file (K + 1))
      \<and> \<bar>get_file_duration (files w) (Segment_final_file (K + 1)) - seg_duration (planned ! K)\<bar>
          < max (1 / 10) (seg_duration (planned ! K) * (2 / 100)))"
  shows
    "(let scanned =
            w\<lparr>events := events w @ concat (map (\<lambda>n. [Checked (Segment_final_file n),
                   Probed (Segment_final_file n)]) [1 ..< K + 2]),
              files := (files w)(Segment_final_file (K + 1) := None)\<rparr>
      in resume_scan planned 0 [] 0 w = (map Segment_final_file [1 ..< K + 1], K, scanned)
         \<and> (\<not> stop_requested (flags w)
              \<and> \<not> (codec cfg = H265 \<and> 0 < threads cfg \<and> x265_params_has_pools cfg)
              \<longrightarrow> (\<exists>ys. events (snd (run_segments cfg env audio_present planned w)) =
                     events scanned
                     @ Encode_run (K + 1) (encode_result (encodes env (K + 1))) # ys)))"
proof -
  let ?ev = "\<lambda>n. [Checked (Segment_final_file n), Probed (Segment_final_file n)]"
  let ?scanned = "w\<lparr>events := events w @ concat (map ?ev [1 ..< K + 2]),
              files := (files w)(Segment_final_file (K + 1) := None)\<rparr>"
  let ?pre = "take K planned"
  let ?rest = "drop (Suc K) planned"
  let ?w1 = "w\<lparr>events := events w @ concat (map ?ev [0 + 1 ..< 0 + length ?pre + 1])\<rparr>"
  from K have split: "planned = ?pre @ planned ! K # ?rest"
    by (simp add: id_take_nth_drop)
  from K have len: "length ?pre = K" by simp
  have pre: "\<forall>j<length ?pre.
      files w (Segment_final_file (0 + j + 1)) \<noteq> None
      \<and> 0 < get_file_duration (files w) (Segment_final_file (0 + j + 1))
      \<and> \<bar>get_file_duration (files w) (Segment_final_file (0 + j + 1)) - seg_duration (?pre ! j)\<bar>
          < max (1 / 10) (seg_duration (?pre ! j) * (2 / 100))"
    using valid len by simp
  have "resume_scan planned 0 [] 0 w = resume_scan (?pre @ planned ! K # ?rest) 0 [] 0 w"
    using split by simp
  also have "\<dots> = resume_scan (planned ! K # ?rest) (0 + length ?pre)
       ([] @ map Segment_final_file [0 + 1 ..< 0 + length ?pre + 1]) (0 + length ?pre) ?w1"
    by (rule resume_scan_valid_prefix [OF pre])
  also have "\<dots> = resume_scan (planned ! K # ?rest) K (map Segment_final_file [1 ..< K + 1]) K ?w1"
    using len by simp
  also have "\<dots> = (map Segment_final_file [1 ..< K + 1], K,
      ?w1\<lparr>events := events ?w1 @ [Checked (Segment_final_file (K + 1)),
                                   Probed (Segment_final_file (K + 1))],
          files := (files ?w1)(Segment_final_file (K + 1) := None)\<rparr>)"
    using present invalid by (intro resume_scan_reject) simp_all
  also have "?w1\<lparr>events := events ?w1 @ [Checked (Segment_final_file (K + 1)),
                                   Probed (Segment_final_file (K + 1))],
          files := (files ?w1)(Segment_final_file (K + 1) := None)\<rparr> = ?scanned"
    using len by simp
  finally have scan: "resume_scan planned 0 [] 0 w = (map Segment_final_file [1 ..< K + 1], K, ?scanned)" .
  have run: "\<exists>ys. events (snd (run_segments cfg env audio_present planned w)) =
        events ?scanned @ Encode_run (K + 1) (encode_result (encodes env (K + 1))) # ys"
    if go: "\<not> stop_requested (flags w)
        \<and> \<not> (codec cfg = H265 \<and> 0 < threads cfg \<and> x265_params_has_pools cfg)"
  proof -
    let ?completed = "map Segment_final_file [1 ..< K + 1]"
    from K have idxs: "[K ..< length planned] = K # [Suc K ..< length planned]"
      by (simp add: upt_conv_Cons)
    from go have "\<not> stop_requested (flags ?scanned)" by simp
    with go obtain ys where first:
      "events (snd (encoding_loop cfg env audio_present (K # [Suc K ..< length planned])
          ?completed ?scanned)) =
        events ?scanned @ Encode_run (K + 1) (encode_result (encodes env (K + 1))) # ys"
      using encoding_loop_first_run [of ?scanned cfg env audio_present K] by blast
    obtain completed' w2 where loop:
      "encoding_loop cfg env audio_present (K # [Suc K ..< length planned]) ?completed ?scanned
       = (completed', w2)"
      by (cases "encoding_loop cfg env audio_present (K # [Suc K ..< length planned])
          ?completed ?scanned")
    obtain zs where "events (snd (final_outcome cfg env planned completed' w2)) = events w2 @ zs"
      using final_outcome_events_extend by blast
    with first loop have "events (snd (final_outcome cfg env planned completed' w2)) =
        events ?scanned @ Encode_run (K + 1) (encode_result (encodes env (K + 1))) # (ys @ zs)"
      by simp
    moreover have "run_segments cfg env audio_present planned w =
        final_outcome cfg env planned completed' w2"
      by (simp only: run_segments_def scan Let_def prod.case idxs loop)
    ultimately have "events (snd (run_segments cfg env audio_present planned w)) =
        events ?scanned @ Encode_run (K + 1) (encode_result (encodes env (K + 1))) # (ys @ zs)"
      by (simp only:)
    then show ?thesis by (rule exI)
  qed
  show ?thesis unfolding Let_def
  proof (intro conjI impI)
    show "resume_scan planned 0 [] 0 w = (map Segment_final_file [1 ..< K + 1], K, ?scanned)"
      by (rule scan)
  next
    assume "\<not> stop_requested (flags w)
        \<and> \<not> (codec cfg = H265 \<and> 0 < threads cfg \<and> x265_params_has_pools cfg)"
    then show "\<exists>ys. events (snd (run_segments cfg env audio_present planned w)) =
        events ?scanned @ Encode_run (K + 1) (encode_result (encodes env (K + 1))) # ys"
      by (rule run)
  qed
qed


theorem resume_scan_first_invalid_witness:
  "(1::nat) < length (calculate_segments 12 5)
   \<and> fst (resume_scan (calculate_segments 12 5) 0 [] 0
        (initial_world
          [Segment_final_file 1 \<mapsto>
             Media (Some \<lparr>streams = 1, format_duration = Seconds 5\<rparr>) None 10,
           Segment_final_file 2 \<mapsto>
             Media (Some \<lparr>streams = 1, format_duration = Seconds 3\<rparr>) None 11,
           Segment_final_file 3 \<mapsto>
             Media (Some \<lparr>streams = 1, format_duration = Seconds 2\<rparr>) None 12] True)) = [Segment_final_file 1]
   \<and> fst (snd (resume_scan (calculate_segments 12 5) 0 [] 0
        (initial_world
          [Segment_final_file 1 \<mapsto>
             Media (Some \<lparr>streams = 1, format_duration = Seconds 5\<rparr>) None 10,
           Segment_final_file 2 \<mapsto>
             Media (Some \<lparr>streams = 1, format_duration = Seconds 3\<rparr>) None 11,
           Segment_final_file 3 \<mapsto>
             Media (Some \<lparr>streams = 1, format_duration = Seconds 2\<rparr>) None 12] True))) = 1
   \<and> files (snd (snd (resume_scan (calculate_segments 12 5) 0 [] 0
        (initial_world
          [Segment_final_file 1 \<mapsto>
             Media (Some \<lparr>streams = 1, format_duration = Seconds 5\<rparr>) None 10,
           Segment_final_file 2 \<mapsto>
             Media (Some \<lparr>streams = 1, format_duration = Seconds 3\<rparr>) None 11,
           Segment_final_file 3 \<mapsto>
             Media (Some \<lparr>streams = 1, format_duration = Seconds 2\<rparr>) None 12] True)))) (Segment_final_file 1)
       = Some (Media (Some \<lparr>streams = 1, format_duration = Seconds 5\<rparr>) None 10)
   \<and> files (snd (snd (resume_scan (calculate_segments 12 5) 0 [] 0
        (initial_world
          [Segment_final_file 1 \<mapsto>
             Media (Some \<lparr>streams = 1, format_duration = Seconds 5\<rparr>) None 10,
           Segment_final_file 2 \<mapsto>
             Media (Some \<lparr>streams = 1, format_duration = Seconds 3\<rparr>) None 11,
           Segment_final_file 3 \<mapsto>
             Media (Some \<lparr>streams = 1, format_duration = Seconds 2\<rparr>) None 12] True)))) (Segment_final_file 2) = None
   \<and> files (snd (snd (resume_scan (calculate_segments 12 5) 0 [] 0
        (initial_world
          [Segment_final_file 1 \<mapsto>
             Media (Some \<lparr>streams = 1, format_duration = Seconds 5\<rparr>) None 10,
           Segment_final_file 2 \<mapsto>
             Media (Some \<lparr>streams = 1, format_duration = Seconds 3\<rparr>) None 11,
           Segment_final_file 3 \<mapsto>
             Media (Some \<lparr>streams = 1, format_duration = Seconds 2\<rparr>) None 12] True)))) (Segment_final_file 3)
       = Some (Media (Some \<lparr>streams = 1, format_duration = Seconds 2\<rparr>) None 12)
   \<and> events (snd (snd (resume_scan (calculate_segments 12 5) 0 [] 0
        (initial_world
          [Segment_final_file 1 \<mapsto>
             Media (Some \<lparr>streams = 1, format_duration = Seconds 5\<rparr>) None 10,
           Segment_final_file 2 \<mapsto>
             Media (Some \<lparr>streams = 1, format_duration = Seconds 3\<rparr>) None 11,
           Segment_final_file 3 \<mapsto>
             Media (Some \<lparr>streams = 1, format_duration = Seconds 2\<rparr>) None 12] True))))
       = [Checked (Segment_final_file 1), Probed (Segment_final_file 1),
          Checked (Segment_final_file 2), Probed (Segment_final_file 2)]"
proof -
  let ?w = "initial_world
          [Segment_final_file 1 \<mapsto>
             Media (Some \<lparr>streams = 1, format_duration = Seconds 5\<rparr>) None 10,
           Segment_final_file 2 \<mapsto>
             Media (Some \<lparr>streams = 1, format_duration = Seconds 3\<rparr>) None 11,
           Segment_final_file 3 \<mapsto>
             Media (Some \<lparr>streams = 1, format_duration = Seconds 2\<rparr>) None 12] True"
  let ?planned = "calculate_segments 12 5"
  have K: "(1::nat) < length ?planned"
    by (simp add: calculate_segments_example)
  have valid: "\<forall>j<1::nat.
      files ?w (Segment_final_file (j + 1)) \<noteq> None
      \<and> 0 < get_file_duration (files ?w) (Segment_final_file (j + 1))
      \<and> \<bar>get_file_duration (files ?w) (Segment_final_file (j + 1)) - seg_duration (?planned ! j)\<bar>
          < max (1 / 10) (seg_duration (?planned ! j) * (2 / 100))"
    by (simp add: calculate_segments_example initial_world_def get_file_duration_def
        parsed_duration_def get_stream_info_def)
  have present: "files ?w (Segment_final_file (1 + 1)) \<noteq> None"
    by (simp add: initial_world_def)
  have invalid: "\<not> (0 < get_file_duration (files ?w) (Segment_final_file (1 + 1))
      \<and> \<bar>get_file_duration (files ?w) (Segment_final_file (1 + 1)) - seg_duration (?planned ! 1)\<bar>
          < max (1 / 10) (seg_duration (?planned ! 1) * (2 / 100)))"
    by (simp add: calculate_segments_example initial_world_def get_file_duration_def
        parsed_duration_def get_stream_info_def)
  from resume_scan_first_invalid [OF K valid present invalid, unfolded Let_def, THEN conjunct1]
  have "resume_scan ?planned 0 [] 0 ?w =
      (map Segment_final_file [1 ..< 1 + 1], 1,
       ?w\<lparr>events := events ?w @ concat (map (\<lambda>n. [Checked (Segment_final_file n),
                   Probed (Segment_final_file n)]) [1 ..< 1 + 2]),
          files := (files ?w)(Segment_final_file (1 + 1) := None)\<rparr>)" .
  then show ?thesis using K by (simp add: initial_world_def upt_rec)
qed

section \<open>Properties of the process supervisor\<close>

lemma poll_loop_idle_step:
  "poll p k = None \<Longrightarrow> \<not> force_stop_requested (flags_at p k) \<Longrightarrow>
   \<not> stop_requested (flags_at p k) \<Longrightarrow> poll_loop p k = poll_loop p (Suc k)"
  by (subst poll_loop.simps) simp

lemma poll_loop_idle:
  "\<forall>j<k. poll p j = None \<and> \<not> force_stop_requested (flags_at p j)
          \<and> \<not> stop_requested (flags_at p j) \<Longrightarrow>
   poll_loop p 0 = poll_loop p k"
proof (induction k)
  case 0
  show ?case by simp
next
  case (Suc k)
  then have "poll_loop p 0 = poll_loop p k" by simp
  also from Suc.prems have "poll_loop p k = poll_loop p (Suc k)"
    by (intro poll_loop_idle_step) simp_all
  finally show ?case .
qed

lemma poll_loop_exited: "poll p k = Some rc \<Longrightarrow> poll_loop p k = Some (Normal (Some rc), [])"
  by (subst poll_loop.simps) simp

lemma poll_loop_force:
  "poll p k = None \<Longrightarrow> force_stop_requested (flags_at p k) \<Longrightarrow>
   poll_loop p k = Some (Normal None, [Kill])"
  by (subst poll_loop.simps) simp

lemma poll_loop_stop:
  "poll p k = None \<Longrightarrow> \<not> force_stop_requested (flags_at p k) \<Longrightarrow>
   stop_requested (flags_at p k) \<Longrightarrow> poll_loop p k = Some (graceful_stop p)"
  by (subst poll_loop.simps) simp

lemmas ladder_defs =
  graceful_stop_def escalate_interrupt_def escalate_terminate_def escalate_kill_def
  FFMPEG_SHUTDOWN_TIMEOUT_Q_def FFMPEG_SHUTDOWN_TIMEOUT_SIG_def FFMPEG_SHUTDOWN_TIMEOUT_TERM_def

lemmas ladder_splits = stage_outcome.splits wait_outcome.splits option.splits

lemma ladder_order:
  "subseq (actions (report (graceful_stop p)))
     [Write_quit, Wait 10, Send_interrupt, Wait 8, Send_terminate, Wait 5, Kill]"
  by (simp add: report_def ladder_defs split: ladder_splits)

lemma ladder_first: "take 1 (actions (report (graceful_stop p))) = [Write_quit]"
  by (simp add: report_def ladder_defs split: ladder_splits)

lemma ladder_waited: "waited (actions (report (graceful_stop p))) \<le> 23"
  by (simp add: report_def ladder_defs split: ladder_splits)

lemma ladder_interrupt:
  "Send_interrupt \<in> set (actions (report (graceful_stop p))) \<Longrightarrow>
   quit_stage p = Send_failed None \<or> quit_stage p = Sent (Timed_out None)"
  by (simp add: report_def ladder_defs split: ladder_splits if_splits)

lemma ladder_terminate:
  "Send_terminate \<in> set (actions (report (graceful_stop p))) \<Longrightarrow>
   Send_interrupt \<in> set (actions (report (graceful_stop p)))
   \<and> interrupt_stage p = Sent (Timed_out None)"
  by (simp add: report_def ladder_defs split: ladder_splits if_splits)

lemma ladder_kill:
  "Kill \<in> set (actions (report (graceful_stop p))) \<Longrightarrow>
   Send_interrupt \<in> set (actions (report (graceful_stop p)))
   \<and> (interrupt_stage p = Send_failed None
       \<or> Send_terminate \<in> set (actions (report (graceful_stop p)))
          \<and> (terminate_stage p = Sent (Timed_out None) \<or> terminate_stage p = Send_failed None))"
  by (simp add: report_def ladder_defs split: ladder_splits if_splits)

lemma ladder_unresponsive:
  "quit_stage p = Sent (Timed_out None) \<Longrightarrow> interrupt_stage p = Sent (Timed_out None) \<Longrightarrow>
   terminate_stage p = Sent (Timed_out None) \<Longrightarrow>
   report (graceful_stop p) =
     \<lparr>success = False,
      actions = [Write_quit, Wait 10, Send_interrupt, Wait 8, Send_terminate, Wait 5, Kill]\<rparr>"
  by (simp add: report_def ladder_defs)

lemma run_ffmpeg_command_stop:
  assumes "launch p = Launched"
    and "\<forall>j<k. poll p j = None \<and> \<not> force_stop_requested (flags_at p j)
          \<and> \<not> stop_requested (flags_at p j)"
    and "poll p k = None" and "\<not> force_stop_requested (flags_at p k)"
    and "stop_requested (flags_at p k)"
  shows "run_ffmpeg_command p = Some (report (graceful_stop p))"
proof -
  from assms(2) have "poll_loop p 0 = poll_loop p k" by (rule poll_loop_idle)
  also from assms(3-5) have "\<dots> = Some (graceful_stop p)" by (rule poll_loop_stop)
  finally show ?thesis using assms(1) by (simp add: run_ffmpeg_command_def)
qed

text \<open>
  Claim C4.  When the \<open>k\<close>-th iteration of the loop is the first to see a flag, finds the
  child alive and sees the graceful stop without the force stop, \<^verbatim>\<open>run_ffmpeg_command\<close>
  returns, and what it did to the child is a subsequence of: quit token, wait 10,
  interrupt, wait 8, terminate, wait 5, kill; it starts with the quit token.  The
  interrupt is sent only if writing the token failed or the first wait timed out, with
  the child still alive; the terminate signal only after the interrupt, if the wait for
  it timed out with the child alive; the kill only if the stage before it failed to
  send its signal or the wait after terminate timed out, always with the child alive.
  If all three waits time out and the child stays alive, every stage is run, the kill
  last, and the call reports failure.  The waits never add up to more than the sum of
  the three timeouts.
\<close>

theorem shutdown_ladder:
  assumes launched: "launch p = Launched"
    and idle: "\<forall>j<k. poll p j = None \<and> \<not> force_stop_requested (flags_at p j)
          \<and> \<not> stop_requested (flags_at p j)"
    and alive: "poll p k = None"
    and no_force: "\<not> force_stop_requested (flags_at p k)"
    and stop: "stop_requested (flags_at p k)"
  shows "\<exists>r. run_ffmpeg_command p = Some r
     \<and> subseq (actions r)
          [Write_quit, Wait FFMPEG_SHUTDOWN_TIMEOUT_Q,
           Send_interrupt, Wait FFMPEG_SHUTDOWN_TIMEOUT_SIG,
           Send_terminate, Wait FFMPEG_SHUTDOWN_TIMEOUT_TERM, Kill]
     \<and> take 1 (actions r) = [Write_quit]
     \<and> (Send_interrupt \<in> set (actions r) \<longrightarrow>
          quit_stage p = Send_failed None \<or> quit_stage p = Sent (Timed_out None))
     \<and> (Send_terminate \<in> set (actions r) \<longrightarrow>
          Send_interrupt \<in> set (actions r) \<and> interrupt_stage p = Sent (Timed_out None))
     \<and> (Kill \<in> set (actions r) \<longrightarrow>
          Send_interrupt \<in> set (actions r)
          \<and> (interrupt_stage p = Send_failed None
              \<or> Send_terminate \<in> set (actions r)
                 \<and> (terminate_stage p = Sent (Timed_out None)
                     \<or> terminate_stage p = Send_failed None)))
     \<and> (quit_stage p = Sent (Timed_out None) \<and> interrupt_stage p = Sent (Timed_out None)
          \<and> terminate_stage p = Sent (Timed_out None) \<longrightarrow>
          r = \<lparr>success = False,
               actions = [Write_quit, Wait FFMPEG_SHUTDOWN_TIMEOUT_Q,
                          Send_interrupt, Wait FFMPEG_SHUTDOWN_TIMEOUT_SIG,
                          Send_terminate, Wait FFMPEG_SHUTDOWN_TIMEOUT_TERM, Kill]\<rparr>)
     \<and> waited (actions r)
         \<le> FFMPEG_SHUTDOWN_TIMEOUT_Q + FFMPEG_SHUTDOWN_TIMEOUT_SIG + FFMPEG_SHUTDOWN_TIMEOUT_TERM"
proof -
  have run: "run_ffmpeg_command p = Some (report (graceful_stop p))"
    using assms by (rule run_ffmpeg_command_stop)
  have timeouts: "FFMPEG_SHUTDOWN_TIMEOUT_Q = 10" "FFMPEG_SHUTDOWN_TIMEOUT_SIG = 8"
    "FFMPEG_SHUTDOWN_TIMEOUT_TERM = 5"
    by (simp_all add: ladder_defs)
  show ?thesis
    unfolding timeouts
  proof (intro exI [of _ "report (graceful_stop p)"] conjI impI)
    show "run_ffmpeg_command p = Some (report (graceful_stop p))" by (rule run)
    show "subseq (actions (report (graceful_stop p)))
        [Write_quit, Wait 10, Send_interrupt, Wait 8, Send_terminate, Wait 5, Kill]"
      by (rule ladder_order)
    show "take 1 (actions (report (graceful_stop p))) = [Write_quit]" by (rule ladder_first)
    show "waited (actions (report (graceful_stop p))) \<le> 10 + 8 + 5"
      using ladder_waited [of p] by simp
  next
    assume "Send_interrupt \<in> set (actions (report (graceful_stop p)))"
    then show "quit_stage p = Send_failed None \<or> quit_stage p = Sent (Timed_out None)"
      by (rule ladder_interrupt)
  next
    assume h: "Send_terminate \<in> set (actions (report (graceful_stop p)))"
    then show "Send_interrupt \<in> set (actions (report (graceful_stop p)))"
      using ladder_terminate by blast
    from h show "interrupt_stage p = Sent (Timed_out None)" using ladder_terminate by blast
  next
    assume h: "Kill \<in> set (actions (report (graceful_stop p)))"
    then show "Send_interrupt \<in> set (actions (report (graceful_stop p)))"
      using ladder_kill by blast
    from h show "interrupt_stage p = Send_failed None
        \<or> Send_terminate \<in> set (actions (report (graceful_stop p)))
           \<and> (terminate_stage p = Sent (Timed_out None) \<or> terminate_stage p = Send_failed None)"
      using ladder_kill by blast
  next
    assume "quit_stage p = Sent (Timed_out None) \<and> interrupt_stage p = Sent (Timed_out None)
        \<and> terminate_stage p = Sent (Timed_out None)"
    then show "report (graceful_stop p) =
        \<lparr>success = False,
         actions = [Write_quit, Wait 10, Send_interrupt, Wait 8, Send_terminate, Wait 5, Kill]\<rparr>"
      using ladder_unresponsive by blast
  qed
qed

theorem shutdown_ladder_witness:
  "run_ffmpeg_command
     \<lparr>launch = Launched, poll = (\<lambda>k. None),
        flags_at = (\<lambda>k. \<lparr>stop_requested = (1 \<le> k), force_stop_requested = False\<rparr>),
        quit_stage = Sent (Timed_out None), interrupt_stage = Sent (Timed_out None),
        terminate_stage = Sent (Timed_out None)\<rparr>
   = Some \<lparr>success = False,
            actions = [Write_quit, Wait 10, Send_interrupt, Wait 8, Send_terminate, Wait 5, Kill]\<rparr>
   \<and> waited [Write_quit, Wait 10, Send_interrupt, Wait 8, Send_terminate, Wait 5, Kill] = 23"
proof -
  let ?p = "\<lparr>launch = Launched, poll = (\<lambda>k. None),
        flags_at = (\<lambda>k. \<lparr>stop_requested = (1 \<le> k), force_stop_requested = False\<rparr>),
        quit_stage = Sent (Timed_out None), interrupt_stage = Sent (Timed_out None),
        terminate_stage = Sent (Timed_out None)\<rparr>"
  have launched: "launch ?p = Launched" by simp
  have idle: "\<forall>j<1. poll ?p j = None \<and> \<not> force_stop_requested (flags_at ?p j)
          \<and> \<not> stop_requested (flags_at ?p j)" by simp
  have alive: "poll ?p 1 = None" by simp
  have no_force: "\<not> force_stop_requested (flags_at ?p 1)" by simp
  have stop: "stop_requested (flags_at ?p 1)" by simp
  from shutdown_ladder [OF launched idle alive no_force stop]
  obtain r where "run_ffmpeg_command ?p = Some r"
    and "quit_stage ?p = Sent (Timed_out None) \<and> interrupt_stage ?p = Sent (Timed_out None)
          \<and> terminate_stage ?p = Sent (Timed_out None) \<longrightarrow>
          r = \<lparr>success = False,
               actions = [Write_quit, Wait FFMPEG_SHUTDOWN_TIMEOUT_Q,
                          Send_interrupt, Wait FFMPEG_SHUTDOWN_TIMEOUT_SIG,
                          Send_terminate, Wait FFMPEG_SHUTDOWN_TIMEOUT_TERM, Kill]\<rparr>"
    by blast
  then have "run_ffmpeg_command ?p = Some \<lparr>success = False,
               actions = [Write_quit, Wait FFMPEG_SHUTDOWN_TIMEOUT_Q,
                          Send_interrupt, Wait FFMPEG_SHUTDOWN_TIMEOUT_SIG,
                          Send_terminate, Wait FFMPEG_SHUTDOWN_TIMEOUT_TERM, Kill]\<rparr>"
    by simp
  then show ?thesis
    by (simp add: FFMPEG_SHUTDOWN_TIMEOUT_Q_def FFMPEG_SHUTDOWN_TIMEOUT_SIG_def
        FFMPEG_SHUTDOWN_TIMEOUT_TERM_def)
qed

lemma ladder_success_no_kill:
  "success (report (graceful_stop p)) \<Longrightarrow> Kill \<notin> set (actions (report (graceful_stop p)))"
  by (simp add: report_def ladder_defs split: ladder_splits if_splits)

lemma poll_loop_success_no_kill:
  assumes ret: "poll_loop p k = Some x"
  shows "success (report x) \<longrightarrow> Kill \<notin> set (actions (report x))"
proof (rule poll_loop.raw_induct
    [where P = "\<lambda>p k x. success (report x) \<longrightarrow> Kill \<notin> set (actions (report x))", OF _ ret])
  fix f p k x
  assume IH: "\<And>p k x. f p k = Some x \<Longrightarrow>
      success (report x) \<longrightarrow> Kill \<notin> set (actions (report x))"
    and eq: "(case poll p k of
        Some rc \<Rightarrow> Some (Normal (Some rc), [])
      | None \<Rightarrow>
          if force_stop_requested (flags_at p k) then Some (Normal None, [Kill])
          else if stop_requested (flags_at p k) then Some (graceful_stop p)
          else f p (Suc k)) = Some x"
  show "success (report x) \<longrightarrow> Kill \<notin> set (actions (report x))"
  proof (cases "poll p k")
    case (Some rc)
    with eq show ?thesis by (auto simp: report_def)
  next
    case None
    show ?thesis
    proof (cases "force_stop_requested (flags_at p k)")
      case True
      with None eq show ?thesis by (auto simp: report_def)
    next
      case False
      show ?thesis
      proof (cases "stop_requested (flags_at p k)")
        case True
        with None False eq have "x = graceful_stop p" by simp
        then show ?thesis using ladder_success_no_kill by blast
      next
        case no_stop: False
        with None False eq have "f p (Suc k) = Some x" by simp
        then show ?thesis by (rule IH)
      qed
    qed
  qed
qed

lemma run_ffmpeg_command_exited:
  assumes "launch p = Launched"
    and "\<forall>j<k. poll p j = None \<and> \<not> force_stop_requested (flags_at p j)
          \<and> \<not> stop_requested (flags_at p j)"
    and "poll p k = Some rc"
  shows "run_ffmpeg_command p = Some \<lparr>success = (rc = 0), actions = []\<rparr>"
proof -
  from assms(2) have "poll_loop p 0 = poll_loop p k" by (rule poll_loop_idle)
  also from assms(3) have "\<dots> = Some (Normal (Some rc), [])" by (rule poll_loop_exited)
  finally show ?thesis using assms(1) by (simp add: run_ffmpeg_command_def report_def)
qed

lemma run_ffmpeg_command_force:
  assumes "launch p = Launched"
    and "\<forall>j<k. poll p j = None \<and> \<not> force_stop_requested (flags_at p j)
          \<and> \<not> stop_requested (flags_at p j)"
    and "poll p k = None" and "force_stop_requested (flags_at p k)"
  shows "run_ffmpeg_command p = Some \<lparr>success = False, actions = [Kill]\<rparr>"
proof -
  from assms(2) have "poll_loop p 0 = poll_loop p k" by (rule poll_loop_idle)
  also from assms(3,4) have "\<dots> = Some (Normal None, [Kill])" by (rule poll_loop_force)
  finally show ?thesis using assms(1) by (simp add: run_ffmpeg_command_def report_def)
qed

lemma run_ffmpeg_command_success:
  assumes "run_ffmpeg_command p = Some r" and "success r"
  shows "launch p = Launched \<and> Kill \<notin> set (actions r)"
proof (cases "launch p")
  case Launched
  with assms(1) obtain x where x: "poll_loop p 0 = Some x" and r: "r = report x"
    by (auto simp: run_ffmpeg_command_def)
  from poll_loop_success_no_kill [OF x] assms(2) r Launched show ?thesis by simp
next
  case Not_found
  with assms show ?thesis by (auto simp: run_ffmpeg_command_def)
next
  case Launch_error
  with assms show ?thesis by (auto simp: run_ffmpeg_command_def)
qed

text \<open>
  The result of \<^verbatim>\<open>run_ffmpeg_command\<close> by what the loop sees first.  It is \<open>False\<close> when
  the executable is not found or \<^verbatim>\<open>Popen\<close> raises.  Otherwise, with \<open>k\<close> the first
  iteration that sees the child exited or a flag set: if the child has exited with
  status \<open>rc\<close> the result is \<open>rc = 0\<close>; if the child is alive and the force stop is
  set it is killed and the result is \<open>False\<close>; on a graceful stop the result is \<open>True\<close>
  exactly when the shutdown ends with the child reaped with status 0, and an exception
  during it gives \<open>False\<close>, after a kill if the child is still alive.  Whenever the
  result is \<open>True\<close>, the child was started and never killed.
\<close>

lemma run_ffmpeg_command_result:
  "(launch p = Not_found \<or> launch p = Launch_error \<longrightarrow>
      run_ffmpeg_command p = Some \<lparr>success = False, actions = []\<rparr>)
   \<and> (launch p = Launched
        \<and> (\<forall>j<k. poll p j = None \<and> \<not> force_stop_requested (flags_at p j)
                  \<and> \<not> stop_requested (flags_at p j)) \<longrightarrow>
        (\<forall>rc. poll p k = Some rc \<longrightarrow>
           run_ffmpeg_command p = Some \<lparr>success = (rc = 0), actions = []\<rparr>)
        \<and> (poll p k = None \<and> force_stop_requested (flags_at p k) \<longrightarrow>
             run_ffmpeg_command p = Some \<lparr>success = False, actions = [Kill]\<rparr>)
        \<and> (poll p k = None \<and> \<not> force_stop_requested (flags_at p k)
             \<and> stop_requested (flags_at p k) \<longrightarrow>
             (\<forall>rc acts. graceful_stop p = (Normal rc, acts) \<longrightarrow>
                run_ffmpeg_command p = Some \<lparr>success = (rc = Some 0), actions = acts\<rparr>)
             \<and> (\<forall>st acts. graceful_stop p = (Exception st, acts) \<longrightarrow>
                  run_ffmpeg_command p =
                    Some \<lparr>success = False,
                          actions = (if st = None then acts @ [Kill] else acts)\<rparr>)))
   \<and> (\<forall>r. run_ffmpeg_command p = Some r \<and> success r \<longrightarrow>
         launch p = Launched \<and> Kill \<notin> set (actions r))"
proof (intro conjI impI allI)
  assume "launch p = Not_found \<or> launch p = Launch_error"
  then show "run_ffmpeg_command p = Some \<lparr>success = False, actions = []\<rparr>"
    by (auto simp: run_ffmpeg_command_def)
next
  fix rc
  assume h: "launch p = Launched
      \<and> (\<forall>j<k. poll p j = None \<and> \<not> force_stop_requested (flags_at p j)
                \<and> \<not> stop_requested (flags_at p j))"
    and ex: "poll p k = Some rc"
  from h have l: "launch p = Launched" ..
  from h have i: "\<forall>j<k. poll p j = None \<and> \<not> force_stop_requested (flags_at p j)
                \<and> \<not> stop_requested (flags_at p j)" ..
  from l i ex show "run_ffmpeg_command p = Some \<lparr>success = (rc = 0), actions = []\<rparr>"
    by (rule run_ffmpeg_command_exited)
next
  assume h: "launch p = Launched
      \<and> (\<forall>j<k. poll p j = None \<and> \<not> force_stop_requested (flags_at p j)
                \<and> \<not> stop_requested (flags_at p j))"
    and f: "poll p k = None \<and> force_stop_requested (flags_at p k)"
  from h have l: "launch p = Launched" ..
  from h have i: "\<forall>j<k. poll p j = None \<and> \<not> force_stop_requested (flags_at p j)
                \<and> \<not> stop_requested (flags_at p j)" ..
  from f have f1: "poll p k = None" and f2: "force_stop_requested (flags_at p k)" by simp_all
  from l i f1 f2 show "run_ffmpeg_command p = Some \<lparr>success = False, actions = [Kill]\<rparr>"
    by (rule run_ffmpeg_command_force)
next
  fix rc acts
  assume h: "launch p = Launched
      \<and> (\<forall>j<k. poll p j = None \<and> \<not> force_stop_requested (flags_at p j)
                \<and> \<not> stop_requested (flags_at p j))"
    and s: "poll p k = None \<and> \<not> force_stop_requested (flags_at p k)
        \<and> stop_requested (flags_at p k)"
    and g: "graceful_stop p = (Normal rc, acts)"
  from h have l: "launch p = Launched" ..
  from h have i: "\<forall>j<k. poll p j = None \<and> \<not> force_stop_requested (flags_at p j)
                \<and> \<not> stop_requested (flags_at p j)" ..
  from s have s1: "poll p k = None" and s2: "\<not> force_stop_requested (flags_at p k)"
    and s3: "stop_requested (flags_at p k)" by simp_all
  from l i s1 s2 s3 have "run_ffmpeg_command p = Some (report (graceful_stop p))"
    by (rule run_ffmpeg_command_stop)
  then show "run_ffmpeg_command p = Some \<lparr>success = (rc = Some 0), actions = acts\<rparr>"
    unfolding g by (simp add: report_def)
next
  fix st acts
  assume h: "launch p = Launched
      \<and> (\<forall>j<k. poll p j = None \<and> \<not> force_stop_requested (flags_at p j)
                \<and> \<not> stop_requested (flags_at p j))"
    and s: "poll p k = None \<and> \<not> force_stop_requested (flags_at p k)
        \<and> stop_requested (flags_at p k)"
    and g: "graceful_stop p = (Exception st, acts)"
  from h have l: "launch p = Launched" ..
  from h have i: "\<forall>j<k. poll p j = None \<and> \<not> force_stop_requested (flags_at p j)
                \<and> \<not> stop_requested (flags_at p j)" ..
  from s have s1: "poll p k = None" and s2: "\<not> force_stop_requested (flags_at p k)"
    and s3: "stop_requested (flags_at p k)" by simp_all
  from l i s1 s2 s3 have "run_ffmpeg_command p = Some (report (graceful_stop p))"
    by (rule run_ffmpeg_command_stop)
  then show "run_ffmpeg_command p =
      Some \<lparr>success = False, actions = (if st = None then acts @ [Kill] else acts)\<rparr>"
    unfolding g by (simp add: report_def)
next
  fix r
  assume h: "run_ffmpeg_command p = Some r \<and> success r"
  then have "launch p = Launched \<and> Kill \<notin> set (actions r)"
    using run_ffmpeg_command_success by blast
  then show "launch p = Launched" and "Kill \<notin> set (actions r)" by simp_all
qed

lemma run_ffmpeg_command_result_example:
  "run_ffmpeg_command
     \<lparr>launch = Launched, poll = (\<lambda>k. if k < 2 then None else Some 0),
        flags_at = (\<lambda>k. \<lparr>stop_requested = False, force_stop_requested = False\<rparr>),
        quit_stage = Sent (Exited 0), interrupt_stage = Sent (Exited 0),
        terminate_stage = Sent (Exited 0)\<rparr>
   = Some \<lparr>success = True, actions = []\<rparr>"
proof -
  let ?p = "\<lparr>launch = Launched, poll = (\<lambda>k. if k < 2 then None else Some 0),
        flags_at = (\<lambda>k. \<lparr>stop_requested = False, force_stop_requested = False\<rparr>),
        quit_stage = Sent (Exited 0), interrupt_stage = Sent (Exited 0),
        terminate_stage = Sent (Exited 0)\<rparr>"
  have h: "launch ?p = Launched
      \<and> (\<forall>j<2. poll ?p j = None \<and> \<not> force_stop_requested (flags_at ?p j)
                \<and> \<not> stop_requested (flags_at ?p j))" by simp
  have ex: "poll ?p 2 = Some 0" by simp
  note run_ffmpeg_command_result
    [of ?p 2, THEN conjunct2, THEN conjunct1, THEN mp, OF h, THEN conjunct1, THEN spec, THEN mp, OF ex]
  then show ?thesis by simp
qed

text \<open>
  Claim C5.  The claim has a force stop kill the child immediately and the call report
  failure; the source declares the second event \<^verbatim>\<open>For immediate shutdown on second Ctrl+C\<close>
  and the handler announces \<^verbatim>\<open>Requesting immediate shutdown...\<close>.  The loop reads
  the force stop only at the head of an iteration; the graceful shutdown, once begun,
  never reads it.  In these two runs the first iteration sees the graceful stop and every
  later reading of the events would see the force stop as well.  When the child
  answers no request, it is killed only at the end of the ladder, after waits of 23
  seconds in all; when it obeys the quit token with status 0, it is never killed and
  the call returns \<open>True\<close>.
\<close>

theorem run_ffmpeg_command_force_during_shutdown:
  "run_ffmpeg_command
     \<lparr>launch = Launched, poll = (\<lambda>k. None),
      flags_at = (\<lambda>k. \<lparr>stop_requested = True, force_stop_requested = (0 < k)\<rparr>),
      quit_stage = Sent (Timed_out None), interrupt_stage = Sent (Timed_out None),
      terminate_stage = Sent (Timed_out None)\<rparr>
     = Some \<lparr>success = False,
             actions = [Write_quit, Wait 10, Send_interrupt, Wait 8, Send_terminate, Wait 5,
                        Kill]\<rparr>
   \<and> waited [Write_quit, Wait 10, Send_interrupt, Wait 8, Send_terminate, Wait 5, Kill] = 23
   \<and> run_ffmpeg_command
     \<lparr>launch = Launched, poll = (\<lambda>k. None),
      flags_at = (\<lambda>k. \<lparr>stop_requested = True, force_stop_requested = (0 < k)\<rparr>),
      quit_stage = Sent (Exited 0), interrupt_stage = Sent (Timed_out None),
      terminate_stage = Sent (Timed_out None)\<rparr>
     = Some \<lparr>success = True, actions = [Write_quit, Wait 10]\<rparr>"
  by (simp add: run_ffmpeg_command_def poll_loop_stop report_def ladder_defs)

section \<open>Cleanup of the manifest\<close>

text \<open>
  Claim C9, as amended.  For a non-empty list of artifacts, the manifest is gone after
  \<^verbatim>\<open>concatenate_segments\<close> whether the backend run succeeds, fails or raises, and also
  when writing the manifest raises, provided that deleting it does not fail; the value
  returned or the exception raised is that of the body.  When deleting the manifest
  fails, the code only warns, and a manifest that was written stays.
\<close>

theorem concatenate_segments_cleanup:
  assumes nonempty: "segment_files \<noteq> []"
  shows
    "(\<not> filelist_unlink_fails env \<longrightarrow>
        files (snd (concatenate_segments env segment_files w)) Filelist_path = None)
     \<and> (filelist_unlink_fails env \<and> manifest_write env = Written \<longrightarrow>
          files (snd (concatenate_segments env segment_files w)) Filelist_path
            = Some (Text segment_files))
     \<and> fst (concatenate_segments env segment_files w) =
         (case manifest_write env of
            Written \<Rightarrow>
              (case concat_result env of
                 Succeeds \<Rightarrow> Inr True
               | Fails \<Rightarrow> Inr False
               | Raises \<Rightarrow> Inl ())
          | _ \<Rightarrow> Inl ())"
proof (intro conjI impI)
  assume "\<not> filelist_unlink_fails env"
  with nonempty show "files (snd (concatenate_segments env segment_files w)) Filelist_path = None"
    by (simp add: concatenate_segments_def Let_def
        split: write_outcome.splits invocation.splits option.splits)
next
  assume "filelist_unlink_fails env \<and> manifest_write env = Written"
  with nonempty show "files (snd (concatenate_segments env segment_files w)) Filelist_path
      = Some (Text segment_files)"
    by (simp add: concatenate_segments_def Let_def
        split: invocation.splits option.splits)
next
  from nonempty show "fst (concatenate_segments env segment_files w) =
         (case manifest_write env of
            Written \<Rightarrow>
              (case concat_result env of
                 Succeeds \<Rightarrow> Inr True
               | Fails \<Rightarrow> Inr False
               | Raises \<Rightarrow> Inl ())
          | _ \<Rightarrow> Inl ())"
    by (simp add: concatenate_segments_def Let_def
        split: write_outcome.splits invocation.splits option.splits)
qed

theorem concatenate_segments_cleanup_witness:
  "[Segment_final_file 1] \<noteq> []
   \<and> files (snd (concatenate_segments
        \<lparr>mkdir_fails = False, rerun_write_fails = False, unlink_final_fails = False,
         startup_sigints = 0,
         encodes = (\<lambda>n. \<lparr>encode_result = True, encode_output = None, encode_sigints = 0,
                           move_fails = False\<rparr>),
         manifest_write = Written, concat_result = Raises, concat_output = None,
         concat_sigints = 0, filelist_unlink_fails = False, rmtree_fails = False\<rparr>
        [Segment_final_file 1] (initial_world Map.empty True))) Filelist_path = None
   \<and> fst (concatenate_segments
        \<lparr>mkdir_fails = False, rerun_write_fails = False, unlink_final_fails = False,
         startup_sigints = 0,
         encodes = (\<lambda>n. \<lparr>encode_result = True, encode_output = None, encode_sigints = 0,
                           move_fails = False\<rparr>),
         manifest_write = Written, concat_result = Raises, concat_output = None,
         concat_sigints = 0, filelist_unlink_fails = False, rmtree_fails = False\<rparr>
        [Segment_final_file 1] (initial_world Map.empty True)) = Inl ()"
proof -
  have nonempty: "[Segment_final_file 1] \<noteq> []" by simp
  note concatenate_segments_cleanup [OF nonempty, of
      "\<lparr>mkdir_fails = False, rerun_write_fails = False, unlink_final_fails = False,
         startup_sigints = 0,
         encodes = (\<lambda>n. \<lparr>encode_result = True, encode_output = None, encode_sigints = 0,
                           move_fails = False\<rparr>),
         manifest_write = Written, concat_result = Raises, concat_output = None,
         concat_sigints = 0, filelist_unlink_fails = False, rmtree_fails = False\<rparr>"
      "initial_world Map.empty True"]
  then show ?thesis by simp
qed

text \<open>
  Claim C9 as stated promises the removal in every case.  When \<^verbatim>\<open>unlink\<close> raises
  \<^verbatim>\<open>OSError\<close>, the handler in the \<^verbatim>\<open>finally\<close> clause prints a warning and the manifest is
  still there after a successful concatenation.
\<close>

theorem concatenate_segments_undeletable_counterexample:
  "files (snd (concatenate_segments
        \<lparr>mkdir_fails = False, rerun_write_fails = False, unlink_final_fails = False,
         startup_sigints = 0,
         encodes = (\<lambda>n. \<lparr>encode_result = True, encode_output = None, encode_sigints = 0,
                           move_fails = False\<rparr>),
         manifest_write = Written, concat_result = Succeeds, concat_output = None,
         concat_sigints = 0, filelist_unlink_fails = True, rmtree_fails = False\<rparr>
        [Segment_final_file 1] (initial_world Map.empty True))) Filelist_path
     = Some (Text [Segment_final_file 1])
   \<and> fst (concatenate_segments
        \<lparr>mkdir_fails = False, rerun_write_fails = False, unlink_final_fails = False,
         startup_sigints = 0,
         encodes = (\<lambda>n. \<lparr>encode_result = True, encode_output = None, encode_sigints = 0,
                           move_fails = False\<rparr>),
         manifest_write = Written, concat_result = Succeeds, concat_output = None,
         concat_sigints = 0, filelist_unlink_fails = True, rmtree_fails = False\<rparr>
        [Segment_final_file 1] (initial_world Map.empty True)) = Inr True"
  by (simp add: concatenate_segments_def initial_world_def)

section \<open>The guard on an existing destination\<close>

lemma get_stream_info_cong:
  "fs file_path = fs' file_path \<Longrightarrow> get_stream_info fs file_path t = get_stream_info fs' file_path t"
  by (simp add: get_stream_info_def)

lemma get_file_duration_cong:
  "fs file_path = fs' file_path \<Longrightarrow> get_file_duration fs file_path = get_file_duration fs' file_path"
  unfolding get_file_duration_def
  by (simp only: get_stream_info_cong [of fs file_path fs'])

lemma save_rerun_command_files:
  "files (save_rerun_command env w) =
     (if rerun_write_fails env then files w else (files w)(Rerun_command_file \<mapsto> Text []))"
  by (simp add: save_rerun_command_def)

lemma save_rerun_command_other [simp]:
  "events (save_rerun_command env w) = events w"
  "flags (save_rerun_command env w) = flags w"
  "segments_dir_exists (save_rerun_command env w) = segments_dir_exists w"
  by (simp_all add: save_rerun_command_def)

lemma startup_input_duration:
  "get_file_duration (files (save_rerun_command env w)) Input_file = get_file_duration (files w) Input_file"
  by (rule get_file_duration_cong) (simp add: save_rerun_command_files)

text \<open>
  Claim C6, as amended.  When the destination exists and the overwrite flag is not given,
  the run ends at the guard with exit status 0, provided the segments directory could
  be created and the input has a positive probed duration; otherwise it has already
  ended with status 1.  In every case no backend is run (the log gains at most the
  probe of the input), no file other than the rerun record is created, changed or
  deleted, the rerun record is written unless that fails, and the segments directory
  exists afterwards if it could be created.
\<close>

theorem existing_destination_guard:
  assumes present: "files w0 Final_output_file \<noteq> None"
    and keep: "\<not> overwrite_final_output cfg"
  shows
    "(let (out, w) = main_process cfg env w0
      in out = (if \<not> mkdir_fails env \<and> 0 < get_file_duration (files w0) Input_file
                then Sys_exit 0 else Sys_exit 1)
         \<and> (\<forall>p. p \<noteq> Rerun_command_file \<longrightarrow> files w p = files w0 p)
         \<and> files w Rerun_command_file =
             (if mkdir_fails env \<or> rerun_write_fails env then files w0 Rerun_command_file
              else Some (Text []))
         \<and> events w = events w0 @ (if mkdir_fails env then [] else [Probed Input_file])
         \<and> segments_dir_exists w = (\<not> mkdir_fails env \<or> segments_dir_exists w0))"
proof (cases "mkdir_fails env")
  case True
  then show ?thesis by (simp add: main_process_def startup_def Let_def)
next
  case False
  let ?w = "w0\<lparr>flags := deliver (startup_sigints env) (flags w0)\<rparr>"
  let ?w1 = "save_rerun_command env (?w\<lparr>segments_dir_exists := True\<rparr>)"
  have dur: "get_file_duration (files ?w1) Input_file = get_file_duration (files w0) Input_file"
    by (simp add: startup_input_duration)
  have fin: "files ?w1 Final_output_file \<noteq> None"
    using present by (simp add: save_rerun_command_files)
  show ?thesis
  proof (cases "0 < get_file_duration (files w0) Input_file")
    case True
    with False dur fin keep show ?thesis
      by (simp add: main_process_def startup_def Let_def save_rerun_command_files)
  next
    case neg: False
    with False dur fin keep show ?thesis
      by (simp add: main_process_def startup_def Let_def save_rerun_command_files)
  qed
qed


lemmas example_defs = clip_def example_config_def calm_def initial_world_def

lemmas probe_defs = get_file_duration_def parsed_duration_def get_stream_info_def
  has_audio_stream_def

theorem existing_destination_guard_witness:
  "files (initial_world [Input_file \<mapsto> clip 12 1, Final_output_file \<mapsto> clip 12 2] True) Final_output_file \<noteq> None
   \<and> \<not> overwrite_final_output example_config
   \<and> fst (main_process example_config calm (initial_world [Input_file \<mapsto> clip 12 1, Final_output_file \<mapsto> clip 12 2] True)) = Sys_exit 0
   \<and> files (snd (main_process example_config calm (initial_world [Input_file \<mapsto> clip 12 1, Final_output_file \<mapsto> clip 12 2] True))) Final_output_file = Some (clip 12 2)
   \<and> events (snd (main_process example_config calm (initial_world [Input_file \<mapsto> clip 12 1, Final_output_file \<mapsto> clip 12 2] True))) = [Probed Input_file]"
proof -
  have present: "files (initial_world [Input_file \<mapsto> clip 12 1, Final_output_file \<mapsto> clip 12 2] True) Final_output_file \<noteq> None"
    by (simp add: example_defs)
  have keep: "\<not> overwrite_final_output example_config"
    by (simp add: example_defs)
  have dur: "get_file_duration (files (initial_world [Input_file \<mapsto> clip 12 1, Final_output_file \<mapsto> clip 12 2] True)) Input_file = 12"
    by (simp add: example_defs probe_defs)
  have calm: "\<not> mkdir_fails calm" by (simp add: example_defs)
  obtain out w where run: "main_process example_config calm (initial_world [Input_file \<mapsto> clip 12 1, Final_output_file \<mapsto> clip 12 2] True) = (out, w)"
    by (cases "main_process example_config calm (initial_world [Input_file \<mapsto> clip 12 1, Final_output_file \<mapsto> clip 12 2] True)")
  from existing_destination_guard [OF present keep, of calm] run
  have "out = (if \<not> mkdir_fails calm \<and> 0 < get_file_duration (files (initial_world [Input_file \<mapsto> clip 12 1, Final_output_file \<mapsto> clip 12 2] True)) Input_file
                then Sys_exit 0 else Sys_exit 1)
         \<and> (\<forall>p. p \<noteq> Rerun_command_file \<longrightarrow> files w p = files (initial_world [Input_file \<mapsto> clip 12 1, Final_output_file \<mapsto> clip 12 2] True) p)
         \<and> files w Rerun_command_file =
             (if mkdir_fails calm \<or> rerun_write_fails calm then files (initial_world [Input_file \<mapsto> clip 12 1, Final_output_file \<mapsto> clip 12 2] True) Rerun_command_file
              else Some (Text []))
         \<and> events w = events (initial_world [Input_file \<mapsto> clip 12 1, Final_output_file \<mapsto> clip 12 2] True) @ (if mkdir_fails calm then [] else [Probed Input_file])
         \<and> segments_dir_exists w = (\<not> mkdir_fails calm \<or> segments_dir_exists (initial_world [Input_file \<mapsto> clip 12 1, Final_output_file \<mapsto> clip 12 2] True))"
    by simp
  then have "out = Sys_exit 0" and "files w Final_output_file = files (initial_world [Input_file \<mapsto> clip 12 1, Final_output_file \<mapsto> clip 12 2] True) Final_output_file"
    and "events w = events (initial_world [Input_file \<mapsto> clip 12 1, Final_output_file \<mapsto> clip 12 2] True) @ [Probed Input_file]"
    using dur calm by simp_all
  then show ?thesis using present keep run by (simp add: initial_world_def)
qed

text \<open>
  Claim C6 as stated says that nothing is written and that the status is 0.  In a run
  with an existing destination and a 12 second input the rerun record, absent before,
  is there afterwards; and with an input that cannot be probed the same run ends with
  status 1, before the guard is reached.
\<close>

theorem existing_destination_writes_counterexample:
  "files (initial_world [Input_file \<mapsto> clip 12 1, Final_output_file \<mapsto> clip 12 2] True) Final_output_file \<noteq> None
   \<and> \<not> overwrite_final_output example_config
   \<and> fst (main_process example_config calm (initial_world [Input_file \<mapsto> clip 12 1, Final_output_file \<mapsto> clip 12 2] True)) = Sys_exit 0
   \<and> files (initial_world [Input_file \<mapsto> clip 12 1, Final_output_file \<mapsto> clip 12 2] True) Rerun_command_file = None
   \<and> files (snd (main_process example_config calm (initial_world [Input_file \<mapsto> clip 12 1, Final_output_file \<mapsto> clip 12 2] True))) Rerun_command_file = Some (Text [])
   \<and> files (initial_world [Input_file \<mapsto> Text [], Final_output_file \<mapsto> clip 12 2] True) Final_output_file \<noteq> None
   \<and> exit_code (fst (main_process example_config calm (initial_world [Input_file \<mapsto> Text [], Final_output_file \<mapsto> clip 12 2] True))) = 1"
  by (simp add: main_process_def startup_def Let_def save_rerun_command_def
      example_defs probe_defs)

section \<open>Outcome of a run\<close>

lemma signal_handler_stop [simp]: "stop_requested (signal_handler fl)"
  by (simp add: signal_handler_def)

lemma deliver_0 [simp]: "deliver 0 fl = fl"
  by (simp add: deliver_def)

lemma deliver_Suc [simp]: "deliver (Suc n) fl = signal_handler (deliver n fl)"
  by (simp add: deliver_def)

lemma deliver_pos_stop: "0 < n \<Longrightarrow> stop_requested (deliver n fl)"
  by (cases n) simp_all

lemma deliver_stop_mono: "stop_requested fl \<Longrightarrow> stop_requested (deliver n fl)"
  by (cases n) simp_all

lemma encode_segment_flags:
  "flags (snd (encode_segment cfg env n a w)) =
     (if codec cfg = H265 \<and> 0 < threads cfg \<and> x265_params_has_pools cfg then flags w
      else deliver (encode_sigints (encodes env n)) (flags w))"
  by (simp add: encode_segment_def Let_def)

lemma encode_segment_final:
  "files (snd (encode_segment cfg env n a w)) Final_output_file = files w Final_output_file"
  by (simp add: encode_segment_def Let_def split: option.splits)

lemma resume_scan_summary:
  assumes "resume_scan segs i completed i w = (completed', idx', w')"
    and "length completed = i"
  shows "length completed' = idx' \<and> idx' \<le> i + length segs
     \<and> flags w' = flags w
     \<and> files w' Final_output_file = files w Final_output_file
     \<and> (\<exists>ys. events w' = events w @ ys
           \<and> (\<forall>e \<in> set ys. (\<exists>p. e = Checked p) \<or> (\<exists>p. e = Probed p)))"
  using assms
proof (induction segs arbitrary: i completed w)
  case Nil
  then show ?case by (simp add: resume_scan.simps)
next
  case (Cons seg_info rest)
  let ?p = "Segment_final_file (i + 1)"
  show ?case
  proof (cases "files w ?p \<noteq> None
      \<and> 0 < get_file_duration (files w) ?p
      \<and> \<bar>get_file_duration (files w) ?p - seg_duration seg_info\<bar>
          < max (1 / 10) (seg_duration seg_info * (2 / 100))")
    case False
    with Cons.prems show ?thesis
      by (auto simp: resume_scan.simps Let_def split: if_splits)
  next
    case True
    let ?w2 = "w\<lparr>events := events w @ [Checked ?p, Probed ?p]\<rparr>"
    from True Cons.prems(1) have
      "resume_scan rest (i + 1) (completed @ [?p]) (i + 1) ?w2 = (completed', idx', w')"
      by (simp add: resume_scan_accept)
    moreover from Cons.prems(2) have "length (completed @ [?p]) = i + 1" by simp
    ultimately have "length completed' = idx' \<and> idx' \<le> i + 1 + length rest
     \<and> flags w' = flags ?w2
     \<and> files w' Final_output_file = files ?w2 Final_output_file
     \<and> (\<exists>ys. events w' = events ?w2 @ ys
           \<and> (\<forall>e \<in> set ys. (\<exists>p. e = Checked p) \<or> (\<exists>p. e = Probed p)))"
      by (rule Cons.IH)
    then obtain ys where "length completed' = idx'" "idx' \<le> i + 1 + length rest"
      "flags w' = flags w" "files w' Final_output_file = files w Final_output_file"
      "events w' = events w @ ([Checked ?p, Probed ?p] @ ys)"
      "\<forall>e \<in> set ([Checked ?p, Probed ?p] @ ys). (\<exists>p. e = Checked p) \<or> (\<exists>p. e = Probed p)"
      by auto
    then show ?thesis by (intro conjI exI [of _ "[Checked ?p, Probed ?p] @ ys"]) simp_all
  qed
qed

lemma encoding_loop_stopped:
  "stop_requested (flags w) \<Longrightarrow>
   encoding_loop cfg env a idxs completed w = (completed, w)"
  by (cases idxs) (simp_all add: encoding_loop.simps)

lemma encoding_loop_step:
  assumes "\<not> stop_requested (flags w)"
    and "encode_segment cfg env (Suc i) a
           (w\<lparr>files := (files w)(Segment_part_file (Suc i) := None)\<rparr>) = (ok, w2)"
  shows "encoding_loop cfg env a (i # rest) completed w =
     (if \<not> ok then (completed, w2\<lparr>events := events w2 @ [Segment_failed (Suc i)]\<rparr>)
      else case files w2 (Segment_part_file (Suc i)) of
             None \<Rightarrow> (completed, w2\<lparr>events := events w2 @ [Move_failed (Suc i)]\<rparr>)
           | Some f \<Rightarrow>
               if move_fails (encodes env (Suc i))
               then (completed, w2\<lparr>events := events w2 @ [Move_failed (Suc i)]\<rparr>)
               else encoding_loop cfg env a rest (completed @ [Segment_final_file (Suc i)])
                      (w2\<lparr>files := (files w2)(Segment_final_file (Suc i) \<mapsto> f,
                                               Segment_part_file (Suc i) := None)\<rparr>))"
  using assms by (simp add: encoding_loop.simps Let_def split: option.splits)

lemma encoding_loop_summary:
  assumes "encoding_loop cfg env a idxs completed w = (completed', w')"
  shows "\<exists>ys. events w' = events w @ ys
     \<and> Concat_run \<notin> set ys
     \<and> ((\<exists>n. Segment_failed n \<in> set ys \<or> Move_failed n \<in> set ys) \<longrightarrow>
          length completed' < length completed + length idxs)
     \<and> length completed' \<le> length completed + length idxs
     \<and> (\<forall>n ok. Encode_run n ok \<in> set ys \<and> 0 < encode_sigints (encodes env n) \<longrightarrow>
          stop_requested (flags w'))
     \<and> files w' Final_output_file = files w Final_output_file
     \<and> (stop_requested (flags w) \<longrightarrow> stop_requested (flags w'))"
  using assms
proof (induction idxs arbitrary: completed w)
  case Nil
  then show ?case by (intro exI [of _ "[]"]) (simp add: encoding_loop.simps)
next
  case (Cons i rest)
  show ?case
  proof (cases "stop_requested (flags w)")
    case True
    with Cons.prems have "completed' = completed" "w' = w"
      by (simp_all add: encoding_loop_stopped)
    with True show ?thesis by (intro exI [of _ "[]"]) simp
  next
    case False
    let ?n = "Suc i"
    let ?w1 = "w\<lparr>files := (files w)(Segment_part_file ?n := None)\<rparr>"
    let ?conflict = "codec cfg = H265 \<and> 0 < threads cfg \<and> x265_params_has_pools cfg"
    let ?E = "if ?conflict then [] else [Encode_run ?n (encode_result (encodes env ?n))]"
    obtain ok w2 where enc: "encode_segment cfg env ?n a ?w1 = (ok, w2)"
      by (cases "encode_segment cfg env ?n a ?w1")
    have ev2: "events w2 = events w @ ?E"
      using encode_segment_events [of cfg env ?n a ?w1] enc by simp
    have fl2: "flags w2 = (if ?conflict then flags w
        else deliver (encode_sigints (encodes env ?n)) (flags w))"
      using encode_segment_flags [of cfg env ?n a ?w1] enc by simp
    have fin2: "files w2 Final_output_file = files w Final_output_file"
      using encode_segment_final [of cfg env ?n a ?w1] enc by simp
    have ok: "ok = (\<not> ?conflict \<and> encode_result (encodes env ?n))"
      using encode_segment_result [of cfg env ?n a ?w1] enc by simp
    have sig2: "\<forall>m ok'. Encode_run m ok' \<in> set ?E \<and> 0 < encode_sigints (encodes env m) \<longrightarrow>
        stop_requested (flags w2)"
      using fl2 by (auto simp: deliver_pos_stop)
    note step = encoding_loop_step [OF False enc, of rest completed]
    show ?thesis
    proof (cases "ok \<and> files w2 (Segment_part_file ?n) \<noteq> None \<and> \<not> move_fails (encodes env ?n)")
      case stop_here: False
      have "\<exists>x. (x = Segment_failed ?n \<or> x = Move_failed ?n)
          \<and> encoding_loop cfg env a (i # rest) completed w =
             (completed, w2\<lparr>events := events w2 @ [x]\<rparr>)"
      proof (cases ok)
        case False
        with step show ?thesis by (intro exI [of _ "Segment_failed ?n"]) simp
      next
        case True
        with stop_here step show ?thesis
          by (intro exI [of _ "Move_failed ?n"]) (simp split: option.splits)
      qed
      then obtain x where x: "x = Segment_failed ?n \<or> x = Move_failed ?n"
        and res: "encoding_loop cfg env a (i # rest) completed w =
          (completed, w2\<lparr>events := events w2 @ [x]\<rparr>)"
        by blast
      with Cons.prems have c: "completed' = completed" and w: "w' = w2\<lparr>events := events w2 @ [x]\<rparr>"
        by simp_all
      show ?thesis
      proof (intro exI [of _ "?E @ [x]"] conjI)
        show "events w' = events w @ ?E @ [x]" using w ev2 by simp
        show "Concat_run \<notin> set (?E @ [x])" using x by auto
        show "(\<exists>n. Segment_failed n \<in> set (?E @ [x]) \<or> Move_failed n \<in> set (?E @ [x])) \<longrightarrow>
            length completed' < length completed + length (i # rest)"
          using c by simp
        show "length completed' \<le> length completed + length (i # rest)" using c by simp
        show "\<forall>n ok. Encode_run n ok \<in> set (?E @ [x]) \<and> 0 < encode_sigints (encodes env n) \<longrightarrow>
            stop_requested (flags w')"
          using sig2 x w by auto
        show "files w' Final_output_file = files w Final_output_file" using w fin2 by simp
        show "stop_requested (flags w) \<longrightarrow> stop_requested (flags w')" using False by simp
      qed
    next
      case True
      then obtain f where f: "files w2 (Segment_part_file ?n) = Some f" by auto
      let ?w3 = "w2\<lparr>files := (files w2)(Segment_final_file ?n \<mapsto> f,
                                        Segment_part_file ?n := None)\<rparr>"
      from True f step Cons.prems have
        "encoding_loop cfg env a rest (completed @ [Segment_final_file ?n]) ?w3 = (completed', w')"
        by simp
      from Cons.IH [OF this] obtain ys where ys:
        "events w' = events ?w3 @ ys" "Concat_run \<notin> set ys"
        "(\<exists>n. Segment_failed n \<in> set ys \<or> Move_failed n \<in> set ys) \<longrightarrow>
          length completed' < length (completed @ [Segment_final_file ?n]) + length rest"
        "length completed' \<le> length (completed @ [Segment_final_file ?n]) + length rest"
        "\<forall>n ok. Encode_run n ok \<in> set ys \<and> 0 < encode_sigints (encodes env n) \<longrightarrow>
          stop_requested (flags w')"
        "files w' Final_output_file = files ?w3 Final_output_file"
        "stop_requested (flags ?w3) \<longrightarrow> stop_requested (flags w')"
        by blast
      show ?thesis
      proof (intro exI [of _ "?E @ ys"] conjI)
        show "events w' = events w @ ?E @ ys" using ys(1) ev2 by simp
        show "Concat_run \<notin> set (?E @ ys)" using ys(2) by auto
        show "(\<exists>n. Segment_failed n \<in> set (?E @ ys) \<or> Move_failed n \<in> set (?E @ ys)) \<longrightarrow>
            length completed' < length completed + length (i # rest)"
          using ys(3) by auto
        show "length completed' \<le> length completed + length (i # rest)" using ys(4) by simp
        show "\<forall>n ok. Encode_run n ok \<in> set (?E @ ys) \<and> 0 < encode_sigints (encodes env n) \<longrightarrow>
            stop_requested (flags w')"
        proof (intro allI impI)
          fix m ok'
          assume h: "Encode_run m ok' \<in> set (?E @ ys) \<and> 0 < encode_sigints (encodes env m)"
          then consider "Encode_run m ok' \<in> set ?E" | "Encode_run m ok' \<in> set ys" by auto
          then show "stop_requested (flags w')"
          proof cases
            case 1
            with h sig2 have "stop_requested (flags w2)" by blast
            with ys(7) show ?thesis by simp
          next
            case 2
            with h ys(5) show ?thesis by blast
          qed
        qed
        show "files w' Final_output_file = files w Final_output_file" using ys(6) fin2 by simp
        show "stop_requested (flags w) \<longrightarrow> stop_requested (flags w')" using False by simp
      qed
    qed
  qed
qed

lemma clean_and_plan_summary:
  assumes "clean_and_plan cfg a t w = (r, w1)"
  shows "events w1 = events w \<and> flags w1 = flags w
     \<and> files w1 Final_output_file = files w Final_output_file
     \<and> (case r of Inl out \<Rightarrow> out = Sys_exit 1
         | Inr (a', planned) \<Rightarrow> planned \<noteq> [])"
  using assms
  by (auto simp: clean_and_plan_def Let_def is_part_file_def split: if_splits)

lemma startup_summary:
  assumes "startup cfg env w0 = (r, w1)"
  shows "flags w1 = deliver (startup_sigints env) (flags w0)
     \<and> (case r of
           Inl out \<Rightarrow> (out = Sys_exit 0 \<or> out = Sys_exit 1)
             \<and> (events w1 = events w0 \<or> events w1 = events w0 @ [Probed Input_file])
         | Inr (a, planned) \<Rightarrow> planned \<noteq> [] \<and> files w1 Final_output_file = None
             \<and> events w1 = events w0 @ [Probed Input_file])"
proof -
  let ?w = "w0\<lparr>flags := deliver (startup_sigints env) (flags w0)\<rparr>"
  let ?w1 = "save_rerun_command env (?w\<lparr>segments_dir_exists := True\<rparr>)"
  let ?w2 = "?w1\<lparr>events := events ?w1 @ [Probed Input_file]\<rparr>"
  let ?a = "has_audio_stream (files ?w1) Input_file"
  let ?t = "get_file_duration (files ?w1) Input_file"
  show ?thesis
  proof (cases "mkdir_fails env \<or> ?t \<le> 0
      \<or> (files ?w2 Final_output_file \<noteq> None
          \<and> (\<not> overwrite_final_output cfg \<or> unlink_final_fails env))")
    case True
    with assms show ?thesis
      by (auto simp: startup_def Let_def split: if_splits)
  next
    case False
    let ?w3 = "if files ?w2 Final_output_file \<noteq> None
      then ?w2\<lparr>files := (files ?w2)(Final_output_file := None)\<rparr> else ?w2"
    from False assms have cp: "clean_and_plan cfg ?a ?t ?w3 = (r, w1)"
      by (auto simp: startup_def Let_def split: if_splits)
    have "files ?w3 Final_output_file = None" by auto
    moreover have "events ?w3 = events w0 @ [Probed Input_file]" by simp
    moreover have "flags ?w3 = deliver (startup_sigints env) (flags w0)" by simp
    ultimately show ?thesis
      using clean_and_plan_summary [OF cp] by (auto split: sum.splits)
  qed
qed

lemma final_outcome_stop:
  "stop_requested (flags w) \<Longrightarrow> final_outcome cfg env planned completed w = (Sys_exit 0, w)"
  by (simp add: final_outcome_def)

lemma final_outcome_incomplete:
  "\<not> stop_requested (flags w) \<Longrightarrow> length completed \<noteq> length planned \<Longrightarrow>
   final_outcome cfg env planned completed w = (Sys_exit 1, w)"
  by (simp add: final_outcome_def)

lemma concatenate_segments_summary:
  "(stop_requested (flags w) \<longrightarrow>
      stop_requested (flags (snd (concatenate_segments env segment_files w))))
   \<and> (\<exists>zs. events (snd (concatenate_segments env segment_files w)) = events w @ zs
         \<and> set zs \<subseteq> {Concat_run}
         \<and> (zs = [] \<longrightarrow> flags (snd (concatenate_segments env segment_files w)) = flags w))"
  by (auto simp: concatenate_segments_def Let_def deliver_stop_mono
      split: write_outcome.splits invocation.splits option.splits)

lemma final_outcome_summary:
  "(stop_requested (flags w) \<longrightarrow>
      stop_requested (flags (snd (final_outcome cfg env planned completed w))))
   \<and> (\<exists>zs. events (snd (final_outcome cfg env planned completed w)) = events w @ zs
         \<and> set zs \<subseteq> {Concat_run}
         \<and> (zs \<noteq> [] \<longrightarrow> \<not> stop_requested (flags w) \<and> length completed = length planned)
         \<and> (zs = [] \<longrightarrow> flags (snd (final_outcome cfg env planned completed w)) = flags w))
   \<and> exit_code (fst (final_outcome cfg env planned completed w)) \<in> {0, 1, 2}"
proof -
  obtain r w' where c: "concatenate_segments env completed w = (r, w')"
    by (cases "concatenate_segments env completed w")
  with concatenate_segments_summary [of w env completed]
  obtain zs where "stop_requested (flags w) \<longrightarrow> stop_requested (flags w')"
    "events w' = events w @ zs" "set zs \<subseteq> {Concat_run}" "zs = [] \<longrightarrow> flags w' = flags w"
    by auto
  with c show ?thesis
    by (auto simp: final_outcome_def rmtree_def split: sum.splits)
qed

lemma final_outcome_after_concat:
  assumes "events (snd (final_outcome cfg env planned completed w)) \<noteq> events w"
  shows "exit_code (fst (final_outcome cfg env planned completed w)) =
     (case concat_result env of Succeeds \<Rightarrow> 0 | Fails \<Rightarrow> 1 | Raises \<Rightarrow> 2)"
  using assms
  by (simp add: final_outcome_def concatenate_segments_def Let_def rmtree_def
      split: if_splits write_outcome.splits invocation.splits option.splits)

lemma final_outcome_concatenation:
  assumes "\<not> stop_requested (flags w)" and "length completed = length planned"
    and "planned \<noteq> []"
  shows "exit_code (fst (final_outcome cfg env planned completed w)) =
     (case manifest_write env of
        Written \<Rightarrow> (case concat_result env of Succeeds \<Rightarrow> 0 | Fails \<Rightarrow> 1 | Raises \<Rightarrow> 2)
      | _ \<Rightarrow> 2)"
proof -
  from assms have "completed \<noteq> []" by auto
  with assms(1,2) show ?thesis
    by (simp add: final_outcome_def concatenate_segments_def Let_def
        split: write_outcome.splits invocation.splits option.splits)
qed

lemma run_segments_unfold:
  assumes "resume_scan planned 0 [] 0 w = (c, idx, w2)"
    and "encoding_loop cfg env a [idx ..< length planned] c w2 = (c', w3)"
  shows "run_segments cfg env a planned w = final_outcome cfg env planned c' w3"
  using assms by (simp add: run_segments_def)

lemma run_segments_summary:
  assumes run: "run_segments cfg env a planned w = (out, w')"
    and nofinal: "files w Final_output_file = None"
  shows "\<exists>xs. events w' = events w @ xs
     \<and> ((\<exists>n. Segment_failed n \<in> set xs \<or> Move_failed n \<in> set xs)
          \<and> \<not> stop_requested (flags w') \<longrightarrow>
          out = Sys_exit 1 \<and> files w' Final_output_file = None \<and> Concat_run \<notin> set xs)
     \<and> (stop_requested (flags w') \<and> Concat_run \<notin> set xs \<longrightarrow> out = Sys_exit 0)
     \<and> (stop_requested (flags w) \<longrightarrow> out = Sys_exit 0 \<and> Concat_run \<notin> set xs)
     \<and> (\<forall>n ok. Encode_run n ok \<in> set xs \<and> 0 < encode_sigints (encodes env n) \<longrightarrow>
          out = Sys_exit 0 \<and> Concat_run \<notin> set xs)
     \<and> (stop_requested (flags w) \<longrightarrow> stop_requested (flags w'))
     \<and> (\<forall>n ok. Encode_run n ok \<in> set xs \<and> 0 < encode_sigints (encodes env n) \<longrightarrow>
          stop_requested (flags w'))
     \<and> exit_code out \<in> {0, 1, 2}
     \<and> (Concat_run \<in> set xs \<longrightarrow> exit_code out = (case concat_result env of Succeeds \<Rightarrow> 0 | Fails \<Rightarrow> 1 | Raises \<Rightarrow> 2))"
proof -
  obtain c idx w2 where scan: "resume_scan planned 0 [] 0 w = (c, idx, w2)"
    by (cases "resume_scan planned 0 [] 0 w") auto
  obtain c' w3 where loop:
    "encoding_loop cfg env a [idx ..< length planned] c w2 = (c', w3)"
    by (cases "encoding_loop cfg env a [idx ..< length planned] c w2")
  from run run_segments_unfold [OF scan loop]
  have fin: "final_outcome cfg env planned c' w3 = (out, w')" by simp
  from resume_scan_summary [OF scan] obtain ss where s:
    "length c = idx" "idx \<le> length planned" "flags w2 = flags w"
    "files w2 Final_output_file = files w Final_output_file"
    "events w2 = events w @ ss"
    "\<forall>e \<in> set ss. (\<exists>p. e = Checked p) \<or> (\<exists>p. e = Probed p)"
    by auto
  from encoding_loop_summary [OF loop] obtain ys where l:
    "events w3 = events w2 @ ys" "Concat_run \<notin> set ys"
    "(\<exists>n. Segment_failed n \<in> set ys \<or> Move_failed n \<in> set ys) \<longrightarrow>
        length c' < length c + length [idx ..< length planned]"
    "length c' \<le> length c + length [idx ..< length planned]"
    "\<forall>n ok. Encode_run n ok \<in> set ys \<and> 0 < encode_sigints (encodes env n) \<longrightarrow>
        stop_requested (flags w3)"
    "files w3 Final_output_file = files w2 Final_output_file"
    "stop_requested (flags w2) \<longrightarrow> stop_requested (flags w3)"
    by blast
  from final_outcome_summary [of w3 cfg env planned c'] fin obtain zs where f:
    "stop_requested (flags w3) \<longrightarrow> stop_requested (flags w')"
    "events w' = events w3 @ zs" "set zs \<subseteq> {Concat_run}"
    "zs \<noteq> [] \<longrightarrow> \<not> stop_requested (flags w3) \<and> length c' = length planned"
    "zs = [] \<longrightarrow> flags w' = flags w3"
    "exit_code out \<in> {0, 1, 2}"
    by auto
  have scan_only: "\<And>n ok. Segment_failed n \<notin> set ss \<and> Move_failed n \<notin> set ss
      \<and> Encode_run n ok \<notin> set ss \<and> Concat_run \<notin> set ss"
    using s(6) by auto
  have zs_only: "\<And>n ok. Segment_failed n \<notin> set zs \<and> Move_failed n \<notin> set zs
      \<and> Encode_run n ok \<notin> set zs"
    using f(3) by auto
  have len: "length c + length [idx ..< length planned] = length planned"
    using s(1,2) by simp
  have stopped: "out = Sys_exit 0 \<and> Concat_run \<notin> set (ss @ ys @ zs)"
    if st: "stop_requested (flags w3)"
  proof -
    from st fin have "out = Sys_exit 0" by (simp add: final_outcome_stop)
    moreover from st f(4) have "zs = []" by auto
    ultimately show ?thesis using l(2) scan_only by simp
  qed
  have noconcat: "zs = []" if "Concat_run \<notin> set (ss @ ys @ zs)"
  proof (rule ccontr)
    assume "zs \<noteq> []"
    then obtain z where "z \<in> set zs" by (cases zs) auto
    with f(3) have "Concat_run \<in> set zs" by auto
    with that show False by simp
  qed
  show ?thesis
  proof (intro exI [of _ "ss @ ys @ zs"] conjI impI allI)
    show "events w' = events w @ ss @ ys @ zs" using s(5) l(1) f(2) by simp
  next
    assume h: "(\<exists>n. Segment_failed n \<in> set (ss @ ys @ zs) \<or> Move_failed n \<in> set (ss @ ys @ zs))
        \<and> \<not> stop_requested (flags w')"
    then have "\<exists>n. Segment_failed n \<in> set ys \<or> Move_failed n \<in> set ys"
      using scan_only zs_only by auto
    with l(3) len have short: "length c' \<noteq> length planned" by simp
    with f(4) have z: "zs = []" by auto
    with f(5) h have "\<not> stop_requested (flags w3)" by simp
    with short fin have o: "out = Sys_exit 1" and w: "w' = w3"
      by (simp_all add: final_outcome_incomplete)
    from o show "out = Sys_exit 1" .
    from w l(6) s(4) nofinal show "files w' Final_output_file = None" by simp
    from z l(2) scan_only show "Concat_run \<notin> set (ss @ ys @ zs)" by simp
  next
    assume h: "stop_requested (flags w') \<and> Concat_run \<notin> set (ss @ ys @ zs)"
    then have "zs = []" using noconcat by blast
    with f(5) h have "stop_requested (flags w3)" by simp
    then show "out = Sys_exit 0" using stopped by blast
  next
    assume "stop_requested (flags w)"
    with s(3) l(7) have st: "stop_requested (flags w3)" by simp
    then show "out = Sys_exit 0" using stopped by blast
    from st show "Concat_run \<notin> set (ss @ ys @ zs)" using stopped by blast
  next
    fix n ok
    assume "Encode_run n ok \<in> set (ss @ ys @ zs) \<and> 0 < encode_sigints (encodes env n)"
    then have "Encode_run n ok \<in> set ys \<and> 0 < encode_sigints (encodes env n)"
      using scan_only zs_only by auto
    with l(5) have st: "stop_requested (flags w3)" by blast
    then show "out = Sys_exit 0" using stopped by blast
    from st show "Concat_run \<notin> set (ss @ ys @ zs)" using stopped by blast
  next
    assume "stop_requested (flags w)"
    with s(3) l(7) f(1) show "stop_requested (flags w')" by simp
  next
    fix n ok
    assume "Encode_run n ok \<in> set (ss @ ys @ zs) \<and> 0 < encode_sigints (encodes env n)"
    then have "Encode_run n ok \<in> set ys \<and> 0 < encode_sigints (encodes env n)"
      using scan_only zs_only by auto
    with l(5) have "stop_requested (flags w3)" by blast
    with f(1) show "stop_requested (flags w')" by simp
  next
    show "exit_code out \<in> {0, 1, 2}" by (rule f(6))
  next
    assume "Concat_run \<in> set (ss @ ys @ zs)"
    with scan_only l(2) have "zs \<noteq> []" by auto
    with f(2) have "events (snd (final_outcome cfg env planned c' w3)) \<noteq> events w3"
      using fin by simp
    from final_outcome_after_concat [OF this] fin
    show "exit_code out = (case concat_result env of Succeeds \<Rightarrow> 0 | Fails \<Rightarrow> 1 | Raises \<Rightarrow> 2)"
      by simp
  qed
qed

lemma script_unfold:
  assumes "startup cfg env (initial_world fs d) = (Inr (a, planned), w1)"
  shows "script cfg env fs d =
     (exit_code (fst (run_segments cfg env a planned w1)),
      snd (run_segments cfg env a planned w1))"
  using assms by (simp add: script_def main_process_def split: prod.splits)

lemma script_summary:
  assumes "script cfg env fs d = (code, w')"
  shows "((\<exists>n. Segment_failed n \<in> set (events w') \<or> Move_failed n \<in> set (events w'))
          \<and> \<not> stop_requested (flags w') \<longrightarrow>
          code = 1 \<and> files w' Final_output_file = None \<and> Concat_run \<notin> set (events w'))
     \<and> (((\<exists>a planned w1. startup cfg env (initial_world fs d) = (Inr (a, planned), w1))
           \<or> (\<exists>n ok. Encode_run n ok \<in> set (events w')))
          \<and> stop_requested (flags w') \<and> Concat_run \<notin> set (events w') \<longrightarrow> code = 0)
     \<and> ((\<exists>a planned w1. startup cfg env (initial_world fs d) = (Inr (a, planned), w1))
          \<and> 0 < startup_sigints env \<longrightarrow> code = 0 \<and> Concat_run \<notin> set (events w'))
     \<and> ((\<exists>n ok. Encode_run n ok \<in> set (events w') \<and> 0 < encode_sigints (encodes env n))
          \<longrightarrow> code = 0 \<and> Concat_run \<notin> set (events w'))
     \<and> (0 < startup_sigints env
          \<or> (\<exists>n ok. Encode_run n ok \<in> set (events w') \<and> 0 < encode_sigints (encodes env n))
          \<longrightarrow> stop_requested (flags w'))
     \<and> code \<in> {0, 1, 2}
     \<and> (Concat_run \<in> set (events w') \<longrightarrow> code = (case concat_result env of Succeeds \<Rightarrow> 0 | Fails \<Rightarrow> 1 | Raises \<Rightarrow> 2))"
proof -
  let ?w0 = "initial_world fs d"
  have ev0: "events ?w0 = []" by (simp add: initial_world_def)
  obtain r w1 where st: "startup cfg env ?w0 = (r, w1)"
    by (cases "startup cfg env ?w0")
  note su = startup_summary [OF st]
  then have fl1: "flags w1 = deliver (startup_sigints env) (flags ?w0)" by simp
  show ?thesis
  proof (cases r)
    case (Inl out)
    with st assms have res: "code = exit_code out" "w' = w1"
      by (auto simp: script_def main_process_def)
    from su Inl ev0 have out: "out = Sys_exit 0 \<or> out = Sys_exit 1"
      and ev: "events w1 = [] \<or> events w1 = [Probed Input_file]"
      by simp_all
    from ev res have none: "\<And>n ok. Segment_failed n \<notin> set (events w')
        \<and> Move_failed n \<notin> set (events w') \<and> Encode_run n ok \<notin> set (events w')
        \<and> Concat_run \<notin> set (events w')"
      by auto
    from st Inl have notplanned:
      "\<not> (\<exists>a planned w1. startup cfg env ?w0 = (Inr (a, planned), w1))" by simp
    from fl1 res have sig: "0 < startup_sigints env \<longrightarrow> stop_requested (flags w')"
      by (simp add: deliver_pos_stop)
    from out res have "code \<in> {0, 1, 2}" by auto
    with none notplanned sig show ?thesis by blast
  next
    case (Inr ap)
    obtain a planned where ap: "ap = (a, planned)" by (cases ap)
    with st Inr assms obtain out where run: "run_segments cfg env a planned w1 = (out, w')"
      and code: "code = exit_code out"
      by (cases "run_segments cfg env a planned w1") (auto simp: script_def main_process_def)
    from su Inr ap ev0 have nofinal: "files w1 Final_output_file = None"
      and ev1: "events w1 = [Probed Input_file]" by simp_all
    from run_segments_summary [OF run nofinal] obtain xs where x:
      "events w' = events w1 @ xs"
      "(\<exists>n. Segment_failed n \<in> set xs \<or> Move_failed n \<in> set xs)
          \<and> \<not> stop_requested (flags w') \<longrightarrow>
          out = Sys_exit 1 \<and> files w' Final_output_file = None \<and> Concat_run \<notin> set xs"
      "stop_requested (flags w') \<and> Concat_run \<notin> set xs \<longrightarrow> out = Sys_exit 0"
      "stop_requested (flags w1) \<longrightarrow> out = Sys_exit 0 \<and> Concat_run \<notin> set xs"
      "\<forall>n ok. Encode_run n ok \<in> set xs \<and> 0 < encode_sigints (encodes env n) \<longrightarrow>
          out = Sys_exit 0 \<and> Concat_run \<notin> set xs"
      "stop_requested (flags w1) \<longrightarrow> stop_requested (flags w')"
      "\<forall>n ok. Encode_run n ok \<in> set xs \<and> 0 < encode_sigints (encodes env n) \<longrightarrow>
          stop_requested (flags w')"
      "exit_code out \<in> {0, 1, 2}"
      "Concat_run \<in> set xs \<longrightarrow> exit_code out = (case concat_result env of Succeeds \<Rightarrow> 0 | Fails \<Rightarrow> 1 | Raises \<Rightarrow> 2)"
      by blast
    have mem: "\<And>e. e \<noteq> Probed Input_file \<Longrightarrow> e \<in> set (events w') \<longleftrightarrow> e \<in> set xs"
      using x(1) ev1 by auto
    show ?thesis
    proof (intro conjI impI)
      assume h: "(\<exists>n. Segment_failed n \<in> set (events w') \<or> Move_failed n \<in> set (events w'))
          \<and> \<not> stop_requested (flags w')"
      then have "(\<exists>n. Segment_failed n \<in> set xs \<or> Move_failed n \<in> set xs)
          \<and> \<not> stop_requested (flags w')"
        using mem by auto
      with x(2) have r: "out = Sys_exit 1 \<and> files w' Final_output_file = None
          \<and> Concat_run \<notin> set xs" by blast
      then show "code = 1" using code by simp
      from r show "files w' Final_output_file = None" by simp
      from r show "Concat_run \<notin> set (events w')" using mem by simp
    next
      assume "((\<exists>a planned w1. startup cfg env ?w0 = (Inr (a, planned), w1))
           \<or> (\<exists>n ok. Encode_run n ok \<in> set (events w')))
          \<and> stop_requested (flags w') \<and> Concat_run \<notin> set (events w')"
      then have "stop_requested (flags w') \<and> Concat_run \<notin> set xs" using mem by simp
      with x(3) have "out = Sys_exit 0" by blast
      then show "code = 0" using code by simp
    next
      assume "(\<exists>a planned w1. startup cfg env ?w0 = (Inr (a, planned), w1))
          \<and> 0 < startup_sigints env"
      with fl1 have "stop_requested (flags w1)" by (simp add: deliver_pos_stop)
      with x(4) have r: "out = Sys_exit 0 \<and> Concat_run \<notin> set xs" by blast
      then show "code = 0" using code by simp
      from r show "Concat_run \<notin> set (events w')" using mem by simp
    next
      assume "\<exists>n ok. Encode_run n ok \<in> set (events w') \<and> 0 < encode_sigints (encodes env n)"
      then obtain n ok where "Encode_run n ok \<in> set xs \<and> 0 < encode_sigints (encodes env n)"
        using mem by auto
      with x(5) have r: "out = Sys_exit 0 \<and> Concat_run \<notin> set xs" by blast
      then show "code = 0" using code by simp
      from r show "Concat_run \<notin> set (events w')" using mem by simp
    next
      assume h: "0 < startup_sigints env
          \<or> (\<exists>n ok. Encode_run n ok \<in> set (events w') \<and> 0 < encode_sigints (encodes env n))"
      then show "stop_requested (flags w')"
      proof
        assume "0 < startup_sigints env"
        with fl1 have "stop_requested (flags w1)" by (simp add: deliver_pos_stop)
        with x(6) show ?thesis by simp
      next
        assume "\<exists>n ok. Encode_run n ok \<in> set (events w') \<and> 0 < encode_sigints (encodes env n)"
        then obtain n ok where "Encode_run n ok \<in> set xs \<and> 0 < encode_sigints (encodes env n)"
          using mem by auto
        with x(7) show ?thesis by blast
      qed
    next
      from x(8) code show "code \<in> {0, 1, 2}" by simp
    next
      assume "Concat_run \<in> set (events w')"
      then have "Concat_run \<in> set xs" using mem by simp
      with x(9) code show "code = (case concat_result env of Succeeds \<Rightarrow> 0 | Fails \<Rightarrow> 1 | Raises \<Rightarrow> 2)"
        by simp
    qed
  qed
qed

lemma encoding_loop_good_step:
  assumes "\<not> stop_requested (flags w)"
    and "\<not> (codec cfg = H265 \<and> 0 < threads cfg \<and> x265_params_has_pools cfg)"
    and "encode_result (encodes env (Suc i))"
    and "encode_output (encodes env (Suc i)) \<noteq> None"
    and "\<not> move_fails (encodes env (Suc i))"
    and "encode_sigints (encodes env (Suc i)) = 0"
  shows "\<exists>w'. encoding_loop cfg env a (i # rest) c w =
        encoding_loop cfg env a rest (c @ [Segment_final_file (Suc i)]) w'
      \<and> flags w' = flags w
      \<and> files w' Final_output_file = files w Final_output_file
      \<and> events w' = events w @ [Encode_run (Suc i) True]"
proof -
  from assms(4) obtain f where f: "encode_output (encodes env (Suc i)) = Some f" by auto
  let ?w2 = "snd (encode_segment cfg env (Suc i) a
      (w\<lparr>files := (files w)(Segment_part_file (Suc i) := None)\<rparr>))"
  let ?w' = "?w2\<lparr>files := (files ?w2)(Segment_final_file (Suc i) \<mapsto> f,
                                    Segment_part_file (Suc i) := None)\<rparr>"
  have enc: "encode_segment cfg env (Suc i) a
      (w\<lparr>files := (files w)(Segment_part_file (Suc i) := None)\<rparr>) = (True, ?w2)"
    using assms(2,3) by (simp add: encode_segment_def Let_def)
  have part: "files ?w2 (Segment_part_file (Suc i)) = Some f"
    using assms(2) f by (simp add: encode_segment_def Let_def)
  have "encoding_loop cfg env a (i # rest) c w =
      encoding_loop cfg env a rest (c @ [Segment_final_file (Suc i)]) ?w'"
    using encoding_loop_step [OF assms(1) enc, of rest c] part assms(5) by simp
  moreover have "flags ?w' = flags w"
    using assms(2,6) by (simp add: encode_segment_def Let_def)
  moreover have "files ?w' Final_output_file = files w Final_output_file"
    using assms(2) f by (simp add: encode_segment_def Let_def)
  moreover have "events ?w' = events w @ [Encode_run (Suc i) True]"
    using assms(2,3) by (simp add: encode_segment_def Let_def)
  ultimately show ?thesis by blast
qed

lemma encoding_loop_good_prefix:
  assumes "\<not> stop_requested (flags w)"
    and "\<not> (codec cfg = H265 \<and> 0 < threads cfg \<and> x265_params_has_pools cfg)"
    and "\<forall>i \<in> set xs. encode_result (encodes env (Suc i))
          \<and> encode_output (encodes env (Suc i)) \<noteq> None
          \<and> \<not> move_fails (encodes env (Suc i))
          \<and> encode_sigints (encodes env (Suc i)) = 0"
  shows "\<exists>w'. encoding_loop cfg env a (xs @ ys) c w =
        encoding_loop cfg env a ys (c @ map (\<lambda>i. Segment_final_file (Suc i)) xs) w'
      \<and> flags w' = flags w
      \<and> files w' Final_output_file = files w Final_output_file
      \<and> events w' = events w @ map (\<lambda>i. Encode_run (Suc i) True) xs"
  using assms
proof (induction xs arbitrary: c w)
  case Nil
  show ?case by (rule exI [of _ w]) simp
next
  case (Cons i xs)
  from Cons.prems have good: "encode_result (encodes env (Suc i))"
    "encode_output (encodes env (Suc i)) \<noteq> None"
    "\<not> move_fails (encodes env (Suc i))"
    "encode_sigints (encodes env (Suc i)) = 0"
    by simp_all
  from encoding_loop_good_step [OF Cons.prems(1,2) good, of a "xs @ ys" c]
  obtain w1 where w1: "encoding_loop cfg env a (i # xs @ ys) c w =
        encoding_loop cfg env a (xs @ ys) (c @ [Segment_final_file (Suc i)]) w1"
    "flags w1 = flags w" "files w1 Final_output_file = files w Final_output_file"
    "events w1 = events w @ [Encode_run (Suc i) True]"
    by blast
  from Cons.prems w1(2) have "\<not> stop_requested (flags w1)" by simp
  moreover from Cons.prems(3) have "\<forall>i \<in> set xs. encode_result (encodes env (Suc i))
          \<and> encode_output (encodes env (Suc i)) \<noteq> None
          \<and> \<not> move_fails (encodes env (Suc i))
          \<and> encode_sigints (encodes env (Suc i)) = 0" by simp
  ultimately obtain w' where w': "encoding_loop cfg env a (xs @ ys) (c @ [Segment_final_file (Suc i)]) w1 =
        encoding_loop cfg env a ys
          ((c @ [Segment_final_file (Suc i)]) @ map (\<lambda>i. Segment_final_file (Suc i)) xs) w'"
    "flags w' = flags w1" "files w' Final_output_file = files w1 Final_output_file"
    "events w' = events w1 @ map (\<lambda>i. Encode_run (Suc i) True) xs"
    using Cons.IH [OF _ Cons.prems(2), of w1 "c @ [Segment_final_file (Suc i)]"] by blast
  show ?case
    by (rule exI [of _ w']) (simp add: w1 w')
qed

text \<open>The state in which the encoding loop starts, for a run that planned its segments.\<close>

lemma script_loop_start:
  assumes st: "startup cfg env (initial_world fs d) = (Inr (a, planned), w1)"
    and scan: "resume_scan planned 0 [] 0 w1 = (c, idx, w2)"
  shows "length c = idx \<and> idx \<le> length planned
     \<and> flags w2 = deliver (startup_sigints env) (flags (initial_world fs d))
     \<and> files w2 Final_output_file = None
     \<and> Concat_run \<notin> set (events w2)
     \<and> (\<forall>n ok. Encode_run n ok \<notin> set (events w2))"
proof -
  from startup_summary [OF st] have s1: "flags w1 = deliver (startup_sigints env) (flags (initial_world fs d))"
    "files w1 Final_output_file = None" "events w1 = [Probed Input_file]"
    by (simp_all add: initial_world_def)
  from resume_scan_summary [OF scan] obtain ss where s:
    "length c = idx" "idx \<le> length planned" "flags w2 = flags w1"
    "files w2 Final_output_file = files w1 Final_output_file"
    "events w2 = events w1 @ ss"
    "\<forall>e \<in> set ss. (\<exists>p. e = Checked p) \<or> (\<exists>p. e = Probed p)"
    by auto
  from s(6) have "Concat_run \<notin> set ss" "\<And>n ok. Encode_run n ok \<notin> set ss" by auto
  with s s1 show ?thesis by simp
qed

lemma script_run:
  assumes st: "startup cfg env (initial_world fs d) = (Inr (a, planned), w1)"
    and scan: "resume_scan planned 0 [] 0 w1 = (c, idx, w2)"
    and loop: "encoding_loop cfg env a [idx ..< length planned] c w2 = (c', w3)"
  shows "script cfg env fs d =
     (exit_code (fst (final_outcome cfg env planned c' w3)),
      snd (final_outcome cfg env planned c' w3))"
  using script_unfold [OF st] run_segments_unfold [OF scan loop] by simp

text \<open>
  Whole runs, from what the environment does.  The run has planned its segments and the
  resume scan has accepted the first \<open>idx\<close> artifacts; no signal arrives during startup.
  While the backend run of each further segment succeeds, leaves a part file that can
  be moved and is not interrupted, the encoding loop goes on with the next segment.
\<close>

lemma run_prefix:
  assumes st: "startup cfg env (initial_world fs d) = (Inr (a, planned), w1)"
    and scan: "resume_scan planned 0 [] 0 w1 = (c, idx, w2)"
    and sig0: "startup_sigints env = 0"
    and k: "idx \<le> k" "k \<le> length planned"
    and good: "\<forall>i. idx \<le> i \<and> i < k \<longrightarrow> \<not> (codec cfg = H265 \<and> 0 < threads cfg \<and> x265_params_has_pools cfg) \<and> encode_result (encodes env (Suc i)) \<and> encode_output (encodes env (Suc i)) \<noteq> None
          \<and> \<not> move_fails (encodes env (Suc i)) \<and> encode_sigints (encodes env (Suc i)) = 0"
  shows "\<exists>w. encoding_loop cfg env a [idx ..< length planned] c w2 =
        encoding_loop cfg env a [k ..< length planned]
          (c @ map (\<lambda>i. Segment_final_file (Suc i)) [idx ..< k]) w
      \<and> \<not> stop_requested (flags w)
      \<and> files w Final_output_file = None
      \<and> Concat_run \<notin> set (events w)"
proof -
  from script_loop_start [OF st scan] sig0 have s:
    "\<not> stop_requested (flags w2)" "files w2 Final_output_file = None"
    "Concat_run \<notin> set (events w2)"
    by (simp_all add: initial_world_def)
  have split: "[idx ..< length planned] = [idx ..< k] @ [k ..< length planned]"
    using k by (metis le_Suc_ex upt_add_eq_append)
  show ?thesis
  proof (cases "idx = k")
    case True
    with s show ?thesis by (intro exI [of _ w2]) simp
  next
    case False
    with k good have np: "\<not> (codec cfg = H265 \<and> 0 < threads cfg \<and> x265_params_has_pools cfg)" by (metis le_neq_implies_less order_refl)
    from good have g: "\<forall>i \<in> set [idx ..< k]. encode_result (encodes env (Suc i)) \<and> encode_output (encodes env (Suc i)) \<noteq> None
          \<and> \<not> move_fails (encodes env (Suc i)) \<and> encode_sigints (encodes env (Suc i)) = 0" by simp
    from encoding_loop_good_prefix [OF s(1) np g, of a "[k ..< length planned]" c]
    obtain w where w: "encoding_loop cfg env a ([idx ..< k] @ [k ..< length planned]) c w2 =
        encoding_loop cfg env a [k ..< length planned]
          (c @ map (\<lambda>i. Segment_final_file (Suc i)) [idx ..< k]) w"
      "flags w = flags w2" "files w Final_output_file = files w2 Final_output_file"
      "events w = events w2 @ map (\<lambda>i. Encode_run (Suc i) True) [idx ..< k]"
      by blast
    from w(4) s(3) have "Concat_run \<notin> set (events w)" by auto
    with w s split show ?thesis by (intro exI [of _ w]) simp
  qed
qed

lemma run_all_segments_succeed:
  assumes st: "startup cfg env (initial_world fs d) = (Inr (a, planned), w1)"
    and scan: "resume_scan planned 0 [] 0 w1 = (c, idx, w2)"
    and sig0: "startup_sigints env = 0"
    and good: "\<forall>i. idx \<le> i \<and> i < length planned \<longrightarrow> \<not> (codec cfg = H265 \<and> 0 < threads cfg \<and> x265_params_has_pools cfg) \<and> encode_result (encodes env (Suc i)) \<and> encode_output (encodes env (Suc i)) \<noteq> None
          \<and> \<not> move_fails (encodes env (Suc i)) \<and> encode_sigints (encodes env (Suc i)) = 0"
  shows "fst (script cfg env fs d) =
      (case manifest_write env of
         Written \<Rightarrow> (case concat_result env of Succeeds \<Rightarrow> 0 | Fails \<Rightarrow> 1 | Raises \<Rightarrow> 2)
       | _ \<Rightarrow> 2)"
proof -
  from script_loop_start [OF st scan] have len: "length c = idx" "idx \<le> length planned" by simp_all
  from startup_summary [OF st] have ne: "planned \<noteq> []" by simp
  from run_prefix [OF st scan sig0 len(2) order_refl good]
  obtain w where w: "encoding_loop cfg env a [idx ..< length planned] c w2 =
      (c @ map (\<lambda>i. Segment_final_file (Suc i)) [idx ..< length planned], w)"
    "\<not> stop_requested (flags w)"
    by (auto simp: encoding_loop.simps)
  have full: "length (c @ map (\<lambda>i. Segment_final_file (Suc i)) [idx ..< length planned])
      = length planned"
    using len by simp
  from script_run [OF st scan w(1)] final_outcome_concatenation [OF w(2) full ne, of cfg env]
  show ?thesis by simp
qed

lemma run_segment_fails:
  assumes st: "startup cfg env (initial_world fs d) = (Inr (a, planned), w1)"
    and scan: "resume_scan planned 0 [] 0 w1 = (c, idx, w2)"
    and sig0: "startup_sigints env = 0"
    and k: "idx \<le> k" "k < length planned"
    and good: "\<forall>i. idx \<le> i \<and> i < k \<longrightarrow> \<not> (codec cfg = H265 \<and> 0 < threads cfg \<and> x265_params_has_pools cfg) \<and> encode_result (encodes env (Suc i)) \<and> encode_output (encodes env (Suc i)) \<noteq> None
          \<and> \<not> move_fails (encodes env (Suc i)) \<and> encode_sigints (encodes env (Suc i)) = 0"
    and bad: "(codec cfg = H265 \<and> 0 < threads cfg \<and> x265_params_has_pools cfg)
        \<or> encode_sigints (encodes env (Suc k)) = 0
          \<and> (\<not> encode_result (encodes env (Suc k))
              \<or> encode_output (encodes env (Suc k)) = None
              \<or> move_fails (encodes env (Suc k)))"
  shows "fst (script cfg env fs d) = 1
     \<and> files (snd (script cfg env fs d)) Final_output_file = None
     \<and> Concat_run \<notin> set (events (snd (script cfg env fs d)))
     \<and> \<not> stop_requested (flags (snd (script cfg env fs d)))"
proof -
  from script_loop_start [OF st scan] have len: "length c = idx" by simp
  from k have kle: "k \<le> length planned" by simp
  from run_prefix [OF st scan sig0 k(1) kle good]
  obtain w where w: "encoding_loop cfg env a [idx ..< length planned] c w2 =
        encoding_loop cfg env a [k ..< length planned]
          (c @ map (\<lambda>i. Segment_final_file (Suc i)) [idx ..< k]) w"
      "\<not> stop_requested (flags w)" "files w Final_output_file = None"
      "Concat_run \<notin> set (events w)"
    by blast
  let ?c = "c @ map (\<lambda>i. Segment_final_file (Suc i)) [idx ..< k]"
  let ?w1 = "w\<lparr>files := (files w)(Segment_part_file (Suc k) := None)\<rparr>"
  obtain ok wa where enc: "encode_segment cfg env (Suc k) a ?w1 = (ok, wa)"
    by (cases "encode_segment cfg env (Suc k) a ?w1")
  have ok: "ok = (\<not> (codec cfg = H265 \<and> 0 < threads cfg \<and> x265_params_has_pools cfg) \<and> encode_result (encodes env (Suc k)))"
    using encode_segment_result [of cfg env "Suc k" a ?w1] enc by simp
  have fl: "flags wa = flags w"
    using encode_segment_flags [of cfg env "Suc k" a ?w1] enc bad by auto
  have fin: "files wa Final_output_file = None"
    using encode_segment_final [of cfg env "Suc k" a ?w1] enc w(3) by simp
  have ev: "Concat_run \<notin> set (events wa)"
    using encode_segment_events [of cfg env "Suc k" a ?w1] enc w(4) by auto
  have part: "\<not> (codec cfg = H265 \<and> 0 < threads cfg \<and> x265_params_has_pools cfg) \<Longrightarrow> files wa (Segment_part_file (Suc k)) = encode_output (encodes env (Suc k))"
    using enc by (auto simp: encode_segment_def Let_def split: option.splits)
  have "\<exists>x. encoding_loop cfg env a (k # [Suc k ..< length planned]) ?c w =
      (?c, wa\<lparr>events := events wa @ [x]\<rparr>) \<and> x \<noteq> Concat_run"
  proof (cases ok)
    case False
    with encoding_loop_step [OF w(2) enc, of "[Suc k ..< length planned]" ?c]
    show ?thesis by (intro exI [of _ "Segment_failed (Suc k)"]) simp
  next
    case True
    with ok bad part have "files wa (Segment_part_file (Suc k)) = None
        \<or> move_fails (encodes env (Suc k))" by auto
    with True encoding_loop_step [OF w(2) enc, of "[Suc k ..< length planned]" ?c]
    show ?thesis by (intro exI [of _ "Move_failed (Suc k)"]) (auto split: option.splits)
  qed
  then obtain x where x: "encoding_loop cfg env a (k # [Suc k ..< length planned]) ?c w =
      (?c, wa\<lparr>events := events wa @ [x]\<rparr>)" "x \<noteq> Concat_run" by blast
  let ?w3 = "wa\<lparr>events := events wa @ [x]\<rparr>"
  from k(2) have "[k ..< length planned] = k # [Suc k ..< length planned]"
    by (simp add: upt_conv_Cons)
  with w(1) x(1) have loop: "encoding_loop cfg env a [idx ..< length planned] c w2 = (?c, ?w3)"
    by simp
  have short: "length ?c \<noteq> length planned" using len k by simp
  have going: "\<not> stop_requested (flags ?w3)" using fl w(2) by simp
  from script_run [OF st scan loop] final_outcome_incomplete [OF going short, of cfg env]
  have "script cfg env fs d = (1, ?w3)" by simp
  with fin ev x(2) going show ?thesis by simp
qed

lemma run_segment_interrupted:
  assumes st: "startup cfg env (initial_world fs d) = (Inr (a, planned), w1)"
    and scan: "resume_scan planned 0 [] 0 w1 = (c, idx, w2)"
    and sig0: "startup_sigints env = 0"
    and k: "idx \<le> k" "k < length planned"
    and good: "\<forall>i. idx \<le> i \<and> i < k \<longrightarrow> \<not> (codec cfg = H265 \<and> 0 < threads cfg \<and> x265_params_has_pools cfg) \<and> encode_result (encodes env (Suc i)) \<and> encode_output (encodes env (Suc i)) \<noteq> None
          \<and> \<not> move_fails (encodes env (Suc i)) \<and> encode_sigints (encodes env (Suc i)) = 0"
    and np: "\<not> (codec cfg = H265 \<and> 0 < threads cfg \<and> x265_params_has_pools cfg)"
    and sig: "0 < encode_sigints (encodes env (Suc k))"
  shows "fst (script cfg env fs d) = 0
     \<and> files (snd (script cfg env fs d)) Final_output_file = None
     \<and> Concat_run \<notin> set (events (snd (script cfg env fs d)))
     \<and> stop_requested (flags (snd (script cfg env fs d)))"
proof -
  from k have kle: "k \<le> length planned" by simp
  from run_prefix [OF st scan sig0 k(1) kle good]
  obtain w where w: "encoding_loop cfg env a [idx ..< length planned] c w2 =
        encoding_loop cfg env a [k ..< length planned]
          (c @ map (\<lambda>i. Segment_final_file (Suc i)) [idx ..< k]) w"
      "\<not> stop_requested (flags w)" "files w Final_output_file = None"
      "Concat_run \<notin> set (events w)"
    by blast
  let ?c = "c @ map (\<lambda>i. Segment_final_file (Suc i)) [idx ..< k]"
  from k(2) have cons: "[k ..< length planned] = k # [Suc k ..< length planned]"
    by (simp add: upt_conv_Cons)
  obtain c' w3 where loop: "encoding_loop cfg env a (k # [Suc k ..< length planned]) ?c w = (c', w3)"
    by (cases "encoding_loop cfg env a (k # [Suc k ..< length planned]) ?c w")
  from encoding_loop_first_run [OF w(2) np, of env a k "[Suc k ..< length planned]" ?c] loop
  obtain ys where ys: "events w3 = events w @ Encode_run (Suc k) (encode_result (encodes env (Suc k))) # ys"
    by auto
  from encoding_loop_summary [OF loop] obtain zs where zs:
    "events w3 = events w @ zs" "Concat_run \<notin> set zs"
    "\<forall>n ok. Encode_run n ok \<in> set zs \<and> 0 < encode_sigints (encodes env n) \<longrightarrow>
        stop_requested (flags w3)"
    "files w3 Final_output_file = files w Final_output_file"
    by blast
  from ys zs(1) have "Encode_run (Suc k) (encode_result (encodes env (Suc k))) \<in> set zs" by simp
  with zs(3) sig have stop: "stop_requested (flags w3)" by blast
  from w(1) cons loop have "encoding_loop cfg env a [idx ..< length planned] c w2 = (c', w3)"
    by simp
  from script_run [OF st scan this] final_outcome_stop [OF stop, of cfg env planned c']
  have "script cfg env fs d = (0, w3)" by simp
  with stop zs w(3,4) show ?thesis by simp
qed

lemma run_interrupted_at_startup:
  assumes st: "startup cfg env (initial_world fs d) = (Inr (a, planned), w1)"
    and sig: "0 < startup_sigints env"
  shows "fst (script cfg env fs d) = 0
     \<and> files (snd (script cfg env fs d)) Final_output_file = None
     \<and> (\<forall>e \<in> set (events (snd (script cfg env fs d))). \<exists>p. e = Checked p \<or> e = Probed p)
     \<and> stop_requested (flags (snd (script cfg env fs d)))"
proof -
  obtain c idx w2 where scan: "resume_scan planned 0 [] 0 w1 = (c, idx, w2)"
    by (cases "resume_scan planned 0 [] 0 w1") auto
  from startup_summary [OF st] have s1: "events w1 = [Probed Input_file]"
    "files w1 Final_output_file = None"
    "flags w1 = deliver (startup_sigints env) (flags (initial_world fs d))"
    by (simp_all add: initial_world_def)
  from resume_scan_summary [OF scan] obtain ss where s:
    "flags w2 = flags w1" "files w2 Final_output_file = files w1 Final_output_file"
    "events w2 = events w1 @ ss"
    "\<forall>e \<in> set ss. (\<exists>p. e = Checked p) \<or> (\<exists>p. e = Probed p)"
    by auto
  from s(1) s1(3) sig have stop: "stop_requested (flags w2)" by (simp add: deliver_pos_stop)
  then have loop: "encoding_loop cfg env a [idx ..< length planned] c w2 = (c, w2)"
    by (rule encoding_loop_stopped)
  from script_run [OF st scan loop] final_outcome_stop [OF stop, of cfg env planned c]
  have "script cfg env fs d = (0, w2)" by simp
  with stop s s1 show ?thesis by auto
qed

text \<open>
  A run in which the backend fails on the second of three segments.
\<close>

lemma failing_run:
  "\<not> stop_requested (flags (snd (script example_config
          (calm\<lparr>encodes := (\<lambda>n. \<lparr>encode_result = (n \<noteq> 2), encode_output = Some (clip 5 n),
                                  encode_sigints = 0, move_fails = False\<rparr>)\<rparr>)
          [Input_file \<mapsto> clip 12 1] True)))
   \<and> fst (script example_config
          (calm\<lparr>encodes := (\<lambda>n. \<lparr>encode_result = (n \<noteq> 2), encode_output = Some (clip 5 n),
                                  encode_sigints = 0, move_fails = False\<rparr>)\<rparr>)
          [Input_file \<mapsto> clip 12 1] True) = 1
   \<and> events (snd (script example_config
          (calm\<lparr>encodes := (\<lambda>n. \<lparr>encode_result = (n \<noteq> 2), encode_output = Some (clip 5 n),
                                  encode_sigints = 0, move_fails = False\<rparr>)\<rparr>)
          [Input_file \<mapsto> clip 12 1] True))
     = [Probed Input_file, Checked (Segment_final_file 1), Encode_run 1 True,
        Encode_run 2 False, Segment_failed 2]"
  by (simp add: script_def main_process_def startup_def clean_and_plan_def Let_def
      save_rerun_command_def example_defs probe_defs calculate_segments_example run_segments_def
      resume_scan.simps encoding_loop.simps encode_segment_def final_outcome_def
      is_part_file_def upt_rec)

text \<open>
  Claim C7 as stated promises exit status 0 for a graceful stop anywhere in the run.
  The stop event is read for the last time before the concatenation starts: when the
  three segments of a 12 second input are encoded, one interrupt signal arrives while
  the backend joins them and the backend then reports failure, the run ends with
  status 1 although the stop is requested.
\<close>

theorem concatenation_interrupted_counterexample:
  "fst (script example_config
          (calm\<lparr>concat_result := Fails, concat_output := None, concat_sigints := 1\<rparr>)
          [Input_file \<mapsto> clip 12 1] True) = 1
   \<and> stop_requested (flags (snd (script example_config
          (calm\<lparr>concat_result := Fails, concat_output := None, concat_sigints := 1\<rparr>)
          [Input_file \<mapsto> clip 12 1] True)))
   \<and> events (snd (script example_config
          (calm\<lparr>concat_result := Fails, concat_output := None, concat_sigints := 1\<rparr>)
          [Input_file \<mapsto> clip 12 1] True))
     = [Probed Input_file, Checked (Segment_final_file 1), Encode_run 1 True,
        Encode_run 2 True, Encode_run 3 True, Concat_run]"
  by (simp add: script_def main_process_def startup_def clean_and_plan_def Let_def
      save_rerun_command_def example_defs probe_defs calculate_segments_example run_segments_def
      resume_scan.simps encoding_loop.simps encode_segment_def final_outcome_def
      concatenate_segments_def signal_handler_def
      is_part_file_def upt_rec)

text \<open>
  Claim C8 as stated gives status 0 to every user-requested stop.  Two interrupt
  signals while the backend joins the segments request the stop and the immediate
  shutdown; the backend is killed, the concatenation fails, and the run ends with
  status 1.
\<close>

theorem exit_code_after_late_stop_counterexample:
  "fst (script (example_config\<lparr>keep_segments := True\<rparr>)
          (calm\<lparr>concat_result := Fails, concat_sigints := 2\<rparr>)
          [Input_file \<mapsto> clip 12 1] False) = 1
   \<and> flags (snd (script (example_config\<lparr>keep_segments := True\<rparr>)
          (calm\<lparr>concat_result := Fails, concat_sigints := 2\<rparr>)
          [Input_file \<mapsto> clip 12 1] False))
     = \<lparr>stop_requested = True, force_stop_requested = True\<rparr>"
  by (simp add: script_def main_process_def startup_def clean_and_plan_def Let_def
      save_rerun_command_def example_defs probe_defs calculate_segments_example run_segments_def
      resume_scan.simps encoding_loop.simps encode_segment_def final_outcome_def
      concatenate_segments_def signal_handler_def numeral_2_eq_2
      is_part_file_def upt_rec)

lemma run_by_segment_number:
  assumes st: "startup cfg env (initial_world fs d) = (Inr (a, planned), w1)"
    and scan: "resume_scan planned 0 [] 0 w1 = (c, idx, w2)"
    and sig0: "startup_sigints env = 0"
    and m: "idx < m" "m \<le> length planned"
    and good: "\<forall>n. idx < n \<and> n < m \<longrightarrow>
                            \<not> (codec cfg = H265 \<and> 0 < threads cfg \<and> x265_params_has_pools cfg)
                            \<and> encode_result (encodes env n) \<and> encode_output (encodes env n) \<noteq> None
                      \<and> \<not> move_fails (encodes env n) \<and> encode_sigints (encodes env n) = 0"
  shows "((codec cfg = H265 \<and> 0 < threads cfg \<and> x265_params_has_pools cfg)
                   \<or> encode_sigints (encodes env m) = 0
                     \<and> (\<not> encode_result (encodes env m) \<or> encode_output (encodes env m) = None
                         \<or> move_fails (encodes env m)) \<longrightarrow>
           fst (script cfg env fs d) = 1
           \<and> files (snd (script cfg env fs d)) Final_output_file = None
           \<and> Concat_run \<notin> set (events (snd (script cfg env fs d))))
      \<and> (\<not> (codec cfg = H265 \<and> 0 < threads cfg \<and> x265_params_has_pools cfg) \<and> 0 < encode_sigints (encodes env m) \<longrightarrow>
           fst (script cfg env fs d) = 0
           \<and> files (snd (script cfg env fs d)) Final_output_file = None
           \<and> Concat_run \<notin> set (events (snd (script cfg env fs d))))"
proof -
  from m obtain k where k: "m = Suc k" by (cases m) auto
  with m have kk: "idx \<le> k" "k < length planned" by simp_all
  have g: "\<forall>i. idx \<le> i \<and> i < k \<longrightarrow>
      \<not> (codec cfg = H265 \<and> 0 < threads cfg \<and> x265_params_has_pools cfg)
      \<and> encode_result (encodes env (Suc i)) \<and> encode_output (encodes env (Suc i)) \<noteq> None
                      \<and> \<not> move_fails (encodes env (Suc i)) \<and> encode_sigints (encodes env (Suc i)) = 0"
  proof (intro allI impI)
    fix i
    assume "idx \<le> i \<and> i < k"
    then have "idx < Suc i \<and> Suc i < m" using k by simp
    with good show "\<not> (codec cfg = H265 \<and> 0 < threads cfg \<and> x265_params_has_pools cfg)
      \<and> encode_result (encodes env (Suc i)) \<and> encode_output (encodes env (Suc i)) \<noteq> None
                      \<and> \<not> move_fails (encodes env (Suc i)) \<and> encode_sigints (encodes env (Suc i)) = 0"
      by blast
  qed
  show ?thesis
    using run_segment_fails [OF st scan sig0 kk g]
      run_segment_interrupted [OF st scan sig0 kk g]
    unfolding k by blast
qed

lemma run_all_by_segment_number:
  assumes st: "startup cfg env (initial_world fs d) = (Inr (a, planned), w1)"
    and scan: "resume_scan planned 0 [] 0 w1 = (c, idx, w2)"
    and sig0: "startup_sigints env = 0"
    and good: "\<forall>n. idx < n \<and> n \<le> length planned \<longrightarrow>
                            \<not> (codec cfg = H265 \<and> 0 < threads cfg \<and> x265_params_has_pools cfg)
                            \<and> encode_result (encodes env n) \<and> encode_output (encodes env n) \<noteq> None
                      \<and> \<not> move_fails (encodes env n) \<and> encode_sigints (encodes env n) = 0"
  shows "fst (script cfg env fs d) =
      (case manifest_write env of
         Written \<Rightarrow> (case concat_result env of Succeeds \<Rightarrow> 0 | Fails \<Rightarrow> 1 | Raises \<Rightarrow> 2)
       | _ \<Rightarrow> 2)"
proof -
  have g: "\<forall>i. idx \<le> i \<and> i < length planned \<longrightarrow>
      \<not> (codec cfg = H265 \<and> 0 < threads cfg \<and> x265_params_has_pools cfg)
      \<and> encode_result (encodes env (Suc i)) \<and> encode_output (encodes env (Suc i)) \<noteq> None
                      \<and> \<not> move_fails (encodes env (Suc i)) \<and> encode_sigints (encodes env (Suc i)) = 0"
  proof (intro allI impI)
    fix i
    assume "idx \<le> i \<and> i < length planned"
    then have "idx < Suc i \<and> Suc i \<le> length planned" by simp
    with good show "\<not> (codec cfg = H265 \<and> 0 < threads cfg \<and> x265_params_has_pools cfg)
      \<and> encode_result (encodes env (Suc i)) \<and> encode_output (encodes env (Suc i)) \<noteq> None
                      \<and> \<not> move_fails (encodes env (Suc i)) \<and> encode_sigints (encodes env (Suc i)) = 0"
      by blast
  qed
  show ?thesis by (rule run_all_segments_succeed [OF st scan sig0 g])
qed

text \<open>
  Claim C7, as amended.  The final outcome starts the concatenation only when the number
  of completed artifacts equals the number of planned segments and no stop is requested
  at that moment.  In a run of the script:

  \<^item> if the log shows that a segment failed (the encoder reports failure or the move of
    its part file fails) and no stop is requested at the end, the exit status is 1, no
    concatenation was run and the destination does not exist;
  \<^item> if the concatenation was started, the exit status is that of the concatenation
    (0, 1 or 2 as it succeeds, fails or raises), whether or not a stop was requested
    while it ran;
  \<^item> an interrupt signal that arrives during startup or while a segment is being
    encoded leaves the stop requested at the end;
  \<^item> from the inputs, for a run that plans its segments and whose resume scan accepts
    the first \<open>idx\<close> artifacts: a signal during startup gives exit status 0, no
    concatenation and no destination; without such a signal, if every remaining
    segment is encoded and moved without a signal, the exit status is that of the
    concatenation (2 when the manifest cannot be written), whatever signals arrive
    while it runs; and if the segments
    \<open>idx + 1\<close> to \<open>m - 1\<close> are encoded and moved without a signal, then a failure of
    segment \<open>m\<close> (the configuration makes \<^verbatim>\<open>encode_segment\<close> refuse, or without a signal
    the backend fails, leaves no part file, or the move fails) gives exit status 1, no
    concatenation and no destination, and a signal during the backend run of segment
    \<open>m\<close> gives exit status 0, no concatenation and no destination.
\<close>

theorem concatenation_only_when_complete:
  "(\<forall>planned completed w.
      Concat_run \<notin> set (events w)
      \<and> Concat_run \<in> set (events (snd (final_outcome cfg env planned completed w))) \<longrightarrow>
      length completed = length planned \<and> \<not> stop_requested (flags w))
   \<and> (case script cfg env fs d of
        (code, w') \<Rightarrow>
          ((\<exists>n. Segment_failed n \<in> set (events w') \<or> Move_failed n \<in> set (events w'))
            \<and> \<not> stop_requested (flags w') \<longrightarrow>
            code = 1 \<and> files w' Final_output_file = None \<and> Concat_run \<notin> set (events w'))
          \<and> (Concat_run \<in> set (events w') \<longrightarrow>
               code = (case concat_result env of Succeeds \<Rightarrow> 0 | Fails \<Rightarrow> 1 | Raises \<Rightarrow> 2))
          \<and> (0 < startup_sigints env
               \<or> (\<exists>n ok. Encode_run n ok \<in> set (events w')
                     \<and> 0 < encode_sigints (encodes env n)) \<longrightarrow>
               stop_requested (flags w'))
          \<and> (\<forall>a planned w1 c idx w2.
                startup cfg env (initial_world fs d) = (Inr (a, planned), w1)
                \<and> resume_scan planned 0 [] 0 w1 = (c, idx, w2) \<longrightarrow>
                (0 < startup_sigints env \<longrightarrow>
                   code = 0 \<and> files w' Final_output_file = None
                   \<and> Concat_run \<notin> set (events w'))
                \<and> (startup_sigints env = 0
                     \<and> (\<forall>n. idx < n \<and> n \<le> length planned \<longrightarrow>
                            \<not> (codec cfg = H265 \<and> 0 < threads cfg \<and> x265_params_has_pools cfg)
                            \<and> encode_result (encodes env n) \<and> encode_output (encodes env n) \<noteq> None
                            \<and> \<not> move_fails (encodes env n) \<and> encode_sigints (encodes env n) = 0) \<longrightarrow>
                     code =
                       (case manifest_write env of
                          Written \<Rightarrow>
                            (case concat_result env of Succeeds \<Rightarrow> 0 | Fails \<Rightarrow> 1 | Raises \<Rightarrow> 2)
                        | _ \<Rightarrow> 2))
                \<and> (\<forall>m. startup_sigints env = 0 \<and> idx < m \<and> m \<le> length planned
                      \<and> (\<forall>n. idx < n \<and> n < m \<longrightarrow>
                            \<not> (codec cfg = H265 \<and> 0 < threads cfg \<and> x265_params_has_pools cfg)
                            \<and> encode_result (encodes env n) \<and> encode_output (encodes env n) \<noteq> None
                            \<and> \<not> move_fails (encodes env n) \<and> encode_sigints (encodes env n) = 0) \<longrightarrow>
                      ((codec cfg = H265 \<and> 0 < threads cfg \<and> x265_params_has_pools cfg)
                       \<or> encode_sigints (encodes env m) = 0
                         \<and> (\<not> encode_result (encodes env m)
                             \<or> encode_output (encodes env m) = None
                             \<or> move_fails (encodes env m)) \<longrightarrow>
                         code = 1 \<and> files w' Final_output_file = None
                         \<and> Concat_run \<notin> set (events w'))
                      \<and> (\<not> (codec cfg = H265 \<and> 0 < threads cfg \<and> x265_params_has_pools cfg)
                           \<and> 0 < encode_sigints (encodes env m) \<longrightarrow>
                           code = 0 \<and> files w' Final_output_file = None
                           \<and> Concat_run \<notin> set (events w')))))"
proof (intro conjI allI impI)
  fix planned completed w
  assume h: "Concat_run \<notin> set (events w)
      \<and> Concat_run \<in> set (events (snd (final_outcome cfg env planned completed w)))"
  from final_outcome_summary [of w cfg env planned completed] obtain zs where
    "events (snd (final_outcome cfg env planned completed w)) = events w @ zs"
    "zs \<noteq> [] \<longrightarrow> \<not> stop_requested (flags w) \<and> length completed = length planned"
    by blast
  with h have "\<not> stop_requested (flags w) \<and> length completed = length planned" by auto
  then show "length completed = length planned" and "\<not> stop_requested (flags w)" by simp_all
next
  obtain code w' where run: "script cfg env fs d = (code, w')"
    by (cases "script cfg env fs d")
  note sum = script_summary [OF run]
  have whole: "\<forall>a planned w1 c idx w2.
                startup cfg env (initial_world fs d) = (Inr (a, planned), w1)
                \<and> resume_scan planned 0 [] 0 w1 = (c, idx, w2) \<longrightarrow>
                (0 < startup_sigints env \<longrightarrow>
                   code = 0 \<and> files w' Final_output_file = None
                   \<and> Concat_run \<notin> set (events w'))
                \<and> (startup_sigints env = 0
                     \<and> (\<forall>n. idx < n \<and> n \<le> length planned \<longrightarrow>
                            \<not> (codec cfg = H265 \<and> 0 < threads cfg \<and> x265_params_has_pools cfg)
                            \<and> encode_result (encodes env n) \<and> encode_output (encodes env n) \<noteq> None
                            \<and> \<not> move_fails (encodes env n) \<and> encode_sigints (encodes env n) = 0) \<longrightarrow>
                     code =
                       (case manifest_write env of
                          Written \<Rightarrow>
                            (case concat_result env of Succeeds \<Rightarrow> 0 | Fails \<Rightarrow> 1 | Raises \<Rightarrow> 2)
                        | _ \<Rightarrow> 2))
                \<and> (\<forall>m. startup_sigints env = 0 \<and> idx < m \<and> m \<le> length planned
                      \<and> (\<forall>n. idx < n \<and> n < m \<longrightarrow>
                            \<not> (codec cfg = H265 \<and> 0 < threads cfg \<and> x265_params_has_pools cfg)
                            \<and> encode_result (encodes env n) \<and> encode_output (encodes env n) \<noteq> None
                            \<and> \<not> move_fails (encodes env n) \<and> encode_sigints (encodes env n) = 0) \<longrightarrow>
                      ((codec cfg = H265 \<and> 0 < threads cfg \<and> x265_params_has_pools cfg)
                       \<or> encode_sigints (encodes env m) = 0
                         \<and> (\<not> encode_result (encodes env m)
                             \<or> encode_output (encodes env m) = None
                             \<or> move_fails (encodes env m)) \<longrightarrow>
                         code = 1 \<and> files w' Final_output_file = None
                         \<and> Concat_run \<notin> set (events w'))
                      \<and> (\<not> (codec cfg = H265 \<and> 0 < threads cfg \<and> x265_params_has_pools cfg)
                           \<and> 0 < encode_sigints (encodes env m) \<longrightarrow>
                           code = 0 \<and> files w' Final_output_file = None
                           \<and> Concat_run \<notin> set (events w')))"
  proof (intro allI impI conjI)
    fix a planned w1 c idx w2
    assume h: "startup cfg env (initial_world fs d) = (Inr (a, planned), w1)
        \<and> resume_scan planned 0 [] 0 w1 = (c, idx, w2)"
    then have st: "startup cfg env (initial_world fs d) = (Inr (a, planned), w1)" by simp
    assume sig: "0 < startup_sigints env"
    from run_interrupted_at_startup [OF st sig]
    have "fst (script cfg env fs d) = 0"
      "files (snd (script cfg env fs d)) Final_output_file = None"
      "\<forall>e \<in> set (events (snd (script cfg env fs d))). \<exists>p. e = Checked p \<or> e = Probed p"
      by simp_all
    with run have "code = 0" "files w' Final_output_file = None"
      "\<forall>e \<in> set (events w'). \<exists>p. e = Checked p \<or> e = Probed p" by simp_all
    then show "code = 0" "files w' Final_output_file = None" "Concat_run \<notin> set (events w')"
      by auto
  next
    fix a planned w1 c idx w2
    assume h: "startup cfg env (initial_world fs d) = (Inr (a, planned), w1)
        \<and> resume_scan planned 0 [] 0 w1 = (c, idx, w2)"
    then have st: "startup cfg env (initial_world fs d) = (Inr (a, planned), w1)"
      and scan: "resume_scan planned 0 [] 0 w1 = (c, idx, w2)" by simp_all
    assume p: "startup_sigints env = 0
                     \<and> (\<forall>n. idx < n \<and> n \<le> length planned \<longrightarrow>
                            \<not> (codec cfg = H265 \<and> 0 < threads cfg \<and> x265_params_has_pools cfg)
                            \<and> encode_result (encodes env n) \<and> encode_output (encodes env n) \<noteq> None
                            \<and> \<not> move_fails (encodes env n) \<and> encode_sigints (encodes env n) = 0)"
    then have sig0: "startup_sigints env = 0" by (rule conjunct1)
    from p have good: "\<forall>n. idx < n \<and> n \<le> length planned \<longrightarrow>
                            \<not> (codec cfg = H265 \<and> 0 < threads cfg \<and> x265_params_has_pools cfg)
                            \<and> encode_result (encodes env n) \<and> encode_output (encodes env n) \<noteq> None
                            \<and> \<not> move_fails (encodes env n) \<and> encode_sigints (encodes env n) = 0"
      by (rule conjunct2)
    from run_all_by_segment_number [OF st scan sig0 good] run
    show "code =
                       (case manifest_write env of
                          Written \<Rightarrow>
                            (case concat_result env of Succeeds \<Rightarrow> 0 | Fails \<Rightarrow> 1 | Raises \<Rightarrow> 2)
                        | _ \<Rightarrow> 2)" by simp
  next
    fix a planned w1 c idx w2 m
    assume h: "startup cfg env (initial_world fs d) = (Inr (a, planned), w1)
        \<and> resume_scan planned 0 [] 0 w1 = (c, idx, w2)"
    assume p: "startup_sigints env = 0 \<and> idx < m \<and> m \<le> length planned
                      \<and> (\<forall>n. idx < n \<and> n < m \<longrightarrow>
                            \<not> (codec cfg = H265 \<and> 0 < threads cfg \<and> x265_params_has_pools cfg)
                            \<and> encode_result (encodes env n) \<and> encode_output (encodes env n) \<noteq> None
                            \<and> \<not> move_fails (encodes env n) \<and> encode_sigints (encodes env n) = 0)"
    have r: "((codec cfg = H265 \<and> 0 < threads cfg \<and> x265_params_has_pools cfg)
                       \<or> encode_sigints (encodes env m) = 0
                         \<and> (\<not> encode_result (encodes env m)
                             \<or> encode_output (encodes env m) = None
                             \<or> move_fails (encodes env m)) \<longrightarrow>
           fst (script cfg env fs d) = 1
           \<and> files (snd (script cfg env fs d)) Final_output_file = None
           \<and> Concat_run \<notin> set (events (snd (script cfg env fs d))))
      \<and> (\<not> (codec cfg = H265 \<and> 0 < threads cfg \<and> x265_params_has_pools cfg) \<and> 0 < encode_sigints (encodes env m) \<longrightarrow>
           fst (script cfg env fs d) = 0
           \<and> files (snd (script cfg env fs d)) Final_output_file = None
           \<and> Concat_run \<notin> set (events (snd (script cfg env fs d))))"
    proof -
      from h have st: "startup cfg env (initial_world fs d) = (Inr (a, planned), w1)"
        and scan: "resume_scan planned 0 [] 0 w1 = (c, idx, w2)" by simp_all
      from p have sig0: "startup_sigints env = 0" and m1: "idx < m" and m2: "m \<le> length planned"
        by simp_all
      from p have good: "\<forall>n. idx < n \<and> n < m \<longrightarrow>
          \<not> (codec cfg = H265 \<and> 0 < threads cfg \<and> x265_params_has_pools cfg)
          \<and> encode_result (encodes env n) \<and> encode_output (encodes env n) \<noteq> None
          \<and> \<not> move_fails (encodes env n) \<and> encode_sigints (encodes env n) = 0"
        by (rule conjunct2 [THEN conjunct2, THEN conjunct2])
      show ?thesis by (rule run_by_segment_number [OF st scan sig0 m1 m2 good])
    qed
    {
      assume "(codec cfg = H265 \<and> 0 < threads cfg \<and> x265_params_has_pools cfg)
                       \<or> encode_sigints (encodes env m) = 0
                         \<and> (\<not> encode_result (encodes env m)
                             \<or> encode_output (encodes env m) = None
                             \<or> move_fails (encodes env m))"
      with r have "fst (script cfg env fs d) = 1
           \<and> files (snd (script cfg env fs d)) Final_output_file = None
           \<and> Concat_run \<notin> set (events (snd (script cfg env fs d)))" by blast
      with run show "code = 1" "files w' Final_output_file = None"
        "Concat_run \<notin> set (events w')" by simp_all
    }
    {
      assume "\<not> (codec cfg = H265 \<and> 0 < threads cfg \<and> x265_params_has_pools cfg) \<and> 0 < encode_sigints (encodes env m)"
      with r have "fst (script cfg env fs d) = 0
           \<and> files (snd (script cfg env fs d)) Final_output_file = None
           \<and> Concat_run \<notin> set (events (snd (script cfg env fs d)))" by blast
      with run show "code = 0" "files w' Final_output_file = None"
        "Concat_run \<notin> set (events w')" by simp_all
    }
  qed
  note s1 = sum [THEN conjunct1]
  note s5 = sum [THEN conjunct2, THEN conjunct2, THEN conjunct2, THEN conjunct2, THEN conjunct1]
  note s7 = sum [THEN conjunct2, THEN conjunct2, THEN conjunct2, THEN conjunct2, THEN conjunct2,
      THEN conjunct2]
  show "case script cfg env fs d of
        (code, w') \<Rightarrow>
          ((\<exists>n. Segment_failed n \<in> set (events w') \<or> Move_failed n \<in> set (events w'))
            \<and> \<not> stop_requested (flags w') \<longrightarrow>
            code = 1 \<and> files w' Final_output_file = None \<and> Concat_run \<notin> set (events w'))
          \<and> (Concat_run \<in> set (events w') \<longrightarrow>
               code = (case concat_result env of Succeeds \<Rightarrow> 0 | Fails \<Rightarrow> 1 | Raises \<Rightarrow> 2))
          \<and> (0 < startup_sigints env
               \<or> (\<exists>n ok. Encode_run n ok \<in> set (events w')
                     \<and> 0 < encode_sigints (encodes env n)) \<longrightarrow>
               stop_requested (flags w'))
          \<and> (\<forall>a planned w1 c idx w2.
                startup cfg env (initial_world fs d) = (Inr (a, planned), w1)
                \<and> resume_scan planned 0 [] 0 w1 = (c, idx, w2) \<longrightarrow>
                (0 < startup_sigints env \<longrightarrow>
                   code = 0 \<and> files w' Final_output_file = None
                   \<and> Concat_run \<notin> set (events w'))
                \<and> (startup_sigints env = 0
                     \<and> (\<forall>n. idx < n \<and> n \<le> length planned \<longrightarrow>
                            \<not> (codec cfg = H265 \<and> 0 < threads cfg \<and> x265_params_has_pools cfg)
                            \<and> encode_result (encodes env n) \<and> encode_output (encodes env n) \<noteq> None
                            \<and> \<not> move_fails (encodes env n) \<and> encode_sigints (encodes env n) = 0) \<longrightarrow>
                     code =
                       (case manifest_write env of
                          Written \<Rightarrow>
                            (case concat_result env of Succeeds \<Rightarrow> 0 | Fails \<Rightarrow> 1 | Raises \<Rightarrow> 2)
                        | _ \<Rightarrow> 2))
                \<and> (\<forall>m. startup_sigints env = 0 \<and> idx < m \<and> m \<le> length planned
                      \<and> (\<forall>n. idx < n \<and> n < m \<longrightarrow>
                            \<not> (codec cfg = H265 \<and> 0 < threads cfg \<and> x265_params_has_pools cfg)
                            \<and> encode_result (encodes env n) \<and> encode_output (encodes env n) \<noteq> None
                            \<and> \<not> move_fails (encodes env n) \<and> encode_sigints (encodes env n) = 0) \<longrightarrow>
                      ((codec cfg = H265 \<and> 0 < threads cfg \<and> x265_params_has_pools cfg)
                       \<or> encode_sigints (encodes env m) = 0
                         \<and> (\<not> encode_result (encodes env m)
                             \<or> encode_output (encodes env m) = None
                             \<or> move_fails (encodes env m)) \<longrightarrow>
                         code = 1 \<and> files w' Final_output_file = None
                         \<and> Concat_run \<notin> set (events w'))
                      \<and> (\<not> (codec cfg = H265 \<and> 0 < threads cfg \<and> x265_params_has_pools cfg)
                           \<and> 0 < encode_sigints (encodes env m) \<longrightarrow>
                           code = 0 \<and> files w' Final_output_file = None
                           \<and> Concat_run \<notin> set (events w'))))"
    unfolding run prod.case by (intro conjI s1 s7 s5 whole)
qed

theorem concatenation_only_when_complete_witness:
  "Segment_failed 2 \<in> set (events (snd (script example_config
          (calm\<lparr>encodes := (\<lambda>n. \<lparr>encode_result = (n \<noteq> 2), encode_output = Some (clip 5 n),
                                  encode_sigints = 0, move_fails = False\<rparr>)\<rparr>)
          [Input_file \<mapsto> clip 12 1] True)))
   \<and> \<not> stop_requested (flags (snd (script example_config
          (calm\<lparr>encodes := (\<lambda>n. \<lparr>encode_result = (n \<noteq> 2), encode_output = Some (clip 5 n),
                                  encode_sigints = 0, move_fails = False\<rparr>)\<rparr>)
          [Input_file \<mapsto> clip 12 1] True)))
   \<and> fst (script example_config
          (calm\<lparr>encodes := (\<lambda>n. \<lparr>encode_result = (n \<noteq> 2), encode_output = Some (clip 5 n),
                                  encode_sigints = 0, move_fails = False\<rparr>)\<rparr>)
          [Input_file \<mapsto> clip 12 1] True) = 1
   \<and> files (snd (script example_config
          (calm\<lparr>encodes := (\<lambda>n. \<lparr>encode_result = (n \<noteq> 2), encode_output = Some (clip 5 n),
                                  encode_sigints = 0, move_fails = False\<rparr>)\<rparr>)
          [Input_file \<mapsto> clip 12 1] True)) Final_output_file = None
   \<and> Concat_run \<notin> set (events (snd (script example_config
          (calm\<lparr>encodes := (\<lambda>n. \<lparr>encode_result = (n \<noteq> 2), encode_output = Some (clip 5 n),
                                  encode_sigints = 0, move_fails = False\<rparr>)\<rparr>)
          [Input_file \<mapsto> clip 12 1] True)))"
proof -
  obtain code w' where run: "(script example_config
          (calm\<lparr>encodes := (\<lambda>n. \<lparr>encode_result = (n \<noteq> 2), encode_output = Some (clip 5 n),
                                  encode_sigints = 0, move_fails = False\<rparr>)\<rparr>)
          [Input_file \<mapsto> clip 12 1] True) = (code, w')"
    by (cases "(script example_config
          (calm\<lparr>encodes := (\<lambda>n. \<lparr>encode_result = (n \<noteq> 2), encode_output = Some (clip 5 n),
                                  encode_sigints = 0, move_fails = False\<rparr>)\<rparr>)
          [Input_file \<mapsto> clip 12 1] True)")
  from failing_run run have failed: "Segment_failed 2 \<in> set (events w')"
    and going: "\<not> stop_requested (flags w')" by simp_all
  from concatenation_only_when_complete [where cfg = example_config
      and env = "(calm\<lparr>encodes := (\<lambda>n. \<lparr>encode_result = (n \<noteq> 2), encode_output = Some (clip 5 n),
                                  encode_sigints = 0, move_fails = False\<rparr>)\<rparr>)"
      and fs = "[Input_file \<mapsto> clip 12 1]" and d = True, THEN conjunct2]
  have "(\<exists>n. Segment_failed n \<in> set (events w') \<or> Move_failed n \<in> set (events w'))
            \<and> \<not> stop_requested (flags w') \<longrightarrow>
        code = 1 \<and> files w' Final_output_file = None \<and> Concat_run \<notin> set (events w')"
    unfolding run prod.case by (rule conjunct1)
  with failed going have "code = 1 \<and> files w' Final_output_file = None
      \<and> Concat_run \<notin> set (events w')" by blast
  with failed going show ?thesis unfolding run by simp
qed

text \<open>
  Claim C8, as amended.  At the final outcome the exit status is 0 when a stop is
  requested at that moment; 1 when no stop is requested and fewer artifacts are
  completed than segments planned; and when all are completed it is 0 if the
  concatenation succeeds, 1 if it fails and 2 if an exception leaves it (also when the
  manifest cannot be written).  Returning from \<^verbatim>\<open>main_process\<close> is status 0,
  \<^verbatim>\<open>sys.exit(n)\<close> is status \<open>n\<close>, any other exception is status 2.  A run of the script
  never ends with another status than 0, 1 or 2; if it ran the concatenation, its status
  is 0, 1 or 2 as the concatenation succeeded, failed or raised, whatever signals
  arrived meanwhile; if the log shows a failed segment and no stop is requested at the
  end, it is 1; a run that ends during startup ends with the status 0 or 1 chosen
  there.  From the inputs, for a run that plans its segments and
  whose resume scan accepts the first \<open>idx\<close> artifacts: a signal during startup gives
  status 0; without one, if every remaining segment is encoded and moved without a
  signal, the status is that of the concatenation; if the segments up to \<open>m - 1\<close> are and
  segment \<open>m\<close> fails without a signal, the status is 1; if segment \<open>m\<close> is interrupted by
  a signal, the status is 0.
\<close>

theorem exit_codes:
  "(case final_outcome cfg env planned completed w of
      (out, w') \<Rightarrow>
        (stop_requested (flags w) \<longrightarrow> exit_code out = 0)
        \<and> (\<not> stop_requested (flags w) \<and> length completed \<noteq> length planned \<longrightarrow>
             exit_code out = 1)
        \<and> (\<not> stop_requested (flags w) \<and> length completed = length planned
             \<and> planned \<noteq> [] \<longrightarrow>
             exit_code out =
               (case manifest_write env of
                  Written \<Rightarrow>
                    (case concat_result env of Succeeds \<Rightarrow> 0 | Fails \<Rightarrow> 1 | Raises \<Rightarrow> 2)
                | _ \<Rightarrow> 2)))
   \<and> exit_code Returned = 0 \<and> exit_code (Sys_exit n) = n \<and> exit_code Raised = 2
   \<and> (case script cfg env fs d of
        (code, w') \<Rightarrow>
          code \<in> {0, 1, 2}
          \<and> (Concat_run \<in> set (events w') \<longrightarrow>
               code = (case concat_result env of Succeeds \<Rightarrow> 0 | Fails \<Rightarrow> 1 | Raises \<Rightarrow> 2))
          \<and> ((\<exists>n. Segment_failed n \<in> set (events w') \<or> Move_failed n \<in> set (events w'))
               \<and> \<not> stop_requested (flags w') \<longrightarrow> code = 1)
          \<and> (\<forall>out w1. startup cfg env (initial_world fs d) = (Inl out, w1) \<longrightarrow>
                code = exit_code out \<and> w' = w1 \<and> (out = Sys_exit 0 \<or> out = Sys_exit 1))
          \<and> (\<forall>a segs w1 c idx w2.
                startup cfg env (initial_world fs d) = (Inr (a, segs), w1)
                \<and> resume_scan segs 0 [] 0 w1 = (c, idx, w2) \<longrightarrow>
                (0 < startup_sigints env \<longrightarrow> code = 0)
                \<and> (startup_sigints env = 0
                     \<and> (\<forall>n. idx < n \<and> n \<le> length segs \<longrightarrow>
                            \<not> (codec cfg = H265 \<and> 0 < threads cfg \<and> x265_params_has_pools cfg)
                            \<and> encode_result (encodes env n) \<and> encode_output (encodes env n) \<noteq> None
                            \<and> \<not> move_fails (encodes env n) \<and> encode_sigints (encodes env n) = 0) \<longrightarrow>
                     code =
                       (case manifest_write env of
                          Written \<Rightarrow>
                            (case concat_result env of Succeeds \<Rightarrow> 0 | Fails \<Rightarrow> 1 | Raises \<Rightarrow> 2)
                        | _ \<Rightarrow> 2))
                \<and> (\<forall>m. startup_sigints env = 0 \<and> idx < m \<and> m \<le> length segs
                      \<and> (\<forall>n. idx < n \<and> n < m \<longrightarrow>
                            \<not> (codec cfg = H265 \<and> 0 < threads cfg \<and> x265_params_has_pools cfg)
                            \<and> encode_result (encodes env n) \<and> encode_output (encodes env n) \<noteq> None
                            \<and> \<not> move_fails (encodes env n) \<and> encode_sigints (encodes env n) = 0) \<longrightarrow>
                      ((codec cfg = H265 \<and> 0 < threads cfg \<and> x265_params_has_pools cfg)
                       \<or> encode_sigints (encodes env m) = 0
                         \<and> (\<not> encode_result (encodes env m)
                             \<or> encode_output (encodes env m) = None
                             \<or> move_fails (encodes env m)) \<longrightarrow> code = 1)
                      \<and> (\<not> (codec cfg = H265 \<and> 0 < threads cfg \<and> x265_params_has_pools cfg)
                           \<and> 0 < encode_sigints (encodes env m) \<longrightarrow> code = 0))))"
proof (intro conjI)
  obtain out w' where fin: "final_outcome cfg env planned completed w = (out, w')"
    by (cases "final_outcome cfg env planned completed w")
  have a: "stop_requested (flags w) \<longrightarrow> exit_code out = 0"
    using fin by (auto simp: final_outcome_stop)
  have b: "\<not> stop_requested (flags w) \<and> length completed \<noteq> length planned \<longrightarrow>
      exit_code out = 1"
    using fin by (auto simp: final_outcome_incomplete)
  have c: "\<not> stop_requested (flags w) \<and> length completed = length planned
      \<and> planned \<noteq> [] \<longrightarrow>
      exit_code out =
               (case manifest_write env of
                  Written \<Rightarrow>
                    (case concat_result env of Succeeds \<Rightarrow> 0 | Fails \<Rightarrow> 1 | Raises \<Rightarrow> 2)
                | _ \<Rightarrow> 2)"
    using final_outcome_concatenation [of w completed planned cfg env] fin by auto
  show "(case final_outcome cfg env planned completed w of
      (out, w') \<Rightarrow>
        (stop_requested (flags w) \<longrightarrow> exit_code out = 0)
        \<and> (\<not> stop_requested (flags w) \<and> length completed \<noteq> length planned \<longrightarrow>
             exit_code out = 1)
        \<and> (\<not> stop_requested (flags w) \<and> length completed = length planned
             \<and> planned \<noteq> [] \<longrightarrow>
             exit_code out =
               (case manifest_write env of
                  Written \<Rightarrow>
                    (case concat_result env of Succeeds \<Rightarrow> 0 | Fails \<Rightarrow> 1 | Raises \<Rightarrow> 2)
                | _ \<Rightarrow> 2)))"
    unfolding fin prod.case by (intro conjI a b c)
next
  show "exit_code Returned = 0" by simp
  show "exit_code (Sys_exit n) = n" by simp
  show "exit_code Raised = 2" by simp
next
  obtain code w' where run: "script cfg env fs d = (code, w')"
    by (cases "script cfg env fs d")
  note sum = script_summary [OF run]
  note s6 = sum [THEN conjunct2, THEN conjunct2, THEN conjunct2, THEN conjunct2, THEN conjunct2,
      THEN conjunct1]
  note s7 = sum [THEN conjunct2, THEN conjunct2, THEN conjunct2, THEN conjunct2, THEN conjunct2,
      THEN conjunct2]
  have s1: "(\<exists>n. Segment_failed n \<in> set (events w') \<or> Move_failed n \<in> set (events w'))
               \<and> \<not> stop_requested (flags w') \<longrightarrow> code = 1"
    using sum [THEN conjunct1] by blast
  have early: "\<forall>out w1. startup cfg env (initial_world fs d) = (Inl out, w1) \<longrightarrow>
                code = exit_code out \<and> w' = w1 \<and> (out = Sys_exit 0 \<or> out = Sys_exit 1)"
  proof (intro allI impI)
    fix out w1
    assume st: "startup cfg env (initial_world fs d) = (Inl out, w1)"
    with run have "code = exit_code out \<and> w' = w1"
      by (auto simp: script_def main_process_def)
    moreover from startup_summary [OF st] have "out = Sys_exit 0 \<or> out = Sys_exit 1" by simp
    ultimately show "code = exit_code out \<and> w' = w1 \<and> (out = Sys_exit 0 \<or> out = Sys_exit 1)"
      by simp
  qed
  have whole: "(\<forall>a segs w1 c idx w2.
                startup cfg env (initial_world fs d) = (Inr (a, segs), w1)
                \<and> resume_scan segs 0 [] 0 w1 = (c, idx, w2) \<longrightarrow>
                (0 < startup_sigints env \<longrightarrow> code = 0)
                \<and> (startup_sigints env = 0
                     \<and> (\<forall>n. idx < n \<and> n \<le> length segs \<longrightarrow>
                            \<not> (codec cfg = H265 \<and> 0 < threads cfg \<and> x265_params_has_pools cfg)
                            \<and> encode_result (encodes env n) \<and> encode_output (encodes env n) \<noteq> None
                            \<and> \<not> move_fails (encodes env n) \<and> encode_sigints (encodes env n) = 0) \<longrightarrow>
                     code =
                       (case manifest_write env of
                          Written \<Rightarrow>
                            (case concat_result env of Succeeds \<Rightarrow> 0 | Fails \<Rightarrow> 1 | Raises \<Rightarrow> 2)
                        | _ \<Rightarrow> 2))
                \<and> (\<forall>m. startup_sigints env = 0 \<and> idx < m \<and> m \<le> length segs
                      \<and> (\<forall>n. idx < n \<and> n < m \<longrightarrow>
                            \<not> (codec cfg = H265 \<and> 0 < threads cfg \<and> x265_params_has_pools cfg)
                            \<and> encode_result (encodes env n) \<and> encode_output (encodes env n) \<noteq> None
                            \<and> \<not> move_fails (encodes env n) \<and> encode_sigints (encodes env n) = 0) \<longrightarrow>
                      ((codec cfg = H265 \<and> 0 < threads cfg \<and> x265_params_has_pools cfg)
                       \<or> encode_sigints (encodes env m) = 0
                         \<and> (\<not> encode_result (encodes env m)
                             \<or> encode_output (encodes env m) = None
                             \<or> move_fails (encodes env m)) \<longrightarrow> code = 1)
                      \<and> (\<not> (codec cfg = H265 \<and> 0 < threads cfg \<and> x265_params_has_pools cfg)
                           \<and> 0 < encode_sigints (encodes env m) \<longrightarrow> code = 0)))"
  proof (intro allI impI conjI)
    fix a segs w1 c idx w2
    assume h: "startup cfg env (initial_world fs d) = (Inr (a, segs), w1)
        \<and> resume_scan segs 0 [] 0 w1 = (c, idx, w2)"
    then have st: "startup cfg env (initial_world fs d) = (Inr (a, segs), w1)" by simp
    assume sig: "0 < startup_sigints env"
    from run_interrupted_at_startup [OF st sig] have "fst (script cfg env fs d) = 0"
      by (rule conjunct1)
    with run show "code = 0" by simp
  next
    fix a segs w1 c idx w2
    assume h: "startup cfg env (initial_world fs d) = (Inr (a, segs), w1)
        \<and> resume_scan segs 0 [] 0 w1 = (c, idx, w2)"
    then have st: "startup cfg env (initial_world fs d) = (Inr (a, segs), w1)"
      and scan: "resume_scan segs 0 [] 0 w1 = (c, idx, w2)" by simp_all
    assume p: "startup_sigints env = 0
                     \<and> (\<forall>n. idx < n \<and> n \<le> length segs \<longrightarrow>
                            \<not> (codec cfg = H265 \<and> 0 < threads cfg \<and> x265_params_has_pools cfg)
                            \<and> encode_result (encodes env n) \<and> encode_output (encodes env n) \<noteq> None
                            \<and> \<not> move_fails (encodes env n) \<and> encode_sigints (encodes env n) = 0)"
    then have sig0: "startup_sigints env = 0" by (rule conjunct1)
    from p have good: "\<forall>n. idx < n \<and> n \<le> length segs \<longrightarrow>
                            \<not> (codec cfg = H265 \<and> 0 < threads cfg \<and> x265_params_has_pools cfg)
                            \<and> encode_result (encodes env n) \<and> encode_output (encodes env n) \<noteq> None
                            \<and> \<not> move_fails (encodes env n) \<and> encode_sigints (encodes env n) = 0"
      by (rule conjunct2)
    from run_all_by_segment_number [OF st scan sig0 good] run
    show "code =
               (case manifest_write env of
                  Written \<Rightarrow>
                    (case concat_result env of Succeeds \<Rightarrow> 0 | Fails \<Rightarrow> 1 | Raises \<Rightarrow> 2)
                | _ \<Rightarrow> 2)" by simp
  next
    fix a segs w1 c idx w2 m
    assume h: "startup cfg env (initial_world fs d) = (Inr (a, segs), w1)
        \<and> resume_scan segs 0 [] 0 w1 = (c, idx, w2)"
    then have st: "startup cfg env (initial_world fs d) = (Inr (a, segs), w1)"
      and scan: "resume_scan segs 0 [] 0 w1 = (c, idx, w2)" by simp_all
    assume p: "startup_sigints env = 0 \<and> idx < m \<and> m \<le> length segs
                      \<and> (\<forall>n. idx < n \<and> n < m \<longrightarrow>
                            \<not> (codec cfg = H265 \<and> 0 < threads cfg \<and> x265_params_has_pools cfg)
                            \<and> encode_result (encodes env n) \<and> encode_output (encodes env n) \<noteq> None
                            \<and> \<not> move_fails (encodes env n) \<and> encode_sigints (encodes env n) = 0)"
    then have sig0: "startup_sigints env = 0" and m1: "idx < m" and m2: "m \<le> length segs"
      by simp_all
    from p have good: "\<forall>n. idx < n \<and> n < m \<longrightarrow>
                            \<not> (codec cfg = H265 \<and> 0 < threads cfg \<and> x265_params_has_pools cfg)
                            \<and> encode_result (encodes env n) \<and> encode_output (encodes env n) \<noteq> None
                            \<and> \<not> move_fails (encodes env n) \<and> encode_sigints (encodes env n) = 0"
      by (rule conjunct2 [THEN conjunct2, THEN conjunct2])
    note r = run_by_segment_number [OF st scan sig0 m1 m2 good]
    {
      assume "(codec cfg = H265 \<and> 0 < threads cfg \<and> x265_params_has_pools cfg)
                       \<or> encode_sigints (encodes env m) = 0
                         \<and> (\<not> encode_result (encodes env m)
                             \<or> encode_output (encodes env m) = None
                             \<or> move_fails (encodes env m))"
      with r have "fst (script cfg env fs d) = 1" by blast
      with run show "code = 1" by simp
    }
    {
      assume "\<not> (codec cfg = H265 \<and> 0 < threads cfg \<and> x265_params_has_pools cfg) \<and> 0 < encode_sigints (encodes env m)"
      with r have "fst (script cfg env fs d) = 0" by blast
      with run show "code = 0" by simp
    }
  qed
  show "(case script cfg env fs d of
        (code, w') \<Rightarrow>
          code \<in> {0, 1, 2}
          \<and> (Concat_run \<in> set (events w') \<longrightarrow>
               code = (case concat_result env of Succeeds \<Rightarrow> 0 | Fails \<Rightarrow> 1 | Raises \<Rightarrow> 2))
          \<and> ((\<exists>n. Segment_failed n \<in> set (events w') \<or> Move_failed n \<in> set (events w'))
               \<and> \<not> stop_requested (flags w') \<longrightarrow> code = 1)
          \<and> (\<forall>out w1. startup cfg env (initial_world fs d) = (Inl out, w1) \<longrightarrow>
                code = exit_code out \<and> w' = w1 \<and> (out = Sys_exit 0 \<or> out = Sys_exit 1))
          \<and> (\<forall>a segs w1 c idx w2.
                startup cfg env (initial_world fs d) = (Inr (a, segs), w1)
                \<and> resume_scan segs 0 [] 0 w1 = (c, idx, w2) \<longrightarrow>
                (0 < startup_sigints env \<longrightarrow> code = 0)
                \<and> (startup_sigints env = 0
                     \<and> (\<forall>n. idx < n \<and> n \<le> length segs \<longrightarrow>
                            \<not> (codec cfg = H265 \<and> 0 < threads cfg \<and> x265_params_has_pools cfg)
                            \<and> encode_result (encodes env n) \<and> encode_output (encodes env n) \<noteq> None
                            \<and> \<not> move_fails (encodes env n) \<and> encode_sigints (encodes env n) = 0) \<longrightarrow>
                     code =
                       (case manifest_write env of
                          Written \<Rightarrow>
                            (case concat_result env of Succeeds \<Rightarrow> 0 | Fails \<Rightarrow> 1 | Raises \<Rightarrow> 2)
                        | _ \<Rightarrow> 2))
                \<and> (\<forall>m. startup_sigints env = 0 \<and> idx < m \<and> m \<le> length segs
                      \<and> (\<forall>n. idx < n \<and> n < m \<longrightarrow>
                            \<not> (codec cfg = H265 \<and> 0 < threads cfg \<and> x265_params_has_pools cfg)
                            \<and> encode_result (encodes env n) \<and> encode_output (encodes env n) \<noteq> None
                            \<and> \<not> move_fails (encodes env n) \<and> encode_sigints (encodes env n) = 0) \<longrightarrow>
                      ((codec cfg = H265 \<and> 0 < threads cfg \<and> x265_params_has_pools cfg)
                       \<or> encode_sigints (encodes env m) = 0
                         \<and> (\<not> encode_result (encodes env m)
                             \<or> encode_output (encodes env m) = None
                             \<or> move_fails (encodes env m)) \<longrightarrow> code = 1)
                      \<and> (\<not> (codec cfg = H265 \<and> 0 < threads cfg \<and> x265_params_has_pools cfg)
                           \<and> 0 < encode_sigints (encodes env m) \<longrightarrow> code = 0))))"
    unfolding run prod.case by (intro conjI s6 s7 s1 early whole)
qed

lemma complete_run_start:
  "startup example_config (calm\<lparr>concat_result := Raises\<rparr>) (initial_world [Input_file \<mapsto> clip 12 1] True) =
     (Inr (False, calculate_segments 12 5),
      snd (startup example_config (calm\<lparr>concat_result := Raises\<rparr>) (initial_world [Input_file \<mapsto> clip 12 1] True)))
   \<and> files (snd (startup example_config (calm\<lparr>concat_result := Raises\<rparr>) (initial_world [Input_file \<mapsto> clip 12 1] True)))
        (Segment_final_file 1) = None"
  by (simp add: startup_def clean_and_plan_def Let_def save_rerun_command_def example_defs
      probe_defs has_audio_stream_def calculate_segments_example is_part_file_def
      prod_eq_iff)

theorem exit_codes_witness:
  "startup_sigints (calm\<lparr>concat_result := Raises\<rparr>) = 0
   \<and> length (calculate_segments 12 5) = 3
   \<and> fst (script example_config (calm\<lparr>concat_result := Raises\<rparr>) [Input_file \<mapsto> clip 12 1] True) = 2"
proof -
  let ?env = "(calm\<lparr>concat_result := Raises\<rparr>)"
  let ?w1 = "snd (startup example_config ?env (initial_world [Input_file \<mapsto> clip 12 1] True))"
  obtain code w' where run:
    "script example_config ?env [Input_file \<mapsto> clip 12 1] True = (code, w')"
    by (cases "script example_config ?env [Input_file \<mapsto> clip 12 1] True")
  have st: "startup example_config ?env (initial_world [Input_file \<mapsto> clip 12 1] True) =
      (Inr (False, calculate_segments 12 5), ?w1)"
    using complete_run_start by (rule conjunct1)
  have missing: "files ?w1 (Segment_final_file 1) = None"
    using complete_run_start by (rule conjunct2)
  have scan: "resume_scan (calculate_segments 12 5) 0 [] 0 ?w1 =
      ([], 0, ?w1\<lparr>events := events ?w1 @ [Checked (Segment_final_file 1)]\<rparr>)"
    using missing by (simp add: calculate_segments_example resume_scan.simps)
  have len: "length (calculate_segments 12 5) = 3" by (simp add: calculate_segments_example)
  have sig0: "startup_sigints ?env = 0" by (simp add: calm_def)
  have good: "\<forall>n. 0 < n \<and> n \<le> length (calculate_segments 12 5) \<longrightarrow>
      \<not> (codec example_config = H265 \<and> 0 < threads example_config
          \<and> x265_params_has_pools example_config)
      \<and> encode_result (encodes ?env n) \<and> encode_output (encodes ?env n) \<noteq> None
      \<and> \<not> move_fails (encodes ?env n) \<and> encode_sigints (encodes ?env n) = 0"
    by (simp add: calm_def example_config_def)
  from exit_codes [where cfg = example_config and env = ?env
      and fs = "[Input_file \<mapsto> clip 12 1]" and d = True,
      THEN conjunct2, THEN conjunct2, THEN conjunct2, THEN conjunct2]
  have "\<forall>a segs w1 c idx w2.
      startup example_config ?env (initial_world [Input_file \<mapsto> clip 12 1] True)
        = (Inr (a, segs), w1)
      \<and> resume_scan segs 0 [] 0 w1 = (c, idx, w2) \<longrightarrow>
      (startup_sigints ?env = 0
        \<and> (\<forall>n. idx < n \<and> n \<le> length segs \<longrightarrow>
              \<not> (codec example_config = H265 \<and> 0 < threads example_config
                  \<and> x265_params_has_pools example_config)
              \<and> encode_result (encodes ?env n) \<and> encode_output (encodes ?env n) \<noteq> None
              \<and> \<not> move_fails (encodes ?env n) \<and> encode_sigints (encodes ?env n) = 0) \<longrightarrow>
        code = (case manifest_write ?env of
                  Written \<Rightarrow>
                    (case concat_result ?env of Succeeds \<Rightarrow> 0 | Fails \<Rightarrow> 1 | Raises \<Rightarrow> 2)
                | _ \<Rightarrow> 2))"
    unfolding run prod.case by blast
  from this [THEN spec, THEN spec, THEN spec, THEN spec, THEN spec, THEN spec, THEN mp,
      OF conjI [OF st scan], THEN mp, OF conjI [OF sig0 good]]
  have "code = 2" by (simp add: calm_def)
  with run sig0 len show ?thesis by simp
qed

end
